theory Spec2Isabelle
  imports Complex_Main
begin

section \<open>Doubles and points (common/point.hpp)\<close>

text \<open>
  The coordinates, the far radius and the in-circle values are C++ doubles. A double
  is a finite value, an infinity or a NaN. The arithmetic of the platform (the rounded
  sum, difference, product, quotient and square root, the absolute value and the
  comparisons) is not defined here: it is a parameter of every definition that
  computes with doubles, so that nothing below depends on how an operation rounds or
  overflows. A literal of the source that a double holds exactly (\<open>0\<close>, \<open>3.0\<close>, \<open>2.0\<close>,
  \<open>0.5\<close>, \<open>6\<close>) is that finite value; \<open>-3.0\<close> is the negation of such a literal,
  which is exact as well.
\<close>

datatype double = Finite real | PosInf | NegInf | NaN

record Arith =
  d_add :: "double \<Rightarrow> double \<Rightarrow> double"
  d_sub :: "double \<Rightarrow> double \<Rightarrow> double"
  d_mul :: "double \<Rightarrow> double \<Rightarrow> double"
  d_div :: "double \<Rightarrow> double \<Rightarrow> double"
  d_sqrt :: "double \<Rightarrow> double"
  d_abs :: "double \<Rightarrow> double"
  d_lt :: "double \<Rightarrow> double \<Rightarrow> bool"
  d_le :: "double \<Rightarrow> double \<Rightarrow> bool"
  d_eq :: "double \<Rightarrow> double \<Rightarrow> bool"

text \<open>
  A \<open>Point\<close> holds two doubles. Modelled from the spec: \<open>point.hpp\<close> only declares
  the operations of a point, their bodies are not among the sources; sum, difference,
  scaling, dot product, norm and equality are given their evident componentwise
  meaning over the arithmetic of the platform, while \<open>is_right\<close> is a parameter of the
  engine, see \<open>Collaborators\<close> below.
\<close>

datatype Point = Point (px: double) (py: double)

definition padd :: "Arith \<Rightarrow> Point \<Rightarrow> Point \<Rightarrow> Point" where
  "padd ar p q = Point (d_add ar (px p) (px q)) (d_add ar (py p) (py q))"

definition psub :: "Arith \<Rightarrow> Point \<Rightarrow> Point \<Rightarrow> Point" where
  "psub ar p q = Point (d_sub ar (px p) (px q)) (d_sub ar (py p) (py q))"

definition pscale :: "Arith \<Rightarrow> double \<Rightarrow> Point \<Rightarrow> Point" where
  "pscale ar a p = Point (d_mul ar a (px p)) (d_mul ar a (py p))"

definition pdot :: "Arith \<Rightarrow> Point \<Rightarrow> Point \<Rightarrow> double" where
  "pdot ar p q = d_add ar (d_mul ar (px p) (px q)) (d_mul ar (py p) (py q))"

definition pnorm :: "Arith \<Rightarrow> Point \<Rightarrow> double" where
  "pnorm ar p = d_sqrt ar (d_add ar (d_mul ar (px p) (px p)) (d_mul ar (py p) (py p)))"

definition p_eq :: "Arith \<Rightarrow> Point \<Rightarrow> Point \<Rightarrow> bool" where
  "p_eq ar p q = (d_eq ar (px p) (px q) \<and> d_eq ar (py p) (py q))"

section \<open>The data model of the diagram\<close>

type_synonym HEVertex = nat
type_synonym HEEdge = nat
type_synonym HEFace = nat

datatype VoronoiVertexStatus = OUT | IN | UNDECIDED | NEW

datatype VoronoiVertexType = OUTER | NORMAL | POINTSITE | ENDPOINT | SEPPOINT | APEX | SPLIT

datatype VoronoiFaceStatus = INCIDENT | NONINCIDENT

datatype VoronoiEdgeType = LINE | OUTEDGE | LINESITE | SEPARATOR | NULLEDGE

text \<open>
  Modelled from the spec: the \<open>Site\<close> classes are not among the sources. A site is a
  tagged sum of \<open>PointSite(p)\<close> and \<open>LineSite(a,b,k)\<close>; each remembers the face it
  owns (the member \<open>face\<close> that \<open>add_face\<close> and \<open>add_separator\<close> use).
  \<open>apex_point(q)\<close> is the foot of the perpendicular from \<open>q\<close> (the site itself for a
  point site); \<open>in_region(q)\<close> says whether \<open>q\<close> projects onto the segment (true for
  point sites).
\<close>

datatype Site = PointSite Point "HEFace option" | LineSite Point Point int "HEFace option"

fun isPoint :: "Site \<Rightarrow> bool" where
  "isPoint (PointSite p f) = True"
| "isPoint (LineSite a b k f) = False"

fun isLine :: "Site \<Rightarrow> bool" where
  "isLine (PointSite p f) = False"
| "isLine (LineSite a b k f) = True"

fun site_face :: "Site \<Rightarrow> HEFace option" where
  "site_face (PointSite p f) = f"
| "site_face (LineSite a b k f) = f"

fun set_site_face :: "Site \<Rightarrow> HEFace \<Rightarrow> Site" where
  "set_site_face (PointSite p f) g = PointSite p (Some g)"
| "set_site_face (LineSite a b k f) g = LineSite a b k (Some g)"

fun site_position :: "Site \<Rightarrow> Point" where
  "site_position (PointSite p f) = p"
| "site_position (LineSite a b k f) = a"

definition line_param :: "Arith \<Rightarrow> Point \<Rightarrow> Point \<Rightarrow> Point \<Rightarrow> double" where
  "line_param ar a b q =
     d_div ar (pdot ar (psub ar q a) (psub ar b a)) (pdot ar (psub ar b a) (psub ar b a))"

fun apex_point :: "Arith \<Rightarrow> Site \<Rightarrow> Point \<Rightarrow> Point" where
  "apex_point ar (PointSite p f) q = p"
| "apex_point ar (LineSite a b k f) q = padd ar a (pscale ar (line_param ar a b q) (psub ar b a))"

fun in_region :: "Arith \<Rightarrow> Site \<Rightarrow> Point \<Rightarrow> bool" where
  "in_region ar (PointSite p f) q = True"
| "in_region ar (LineSite a b k f) q =
     (d_le ar (Finite 0) (line_param ar a b q) \<and> d_le ar (line_param ar a b q) (Finite 1))"

text \<open>
  Modelled from the spec: the vertex, half-edge and face property classes are not among
  the sources. Their fields are those the engine reads and writes. \<open>gen\<close> is the cached
  generator point used by the in-circle predicate; a pointer that may be invalid
  (\<open>HEEdge()\<close>, \<open>HEFace()\<close>) is an option; an edge's type, side label and bisector
  parameters are unset until the engine assigns them.
\<close>

record VoronoiVertex =
  position :: Point
  status :: VoronoiVertexStatus
  vtype :: VoronoiVertexType
  index :: int
  in_queue :: bool
  k3 :: int
  alfa :: double
  null_face :: "HEFace option"
  vface :: "HEFace option"
  gen :: "Point option"

datatype EdgeParams = NoParams | Bisector Site Site bool | SepParams Point Point

record HalfEdge =
  source :: HEVertex
  target :: HEVertex
  twin :: "HEEdge option"
  next_e :: "HEEdge option"
  eface :: "HEFace option"
  etype :: "VoronoiEdgeType option"
  k :: "int option"
  params :: EdgeParams

record FaceProps =
  edge :: "HEEdge option"
  site :: "Site option"
  fstatus :: VoronoiFaceStatus

text \<open>
  The engine object: the half-edge graph \<open>g\<close> as three arenas indexed by stable
  handles (a deleted slot is \<open>None\<close>, handles are never reused), the static vertex
  counter that numbers vertices, and the members of class \<open>VoronoiDiagram\<close>.
  \<open>modified_vertices\<close> is a \<open>std::set\<close>, kept here as a list without repetitions;
  \<open>fgrid\<close> records the faces handed to the spatial index.
\<close>

record VoronoiDiagram =
  vertices :: "HEVertex \<rightharpoonup> VoronoiVertex"
  vertex_slots :: nat
  edges :: "HEEdge \<rightharpoonup> HalfEdge"
  edge_slots :: nat
  faces :: "HEFace \<rightharpoonup> FaceProps"
  face_slots :: nat
  vertex_count :: int
  far_radius :: double
  num_psites :: int
  num_lsites :: int
  vertex_map :: "int \<rightharpoonup> HEVertex"
  vertexQueue :: "(HEVertex \<times> double) list"
  modified_vertices :: "HEVertex list"
  incident_faces :: "HEFace list"
  v0 :: "HEVertex list"
  segment_start :: "HEVertex option"
  segment_end :: "HEVertex option"
  zero_point_face :: "HEFace option"
  null_face1 :: "HEFace option"
  null_face2 :: "HEFace option"
  fgrid :: "HEFace list"

text \<open>
  How a call ends: it returns a value, or it stops at a failed \<open>assert\<close>, at the use
  of an invalid descriptor, or it never leaves a loop. A call that does not return
  reports the engine as it stood at that moment.
\<close>

datatype error = AssertFailed string | InvalidDescriptor | Diverges

datatype 'a result = Ok 'a | Fail error VoronoiDiagram

definition bind :: "'a result \<Rightarrow> ('a \<Rightarrow> 'b result) \<Rightarrow> 'b result" where
  "bind m f = (case m of Ok x \<Rightarrow> f x | Fail e s \<Rightarrow> Fail e s)"

definition assert :: "bool \<Rightarrow> string \<Rightarrow> VoronoiDiagram \<Rightarrow> unit result" where
  "assert b msg vd = (if b then Ok () else Fail (AssertFailed msg) vd)"

text \<open>
  The external collaborators of the engine, none of them among the sources: the
  arithmetic of the platform, the in-circle predicate of a vertex, \<open>Point::is_right\<close>, the spatial index, the
  positioning solver (it returns the new point and its \<open>k3\<close> label), the apex position
  on a bisector edge (\<open>minimum_t\<close> followed by \<open>point\<close>), the root bracketing
  that places a split vertex on an edge (\<open>None\<close> when the bracket is not found), the
  line coefficients \<open>(a, b)\<close> of a site, and the four predicates of the topology
  checker that the engine asserts.
\<close>

record Collaborators =
  arith :: Arith
  in_circle :: "VoronoiVertex \<Rightarrow> Point \<Rightarrow> double"
  is_right :: "Point \<Rightarrow> Point \<Rightarrow> Point \<Rightarrow> bool"
  grid_find_closest_face :: "VoronoiDiagram \<Rightarrow> Point \<Rightarrow> HEFace"
  vpos_position :: "VoronoiDiagram \<Rightarrow> HEEdge \<Rightarrow> Site \<Rightarrow> Point \<times> int"
  apex_position :: "VoronoiDiagram \<Rightarrow> HEEdge \<Rightarrow> Site \<Rightarrow> Site \<Rightarrow> Point"
  split_point :: "VoronoiDiagram \<Rightarrow> HEEdge \<Rightarrow> Point \<Rightarrow> Point \<Rightarrow> Point option"
  site_ab :: "Site \<Rightarrow> Point"
  checker_is_valid :: "VoronoiDiagram \<Rightarrow> bool"
  checker_face_ok :: "VoronoiDiagram \<Rightarrow> HEFace \<Rightarrow> bool"
  checker_check_edge :: "VoronoiDiagram \<Rightarrow> HEEdge \<Rightarrow> bool"
  checker_same_face :: "VoronoiDiagram \<Rightarrow> HEEdge \<Rightarrow> bool"

section \<open>The half-edge graph\<close>

text \<open>
  Modelled from the spec: the half-edge graph container is not among the sources.
  Its operations follow the table of low-level operations: \<open>add_vertex\<close> returns a
  new handle; \<open>add_edge\<close> adds one half-edge with nothing else set and
  \<open>add_twin_edges\<close> two of them with their twin pointers set; \<open>add_face\<close> a face with
  no edge (its status starts as NONINCIDENT); \<open>set_next_cycle\<close> chains a list into a
  ring, sets the face and the side label of every edge and makes the first edge the
  face's entry point.
\<close>

definition get_vertex :: "VoronoiDiagram \<Rightarrow> HEVertex \<Rightarrow> VoronoiVertex result" where
  "get_vertex vd v = (case vertices vd v of Some x \<Rightarrow> Ok x | None \<Rightarrow> Fail InvalidDescriptor vd)"

definition get_edge :: "VoronoiDiagram \<Rightarrow> HEEdge \<Rightarrow> HalfEdge result" where
  "get_edge vd e = (case edges vd e of Some x \<Rightarrow> Ok x | None \<Rightarrow> Fail InvalidDescriptor vd)"

definition get_face :: "VoronoiDiagram \<Rightarrow> HEFace \<Rightarrow> FaceProps result" where
  "get_face vd f = (case faces vd f of Some x \<Rightarrow> Ok x | None \<Rightarrow> Fail InvalidDescriptor vd)"

definition upd_vertex :: "HEVertex \<Rightarrow> (VoronoiVertex \<Rightarrow> VoronoiVertex) \<Rightarrow> VoronoiDiagram \<Rightarrow> VoronoiDiagram" where
  "upd_vertex v f vd = vd\<lparr>vertices := (vertices vd)(v := map_option f (vertices vd v))\<rparr>"

definition upd_edge :: "HEEdge \<Rightarrow> (HalfEdge \<Rightarrow> HalfEdge) \<Rightarrow> VoronoiDiagram \<Rightarrow> VoronoiDiagram" where
  "upd_edge e f vd = vd\<lparr>edges := (edges vd)(e := map_option f (edges vd e))\<rparr>"

definition upd_face :: "HEFace \<Rightarrow> (FaceProps \<Rightarrow> FaceProps) \<Rightarrow> VoronoiDiagram \<Rightarrow> VoronoiDiagram" where
  "upd_face f h vd = vd\<lparr>faces := (faces vd)(f := map_option h (faces vd f))\<rparr>"

text \<open>
  \<open>VoronoiVertex(p, status, type, gen)\<close> followed by \<open>g.add_vertex\<close>: the constructor
  takes the next value of the static counter as the vertex's index.
\<close>

definition new_VoronoiVertex ::
  "int \<Rightarrow> Point \<Rightarrow> VoronoiVertexStatus \<Rightarrow> VoronoiVertexType \<Rightarrow> Point option \<Rightarrow> int \<Rightarrow> VoronoiVertex" where
  "new_VoronoiVertex i p st ty gn kk = \<lparr>position = p, status = st, vtype = ty, index = i,
     in_queue = False, k3 = kk, alfa = Finite 0, null_face = None, vface = None, gen = gn\<rparr>"

definition add_vertex ::
  "Point \<Rightarrow> VoronoiVertexStatus \<Rightarrow> VoronoiVertexType \<Rightarrow> Point option \<Rightarrow> int \<Rightarrow> VoronoiDiagram
     \<Rightarrow> HEVertex \<times> VoronoiDiagram" where
  "add_vertex p st ty gn kk vd =
     (vertex_slots vd,
      vd\<lparr>vertices := (vertices vd)(vertex_slots vd \<mapsto> new_VoronoiVertex (vertex_count vd) p st ty gn kk),
         vertex_slots := Suc (vertex_slots vd),
         vertex_count := vertex_count vd + 1\<rparr>)"

definition new_HalfEdge :: "HEVertex \<Rightarrow> HEVertex \<Rightarrow> HalfEdge" where
  "new_HalfEdge u w = \<lparr>source = u, target = w, twin = None, next_e = None, eface = None,
     etype = None, k = None, params = NoParams\<rparr>"

definition add_edge :: "HEVertex \<Rightarrow> HEVertex \<Rightarrow> VoronoiDiagram \<Rightarrow> HEEdge \<times> VoronoiDiagram" where
  "add_edge u w vd =
     (edge_slots vd,
      vd\<lparr>edges := (edges vd)(edge_slots vd \<mapsto> new_HalfEdge u w), edge_slots := Suc (edge_slots vd)\<rparr>)"

definition twin_edges :: "HEEdge \<Rightarrow> HEEdge \<Rightarrow> VoronoiDiagram \<Rightarrow> VoronoiDiagram" where
  "twin_edges e1 e2 vd = upd_edge e2 (\<lambda>h. h\<lparr>twin := Some e1\<rparr>) (upd_edge e1 (\<lambda>h. h\<lparr>twin := Some e2\<rparr>) vd)"

definition add_twin_edges :: "HEVertex \<Rightarrow> HEVertex \<Rightarrow> VoronoiDiagram \<Rightarrow> (HEEdge \<times> HEEdge) \<times> VoronoiDiagram" where
  "add_twin_edges u w vd =
     (let (e1, vd1) = add_edge u w vd; (e2, vd2) = add_edge w u vd1
      in ((e1, e2), twin_edges e1 e2 vd2))"

definition g_add_face :: "VoronoiDiagram \<Rightarrow> HEFace \<times> VoronoiDiagram" where
  "g_add_face vd =
     (face_slots vd,
      vd\<lparr>faces := (faces vd)(face_slots vd \<mapsto> \<lparr>edge = None, site = None, fstatus = NONINCIDENT\<rparr>),
         face_slots := Suc (face_slots vd)\<rparr>)"

definition set_next :: "HEEdge \<Rightarrow> HEEdge \<Rightarrow> VoronoiDiagram \<Rightarrow> VoronoiDiagram" where
  "set_next e1 e2 vd = upd_edge e1 (\<lambda>h. h\<lparr>next_e := Some e2\<rparr>) vd"

fun set_next_links :: "HEEdge \<Rightarrow> HEEdge list \<Rightarrow> VoronoiDiagram \<Rightarrow> VoronoiDiagram" where
  "set_next_links first [] vd = vd"
| "set_next_links first [e] vd = set_next e first vd"
| "set_next_links first (e1 # e2 # es) vd = set_next_links first (e2 # es) (set_next e1 e2 vd)"

definition set_next_cycle :: "HEEdge list \<Rightarrow> HEFace \<Rightarrow> int \<Rightarrow> VoronoiDiagram \<Rightarrow> VoronoiDiagram" where
  "set_next_cycle es f kk vd =
     (case es of
        [] \<Rightarrow> vd
      | e # rest \<Rightarrow>
          upd_face f (\<lambda>fp. fp\<lparr>edge := Some e\<rparr>)
            (fold (\<lambda>x. upd_edge x (\<lambda>h. h\<lparr>eface := Some f, k := Some kk\<rparr>)) es
               (set_next_links e es vd)))"

definition set_type :: "HEEdge \<Rightarrow> VoronoiEdgeType \<Rightarrow> VoronoiDiagram \<Rightarrow> VoronoiDiagram" where
  "set_type e t vd = upd_edge e (\<lambda>h. h\<lparr>etype := Some t\<rparr>) vd"

definition set_parameters :: "HEEdge \<Rightarrow> Site \<Rightarrow> Site \<Rightarrow> bool \<Rightarrow> VoronoiDiagram \<Rightarrow> VoronoiDiagram" where
  "set_parameters e s1 s2 sg vd = upd_edge e (\<lambda>h. h\<lparr>params := Bisector s1 s2 sg\<rparr>) vd"

definition set_line :: "HEEdge \<Rightarrow> Site \<Rightarrow> Site \<Rightarrow> bool \<Rightarrow> VoronoiDiagram \<Rightarrow> VoronoiDiagram" where
  "set_line e s1 s2 sg vd = set_parameters e s1 s2 sg (set_type e LINE vd)"

definition set_site :: "HEFace \<Rightarrow> Site \<Rightarrow> VoronoiDiagram \<Rightarrow> VoronoiDiagram" where
  "set_site f s vd = upd_face f (\<lambda>fp. fp\<lparr>site := Some s\<rparr>) vd"

definition set_fstatus :: "HEFace \<Rightarrow> VoronoiFaceStatus \<Rightarrow> VoronoiDiagram \<Rightarrow> VoronoiDiagram" where
  "set_fstatus f st vd = upd_face f (\<lambda>fp. fp\<lparr>fstatus := st\<rparr>) vd"

definition fgrid_add_face :: "HEFace \<Rightarrow> VoronoiDiagram \<Rightarrow> VoronoiDiagram" where
  "fgrid_add_face f vd = vd\<lparr>fgrid := fgrid vd @ [f]\<rparr>"

definition live_vertices :: "VoronoiDiagram \<Rightarrow> HEVertex list" where
  "live_vertices vd = filter (\<lambda>v. vertices vd v \<noteq> None) [0..<vertex_slots vd]"

definition live_edges :: "VoronoiDiagram \<Rightarrow> HEEdge list" where
  "live_edges vd = filter (\<lambda>e. edges vd e \<noteq> None) [0..<edge_slots vd]"

definition live_faces :: "VoronoiDiagram \<Rightarrow> HEFace list" where
  "live_faces vd = filter (\<lambda>f. faces vd f \<noteq> None) [0..<face_slots vd]"

section \<open>Construction and the initial frame\<close>

definition empty_diagram :: "double \<Rightarrow> VoronoiDiagram" where
  "empty_diagram far = \<lparr>vertices = Map.empty, vertex_slots = 0, edges = Map.empty, edge_slots = 0,
     faces = Map.empty, face_slots = 0, vertex_count = 0, far_radius = far,
     num_psites = 0, num_lsites = 0, vertex_map = Map.empty, vertexQueue = [],
     modified_vertices = [], incident_faces = [], v0 = [],
     segment_start = None, segment_end = None, zero_point_face = None,
     null_face1 = None, null_face2 = None, fgrid = []\<rparr>"

text \<open>
  The points of \<open>initialize\<close>, each coordinate the expression of the source with its
  operations in the order C++ evaluates them: \<open>-3.0*sqrt(3.0)*far_radius/2.0\<close> is
  \<open>(((-3.0) * sqrt(3.0)) * far_radius) / 2.0\<close>.
\<close>

definition far_multiplier :: double where
  "far_multiplier = Finite 6"

definition gen1 :: "Arith \<Rightarrow> double \<Rightarrow> Point" where
  "gen1 ar far = Point (Finite 0) (d_mul ar (Finite 3) far)"

definition gen2 :: "Arith \<Rightarrow> double \<Rightarrow> Point" where
  "gen2 ar far =
     Point (d_div ar (d_mul ar (d_mul ar (Finite (- 3)) (d_sqrt ar (Finite 3))) far) (Finite 2))
           (d_div ar (d_mul ar (Finite (- 3)) far) (Finite 2))"

definition gen3 :: "Arith \<Rightarrow> double \<Rightarrow> Point" where
  "gen3 ar far =
     Point (d_div ar (d_mul ar (d_mul ar (Finite 3) (d_sqrt ar (Finite 3))) far) (Finite 2))
           (d_div ar (d_mul ar (Finite (- 3)) far) (Finite 2))"

definition vd1 :: "Arith \<Rightarrow> double \<Rightarrow> Point" where
  "vd1 ar far = Point (Finite 0) (d_mul ar (d_mul ar (Finite (- 3)) far) far_multiplier)"

definition vd2 :: "Arith \<Rightarrow> double \<Rightarrow> Point" where
  "vd2 ar far =
     Point (d_div ar (d_mul ar (d_mul ar (d_mul ar (Finite 3) (d_sqrt ar (Finite 3))) far) far_multiplier) (Finite 2))
           (d_div ar (d_mul ar (d_mul ar (Finite 3) far) far_multiplier) (Finite 2))"

definition vd3 :: "Arith \<Rightarrow> double \<Rightarrow> Point" where
  "vd3 ar far =
     Point (d_div ar (d_mul ar (d_mul ar (d_mul ar (Finite (- 3)) (d_sqrt ar (Finite 3))) far) far_multiplier) (Finite 2))
           (d_div ar (d_mul ar (d_mul ar (Finite 3) far) far_multiplier) (Finite 2))"

text \<open>
  \<open>initialize\<close>, statement by statement. The handles are those the arenas hand out:
  vertices 0..9 (\<open>v00\<close>, \<open>v01\<close>, \<open>v02\<close>, \<open>v03\<close>, the three generators, \<open>a1\<close>, \<open>a2\<close>,
  \<open>a3\<close>), edges 0..14 in the order \<open>e1_1, e1_2, e2, e3_1, e3_2, e4_1, e4_2, e5, e6_1,
  e6_2, e7_1, e7_2, e8, e9_1, e9_2\<close>, faces 0..2.
\<close>

definition initialize_vertices :: "Arith \<Rightarrow> VoronoiDiagram \<Rightarrow> VoronoiDiagram" where
  "initialize_vertices ar vd =
     (let far = far_radius vd;
          (v00, vd) = add_vertex (Point (Finite 0) (Finite 0)) UNDECIDED NORMAL (Some (gen1 ar far)) 0 vd;
          (v01, vd) = add_vertex (vd1 ar far) OUT OUTER (Some (gen3 ar far)) 0 vd;
          (v02, vd) = add_vertex (vd2 ar far) OUT OUTER (Some (gen1 ar far)) 0 vd;
          (v03, vd) = add_vertex (vd3 ar far) OUT OUTER (Some (gen2 ar far)) 0 vd;
          (g1, vd) = add_vertex (gen1 ar far) OUT POINTSITE None 0 vd;
          (g2, vd) = add_vertex (gen2 ar far) OUT POINTSITE None 0 vd;
          (g3, vd) = add_vertex (gen3 ar far) OUT POINTSITE None 0 vd;
          (a1, vd) = add_vertex (pscale ar (Finite (1 / 2)) (padd ar (gen2 ar far) (gen3 ar far))) UNDECIDED APEX (Some (gen2 ar far)) 0 vd;
          (a2, vd) = add_vertex (pscale ar (Finite (1 / 2)) (padd ar (gen1 ar far) (gen3 ar far))) UNDECIDED APEX (Some (gen3 ar far)) 0 vd;
          (a3, vd) = add_vertex (pscale ar (Finite (1 / 2)) (padd ar (gen1 ar far) (gen2 ar far))) UNDECIDED APEX (Some (gen1 ar far)) 0 vd
      in vd)"

definition initialize_face ::
  "HEVertex \<times> HEVertex \<times> HEVertex \<times> HEVertex \<times> HEVertex \<Rightarrow> Point \<Rightarrow> VoronoiDiagram \<Rightarrow> VoronoiDiagram" where
  "initialize_face vs gn vd =
     (let (va, vb, vc, vd', ve) = vs;
          (ea, vd) = add_edge va vb vd;
          (eb, vd) = add_edge vb vc vd;
          (ec, vd) = add_edge vc vd' vd;
          (ed, vd) = add_edge vd' ve vd;
          (ee, vd) = add_edge ve va vd;
          (f, vd) = g_add_face vd;
          vd = set_site f (PointSite gn (Some f)) vd;
          vd = set_fstatus f NONINCIDENT vd;
          vd = fgrid_add_face f vd
      in set_next_cycle [ea, eb, ec, ed, ee] f 1 vd)"

definition initialize_graph :: "Arith \<Rightarrow> VoronoiDiagram \<Rightarrow> VoronoiDiagram" where
  "initialize_graph ar vd0 =
     (let far = far_radius vd0;
          vd = initialize_vertices ar vd0;
          v00 = 0; v01 = 1; v02 = 2; v03 = 3; a1 = 7; a2 = 8; a3 = 9;
          vd = initialize_face (v00, a1, v01, v02, a2) (gen3 ar far) vd;
          vd = initialize_face (v00, a2, v02, v03, a3) (gen1 ar far) vd;
          vd = initialize_face (v00, a3, v03, v01, a1) (gen2 ar far) vd;
          e1_1 = 0; e1_2 = 1; e2 = 2; e3_1 = 3; e3_2 = 4;
          e4_1 = 5; e4_2 = 6; e5 = 7; e6_1 = 8; e6_2 = 9;
          e7_1 = 10; e7_2 = 11; e8 = 12; e9_1 = 13; e9_2 = 14;
          s1 = PointSite (gen3 ar far) (Some 0);
          s2 = PointSite (gen1 ar far) (Some 1);
          s3 = PointSite (gen2 ar far) (Some 2);
          vd = set_line e1_1 s1 s3 False vd;
          vd = set_line e1_2 s1 s3 True vd;
          vd = set_type e2 OUTEDGE vd;
          vd = set_line e3_1 s2 s1 True vd;
          vd = set_line e3_2 s2 s1 False vd;
          vd = set_line e4_1 s2 s1 False vd;
          vd = set_line e4_2 s2 s1 True vd;
          vd = set_type e5 OUTEDGE vd;
          vd = set_line e6_1 s2 s3 False vd;
          vd = set_line e6_2 s2 s3 True vd;
          vd = set_line e7_1 s2 s3 True vd;
          vd = set_line e7_2 s2 s3 False vd;
          vd = set_type e8 OUTEDGE vd;
          vd = set_line e9_1 s1 s3 True vd;
          vd = set_line e9_2 s1 s3 False vd;
          vd = twin_edges e1_1 e9_2 vd;
          vd = twin_edges e1_2 e9_1 vd;
          vd = upd_edge e2 (\<lambda>h. h\<lparr>twin := None\<rparr>) vd;
          vd = upd_edge e5 (\<lambda>h. h\<lparr>twin := None\<rparr>) vd;
          vd = upd_edge e8 (\<lambda>h. h\<lparr>twin := None\<rparr>) vd;
          vd = twin_edges e3_1 e4_2 vd;
          vd = twin_edges e3_2 e4_1 vd;
          vd = twin_edges e6_1 e7_2 vd;
          vd = twin_edges e6_2 e7_1 vd
      in vd)"

definition initialize :: "Collaborators \<Rightarrow> VoronoiDiagram \<Rightarrow> VoronoiDiagram result" where
  "initialize ext vd =
     (let vd' = initialize_graph (arith ext) vd
      in bind (assert (checker_is_valid ext vd') ''vd_checker->is_valid()'' vd') (\<lambda>_. Ok vd'))"

text \<open>
  The constructor: \<open>far_radius = far; initialize(); num_psites = 3; num_lsites = 0;
  reset_vertex_count()\<close>. The number of bins only configures the spatial index.
  Modelled from the spec: \<open>reset_vertex_count\<close> is not among the sources; it starts the
  static vertex counter afresh, at zero.
\<close>

definition new_VoronoiDiagram :: "Collaborators \<Rightarrow> double \<Rightarrow> nat \<Rightarrow> VoronoiDiagram result" where
  "new_VoronoiDiagram ext far n_bins =
     bind (initialize ext (empty_diagram far))
       (\<lambda>vd. Ok (vd\<lparr>num_psites := 3, num_lsites := 0, vertex_count := 0\<rparr>))"

definition num_point_sites :: "VoronoiDiagram \<Rightarrow> int" where
  "num_point_sites vd = num_psites vd"

definition num_line_sites :: "VoronoiDiagram \<Rightarrow> int" where
  "num_line_sites vd = num_lsites vd"


section \<open>Reading the half-edge graph\<close>

text \<open>
  Modelled from the spec: the queries of the half-edge graph container, which is not
  among the sources. \<open>out_edge_itr(v)\<close> iterates over the half-edges leaving \<open>v\<close>, in
  the order they were created; \<open>has_edge(w, v)\<close> says whether a half-edge leads from
  \<open>w\<close> to \<open>v\<close>; \<open>adjacent_faces(v)\<close> is the set of faces of the half-edges leaving
  \<open>v\<close>.
\<close>

definition g_source :: "VoronoiDiagram \<Rightarrow> HEEdge \<Rightarrow> HEVertex result" where
  "g_source vd e = bind (get_edge vd e) (\<lambda>h. Ok (source h))"

definition g_target :: "VoronoiDiagram \<Rightarrow> HEEdge \<Rightarrow> HEVertex result" where
  "g_target vd e = bind (get_edge vd e) (\<lambda>h. Ok (target h))"

definition g_next :: "VoronoiDiagram \<Rightarrow> HEEdge \<Rightarrow> HEEdge result" where
  "g_next vd e = bind (get_edge vd e)
     (\<lambda>h. case next_e h of None \<Rightarrow> Fail InvalidDescriptor vd | Some n \<Rightarrow> Ok n)"

definition g_twin :: "VoronoiDiagram \<Rightarrow> HEEdge \<Rightarrow> HEEdge result" where
  "g_twin vd e = bind (get_edge vd e)
     (\<lambda>h. case twin h of None \<Rightarrow> Fail InvalidDescriptor vd | Some n \<Rightarrow> Ok n)"

definition g_eface :: "VoronoiDiagram \<Rightarrow> HEEdge \<Rightarrow> HEFace result" where
  "g_eface vd e = bind (get_edge vd e)
     (\<lambda>h. case eface h of None \<Rightarrow> Fail InvalidDescriptor vd | Some f \<Rightarrow> Ok f)"

definition face_edge :: "VoronoiDiagram \<Rightarrow> HEFace \<Rightarrow> HEEdge result" where
  "face_edge vd f = bind (get_face vd f)
     (\<lambda>fp. case edge fp of None \<Rightarrow> Fail InvalidDescriptor vd | Some e \<Rightarrow> Ok e)"

definition face_site :: "VoronoiDiagram \<Rightarrow> HEFace \<Rightarrow> Site result" where
  "face_site vd f = bind (get_face vd f)
     (\<lambda>fp. case site fp of None \<Rightarrow> Fail InvalidDescriptor vd | Some s \<Rightarrow> Ok s)"

definition is_out_edge :: "VoronoiDiagram \<Rightarrow> HEVertex \<Rightarrow> HEEdge \<Rightarrow> bool" where
  "is_out_edge vd v e = (case edges vd e of None \<Rightarrow> False | Some h \<Rightarrow> source h = v)"

definition out_edge_itr :: "VoronoiDiagram \<Rightarrow> HEVertex \<Rightarrow> HEEdge list" where
  "out_edge_itr vd v = filter (is_out_edge vd v) [0..<edge_slots vd]"

definition leads_to :: "VoronoiDiagram \<Rightarrow> HEVertex \<Rightarrow> HEEdge \<Rightarrow> bool" where
  "leads_to vd v e = (case edges vd e of None \<Rightarrow> False | Some h \<Rightarrow> target h = v)"

definition has_edge :: "VoronoiDiagram \<Rightarrow> HEVertex \<Rightarrow> HEVertex \<Rightarrow> bool" where
  "has_edge vd w v = list_ex (leads_to vd v) (out_edge_itr vd w)"

definition adjacent_faces :: "VoronoiDiagram \<Rightarrow> HEVertex \<Rightarrow> HEFace list" where
  "adjacent_faces vd v =
     sort (remdups (concat (map (\<lambda>e. case edges vd e of None \<Rightarrow> []
                                        | Some h \<Rightarrow> (case eface h of None \<Rightarrow> [] | Some f \<Rightarrow> [f]))
                               (out_edge_itr vd v))))"

text \<open>
  The ring of a face: the half-edges met by following \<open>next\<close> from \<open>start\<close> until
  \<open>start\<close> comes back. Every \<open>do ... while (current != start)\<close> loop of the engine
  walks it. A walk that has not come back after as many steps as the arena has edge
  slots never will (it is caught in a cycle that misses \<open>start\<close>), so the fuel
  \<open>edge_slots\<close> decides whether the loop ends.
\<close>

fun ring_from :: "VoronoiDiagram \<Rightarrow> HEEdge \<Rightarrow> nat \<Rightarrow> HEEdge \<Rightarrow> HEEdge list result" where
  "ring_from vd start fuel current =
     (if fuel = 0 then Fail Diverges vd
      else bind (g_next vd current)
             (\<lambda>nx. if nx \<noteq> start
                   then bind (ring_from vd start (fuel - 1) nx) (\<lambda>es. Ok (current # es))
                   else Ok [current]))"

declare ring_from.simps [simp del]

definition face_ring :: "VoronoiDiagram \<Rightarrow> HEFace \<Rightarrow> HEEdge list result" where
  "face_ring vd f = bind (face_edge vd f) (\<lambda>e. ring_from vd e (edge_slots vd) e)"

section \<open>The seed vertex\<close>

text \<open>
  \<open>find_seed_vertex\<close>: the loop over the ring of \<open>f\<close> carries \<open>minPred\<close>,
  \<open>minimalVertex\<close> (invalid at first) and \<open>first\<close>.
\<close>

definition seed_update ::
  "Collaborators \<Rightarrow> Site \<Rightarrow> HEVertex \<Rightarrow> VoronoiVertex \<Rightarrow> double \<times> HEVertex option \<times> bool
     \<Rightarrow> double \<times> HEVertex option \<times> bool" where
  "seed_update ext st qv q acc =
     (let (minPred, minimalVertex, first) = acc
      in if status q \<noteq> OUT \<and> vtype q = NORMAL
         then (let h = in_circle ext q (apex_point (arith ext) st (position q))
               in if first \<or> (d_lt (arith ext) h minPred \<and> in_region (arith ext) st (position q))
                  then (h, Some qv, False)
                  else (minPred, minimalVertex, first))
         else (minPred, minimalVertex, first))"

fun find_seed_loop ::
  "Collaborators \<Rightarrow> VoronoiDiagram \<Rightarrow> Site \<Rightarrow> HEEdge \<Rightarrow> nat \<Rightarrow> HEEdge
     \<Rightarrow> double \<times> HEVertex option \<times> bool \<Rightarrow> (double \<times> HEVertex option \<times> bool) result" where
  "find_seed_loop ext vd st start fuel current acc =
     (if fuel = 0 then Fail Diverges vd
      else bind (g_target vd current) (\<lambda>qv.
           bind (get_vertex vd qv) (\<lambda>q.
           bind (g_next vd current) (\<lambda>nx.
             if nx \<noteq> start
             then find_seed_loop ext vd st start (fuel - 1) nx (seed_update ext st qv q acc)
             else Ok (seed_update ext st qv q acc)))))"

declare find_seed_loop.simps [simp del]

definition find_seed_vertex :: "Collaborators \<Rightarrow> VoronoiDiagram \<Rightarrow> HEFace \<Rightarrow> Site \<Rightarrow> HEVertex result" where
  "find_seed_vertex ext vd f st =
     bind (face_edge vd f) (\<lambda>start.
     bind (find_seed_loop ext vd st start (edge_slots vd) start (Finite 0, None, True)) (\<lambda>(minPred, minimalVertex, first).
     bind (assert (d_lt (arith ext) minPred (Finite 0)) ''minPred < 0'' vd) (\<lambda>_.
       case minimalVertex of None \<Rightarrow> Fail InvalidDescriptor vd | Some v \<Rightarrow> Ok v)))"

section \<open>The predicates C4 and C5\<close>

fun c4_loop :: "VoronoiDiagram \<Rightarrow> HEEdge list \<Rightarrow> nat \<Rightarrow> bool result" where
  "c4_loop vd [] in_count = Ok False"
| "c4_loop vd (e # es) in_count =
     bind (g_target vd e) (\<lambda>w.
     bind (get_vertex vd w) (\<lambda>wx.
       if status wx = IN
       then (if in_count + 1 \<ge> 2 then Ok True else c4_loop vd es (in_count + 1))
       else c4_loop vd es in_count))"

definition predicate_c4 :: "VoronoiDiagram \<Rightarrow> HEVertex \<Rightarrow> bool result" where
  "predicate_c4 vd v = c4_loop vd (out_edge_itr vd v) 0"

fun c5_incident_faces :: "VoronoiDiagram \<Rightarrow> HEEdge list \<Rightarrow> HEFace list result" where
  "c5_incident_faces vd [] = Ok []"
| "c5_incident_faces vd (e # es) =
     bind (g_eface vd e) (\<lambda>f.
     bind (get_face vd f) (\<lambda>fp.
     bind (c5_incident_faces vd es) (\<lambda>fs.
       Ok (if fstatus fp = INCIDENT then f # fs else fs))))"

definition c5_vertex_ok :: "VoronoiDiagram \<Rightarrow> HEVertex \<Rightarrow> HEVertex \<Rightarrow> VoronoiVertex \<Rightarrow> bool" where
  "c5_vertex_ok vd v w wx =
     ((w \<noteq> v \<and> status wx = IN \<and> has_edge vd w v)
      \<or> (w \<noteq> v \<and> (vtype wx = ENDPOINT \<or> vtype wx = APEX \<or> vtype wx = SPLIT)))"

fun c5_face_loop ::
  "VoronoiDiagram \<Rightarrow> HEVertex \<Rightarrow> HEEdge \<Rightarrow> nat \<Rightarrow> HEEdge \<Rightarrow> bool \<Rightarrow> bool result" where
  "c5_face_loop vd v start fuel current face_ok =
     (if fuel = 0 then Fail Diverges vd
      else bind (g_target vd current) (\<lambda>w.
           bind (get_vertex vd w) (\<lambda>wx.
           bind (g_next vd current) (\<lambda>nx.
             if nx \<noteq> start
             then c5_face_loop vd v start (fuel - 1) nx (face_ok \<or> c5_vertex_ok vd v w wx)
             else Ok (face_ok \<or> c5_vertex_ok vd v w wx)))))"

declare c5_face_loop.simps [simp del]

fun c5_all_found :: "VoronoiDiagram \<Rightarrow> HEVertex \<Rightarrow> HEFace list \<Rightarrow> bool \<Rightarrow> bool result" where
  "c5_all_found vd v [] all_found = Ok all_found"
| "c5_all_found vd v (f # fs) all_found =
     bind (face_edge vd f) (\<lambda>start.
     bind (c5_face_loop vd v start (edge_slots vd) start False) (\<lambda>face_ok.
       c5_all_found vd v fs (all_found \<and> face_ok)))"

definition predicate_c5 :: "VoronoiDiagram \<Rightarrow> HEVertex \<Rightarrow> bool result" where
  "predicate_c5 vd v =
     bind (get_vertex vd v) (\<lambda>vx.
       if vtype vx = APEX \<or> vtype vx = SPLIT then Ok True
       else bind (c5_incident_faces vd (out_edge_itr vd v)) (\<lambda>adjacent_incident_faces.
            bind (assert (adjacent_incident_faces \<noteq> []) ''!adjacent_incident_faces.empty()'' vd) (\<lambda>_.
              c5_all_found vd v adjacent_incident_faces True)))"

section \<open>Splitting an edge at a vertex\<close>

text \<open>
  Modelled from the spec: \<open>previous_edge\<close> and \<open>add_vertex_in_edge\<close> belong to the
  half-edge graph container. \<open>add_vertex_in_edge(v, e)\<close> needs the twin of \<open>e\<close>; it
  splits \<open>e\<close> and its twin into two halves each that share \<open>v\<close>, keeps the faces, the
  rings and the twin symmetry, lets the halves inherit the properties of the edge they
  replace, and removes \<open>e\<close> and its twin.
\<close>

fun previous_edge_loop :: "VoronoiDiagram \<Rightarrow> HEEdge \<Rightarrow> nat \<Rightarrow> HEEdge \<Rightarrow> HEEdge result" where
  "previous_edge_loop vd e fuel previous =
     (if fuel = 0 then Fail Diverges vd
      else bind (g_next vd previous)
             (\<lambda>nx. if nx \<noteq> e then previous_edge_loop vd e (fuel - 1) nx else Ok previous))"

declare previous_edge_loop.simps [simp del]

definition previous_edge :: "VoronoiDiagram \<Rightarrow> HEEdge \<Rightarrow> HEEdge result" where
  "previous_edge vd e = bind (g_next vd e) (\<lambda>p. previous_edge_loop vd e (edge_slots vd) p)"

definition remove_edge :: "HEEdge \<Rightarrow> VoronoiDiagram \<Rightarrow> VoronoiDiagram" where
  "remove_edge e vd = vd\<lparr>edges := (edges vd)(e := None)\<rparr>"

definition add_half :: "HalfEdge \<Rightarrow> HEVertex \<Rightarrow> HEVertex \<Rightarrow> VoronoiDiagram \<Rightarrow> HEEdge \<times> VoronoiDiagram" where
  "add_half old u w vd =
     (let (e, vd) = add_edge u w vd
      in (e, upd_edge e (\<lambda>h. h\<lparr>eface := eface old, etype := etype old, k := k old, params := params old\<rparr>) vd))"

definition add_vertex_in_edge :: "HEVertex \<Rightarrow> HEEdge \<Rightarrow> VoronoiDiagram \<Rightarrow> VoronoiDiagram result" where
  "add_vertex_in_edge v e vd =
     bind (get_edge vd e) (\<lambda>eh.
     bind (g_twin vd e) (\<lambda>tw.
     bind (get_edge vd tw) (\<lambda>th.
     bind (g_eface vd e) (\<lambda>face.
     bind (g_eface vd tw) (\<lambda>twin_face.
     bind (get_face vd face) (\<lambda>_.
     bind (get_face vd twin_face) (\<lambda>_.
     bind (previous_edge vd e) (\<lambda>previous.
     bind (previous_edge vd tw) (\<lambda>twin_previous.
     bind (g_next vd e) (\<lambda>e_next.
     bind (g_next vd tw) (\<lambda>tw_next.
       let (e1, vd) = add_half eh (source eh) v vd;
           (e2, vd) = add_half eh v (target eh) vd;
           vd = set_next previous e1 vd;
           vd = set_next e1 e2 vd;
           vd = set_next e2 e_next vd;
           (te1, vd) = add_half th (source th) v vd;
           (te2, vd) = add_half th v (target th) vd;
           vd = set_next twin_previous te1 vd;
           vd = set_next te1 te2 vd;
           vd = set_next te2 tw_next vd;
           vd = twin_edges e1 te2 vd;
           vd = twin_edges e2 te1 vd;
           vd = upd_face face (\<lambda>fp. fp\<lparr>edge := Some e1\<rparr>) vd;
           vd = upd_face twin_face (\<lambda>fp. fp\<lparr>edge := Some te1\<rparr>) vd;
           vd = remove_edge e vd;
           vd = remove_edge tw vd
       in Ok vd)))))))))))"

section \<open>Split vertices\<close>

fun site_start :: "Site \<Rightarrow> Point" where
  "site_start (PointSite p f) = p"
| "site_start (LineSite a b kk f) = a"

fun site_end :: "Site \<Rightarrow> Point" where
  "site_end (PointSite p f) = p"
| "site_end (LineSite a b kk f) = b"

definition split_candidate ::
  "Collaborators \<Rightarrow> VoronoiDiagram \<Rightarrow> Point \<Rightarrow> Point \<Rightarrow> HEEdge \<Rightarrow> bool result" where
  "split_candidate ext vd pt1 pt2 e =
     bind (get_edge vd e) (\<lambda>eh.
     bind (get_vertex vd (target eh)) (\<lambda>trg.
     bind (get_vertex vd (source eh)) (\<lambda>src.
       let src_is_right = is_right ext (position src) pt1 pt2;
           trg_is_right = is_right ext (position trg) pt1 pt2
       in if (vtype src = NORMAL \<or> vtype src = APEX \<or> vtype src = SPLIT) \<and> src_is_right \<noteq> trg_is_right
          then bind (assert (checker_check_edge ext vd e) ''vd_checker->check_edge(current_edge)'' vd)
                 (\<lambda>_. Ok True)
          else Ok False)))"

fun find_split_loop ::
  "Collaborators \<Rightarrow> VoronoiDiagram \<Rightarrow> Point \<Rightarrow> Point \<Rightarrow> HEEdge \<Rightarrow> nat \<Rightarrow> HEEdge \<Rightarrow> HEEdge list
     \<Rightarrow> HEEdge list result" where
  "find_split_loop ext vd pt1 pt2 start fuel current out =
     (if fuel = 0 then Fail Diverges vd
      else bind (split_candidate ext vd pt1 pt2 current) (\<lambda>c.
           bind (g_next vd current) (\<lambda>nx.
             if nx \<noteq> start
             then find_split_loop ext vd pt1 pt2 start (fuel - 1) nx (if c then out @ [current] else out)
             else Ok (if c then out @ [current] else out))))"

declare find_split_loop.simps [simp del]

definition find_split_edges ::
  "Collaborators \<Rightarrow> VoronoiDiagram \<Rightarrow> HEFace \<Rightarrow> Point \<Rightarrow> Point \<Rightarrow> HEEdge list result" where
  "find_split_edges ext vd f pt1 pt2 =
     bind (assert (checker_face_ok ext vd f) ''vd_checker->face_ok(f)'' vd) (\<lambda>_.
     bind (face_edge vd f) (\<lambda>start.
       find_split_loop ext vd pt1 pt2 start (edge_slots vd) start []))"

fun add_split_loop ::
  "Collaborators \<Rightarrow> Point \<Rightarrow> Point \<Rightarrow> HEEdge list \<Rightarrow> VoronoiDiagram \<Rightarrow> VoronoiDiagram result" where
  "add_split_loop ext pt1 pt2 [] vd = Ok vd"
| "add_split_loop ext pt1 pt2 (split_edge # es) vd =
     bind (get_edge vd split_edge) (\<lambda>eh.
       if etype eh = Some SEPARATOR \<or> etype eh = Some LINESITE then Ok vd
       else bind (get_vertex vd (source eh)) (\<lambda>split_src.
            bind (get_vertex vd (target eh)) (\<lambda>split_trg.
              case split_point ext vd split_edge pt1 pt2 of
                None \<Rightarrow> Ok vd
              | Some split_pt_pos \<Rightarrow>
                  (let (v, vd1) = add_vertex split_pt_pos UNDECIDED SPLIT (Some pt1) 0 vd
                   in bind (assert (checker_check_edge ext vd1 split_edge) ''vd_checker->check_edge(split_edge)'' vd1) (\<lambda>_.
                      bind (add_vertex_in_edge v split_edge vd1) (\<lambda>vd2.
                        add_split_loop ext pt1 pt2 es vd2))))))"

definition add_split_vertex :: "Collaborators \<Rightarrow> HEFace \<Rightarrow> Site \<Rightarrow> VoronoiDiagram \<Rightarrow> VoronoiDiagram result" where
  "add_split_vertex ext f s vd =
     (if isPoint s then Ok vd
      else bind (face_site vd f) (\<lambda>fs.
        if isPoint fs \<and> isLine s
           \<and> (p_eq (arith ext) (site_position fs) (site_start s) \<or> p_eq (arith ext) (site_position fs) (site_end s))
        then Ok vd
        else if isPoint fs \<and> isLine s \<and> in_region (arith ext) s (site_position fs)
        then (let pt1 = site_position fs;
                  pt2 = psub (arith ext) pt1 (site_ab ext s)
              in bind (assert (d_lt (arith ext) (Finite 0) (pnorm (arith ext) (psub (arith ext) pt1 pt2))) ''(pt1-pt2).norm() > 0'' vd) (\<lambda>_.
                 bind (find_split_edges ext vd f pt1 pt2) (\<lambda>split_edges.
                   add_split_loop ext pt1 pt2 split_edges vd)))
        else Ok vd))"

section \<open>Marking a vertex IN\<close>

definition set_status :: "HEVertex \<Rightarrow> VoronoiVertexStatus \<Rightarrow> VoronoiDiagram \<Rightarrow> VoronoiDiagram" where
  "set_status v st vd = upd_vertex v (\<lambda>x. x\<lparr>status := st\<rparr>) vd"

definition modified_insert :: "HEVertex \<Rightarrow> VoronoiDiagram \<Rightarrow> VoronoiDiagram" where
  "modified_insert v vd = vd\<lparr>modified_vertices := List.insert v (modified_vertices vd)\<rparr>"

definition modified_erase :: "HEVertex \<Rightarrow> VoronoiDiagram \<Rightarrow> VoronoiDiagram" where
  "modified_erase v vd = vd\<lparr>modified_vertices := removeAll v (modified_vertices vd)\<rparr>"

definition push_incident :: "HEFace \<Rightarrow> VoronoiDiagram \<Rightarrow> VoronoiDiagram" where
  "push_incident f vd = vd\<lparr>incident_faces := incident_faces vd @ [f]\<rparr>"

fun mark_faces_p_loop :: "HEEdge list \<Rightarrow> VoronoiDiagram \<Rightarrow> VoronoiDiagram result" where
  "mark_faces_p_loop [] vd = Ok vd"
| "mark_faces_p_loop (e # es) vd =
     bind (g_eface vd e) (\<lambda>adj_face.
     bind (get_face vd adj_face) (\<lambda>fp.
       if fstatus fp \<noteq> INCIDENT
       then mark_faces_p_loop es (push_incident adj_face (set_fstatus adj_face INCIDENT vd))
       else mark_faces_p_loop es vd))"

definition mark_adjacent_faces_p :: "HEVertex \<Rightarrow> Site \<Rightarrow> VoronoiDiagram \<Rightarrow> VoronoiDiagram result" where
  "mark_adjacent_faces_p v s vd =
     bind (get_vertex vd v) (\<lambda>vx.
     bind (assert (status vx = IN) ''g[v].status == IN'' vd) (\<lambda>_.
       mark_faces_p_loop (out_edge_itr vd v) vd))"

fun mark_faces_loop :: "Collaborators \<Rightarrow> Site \<Rightarrow> HEFace list \<Rightarrow> VoronoiDiagram \<Rightarrow> VoronoiDiagram result" where
  "mark_faces_loop ext s [] vd = Ok vd"
| "mark_faces_loop ext s (adj_face # fs) vd =
     bind (get_face vd adj_face) (\<lambda>fp.
       if fstatus fp \<noteq> INCIDENT
       then bind (if isLine s then add_split_vertex ext adj_face s vd else Ok vd) (\<lambda>vd1.
              mark_faces_loop ext s fs (push_incident adj_face (set_fstatus adj_face INCIDENT vd1)))
       else mark_faces_loop ext s fs vd)"

definition mark_adjacent_faces :: "Collaborators \<Rightarrow> HEVertex \<Rightarrow> Site \<Rightarrow> VoronoiDiagram \<Rightarrow> VoronoiDiagram result" where
  "mark_adjacent_faces ext v s vd =
     bind (get_vertex vd v) (\<lambda>vx.
     bind (assert (status vx = IN) ''g[v].status == IN'' vd) (\<lambda>_.
       let new_adjacent_faces = adjacent_faces vd v
       in bind (assert ((vtype vx = APEX \<and> length new_adjacent_faces = 2)
                        \<or> (vtype vx = SPLIT \<and> length new_adjacent_faces = 2)
                        \<or> length new_adjacent_faces = 3) ''new_adjacent_faces.size()'' vd) (\<lambda>_.
            mark_faces_loop ext s new_adjacent_faces vd)))"

fun push_neighbours :: "Collaborators \<Rightarrow> Site \<Rightarrow> HEEdge list \<Rightarrow> VoronoiDiagram \<Rightarrow> VoronoiDiagram result" where
  "push_neighbours ext s [] vd = Ok vd"
| "push_neighbours ext s (e # es) vd =
     bind (g_target vd e) (\<lambda>w.
     bind (get_vertex vd w) (\<lambda>wx.
       if status wx = UNDECIDED \<and> \<not> in_queue wx
       then push_neighbours ext s es
              (upd_vertex w (\<lambda>x. x\<lparr>in_queue := True\<rparr>)
                 (vd\<lparr>vertexQueue := vertexQueue vd @ [(w, in_circle ext wx (apex_point (arith ext) s (position wx)))]\<rparr>))
       else push_neighbours ext s es vd))"

definition mark_vertex :: "Collaborators \<Rightarrow> HEVertex \<Rightarrow> Site \<Rightarrow> VoronoiDiagram \<Rightarrow> VoronoiDiagram result" where
  "mark_vertex ext v s vd =
     bind (get_vertex vd v) (\<lambda>_.
       let vd = set_status v IN vd;
           vd = vd\<lparr>v0 := v0 vd @ [v]\<rparr>;
           vd = modified_insert v vd
       in bind (if isPoint s then mark_adjacent_faces_p v s vd else mark_adjacent_faces ext v s vd) (\<lambda>vd.
            push_neighbours ext s (out_edge_itr vd v) vd))"

section \<open>Growing the delete tree\<close>

text \<open>
  Modelled from the spec: the comparison of the priority queue is declared in a header
  that is not among the sources. By the comment of \<open>augment_vertex_set\<close>, vertices with a
  large \<open>fabs(detH)\<close> are processed first: \<open>top\<close> is an entry of largest magnitude (the
  earliest pushed among equals), and \<open>pop\<close> removes it.
\<close>

fun pq_top :: "Arith \<Rightarrow> (HEVertex \<times> double) list \<Rightarrow> (HEVertex \<times> double) option" where
  "pq_top ar [] = None"
| "pq_top ar (x # xs) =
     (case pq_top ar xs of
        None \<Rightarrow> Some x
      | Some y \<Rightarrow> if d_lt ar (d_abs ar (snd x)) (d_abs ar (snd y)) then Some y else Some x)"

definition augment_step :: "Collaborators \<Rightarrow> Site \<Rightarrow> HEVertex \<Rightarrow> double \<Rightarrow> VoronoiDiagram \<Rightarrow> VoronoiDiagram result" where
  "augment_step ext s v h vd0 =
     bind (get_vertex vd0 v) (\<lambda>vx.
     bind (assert (status vx = UNDECIDED) ''g.g[v].status == UNDECIDED'' vd0) (\<lambda>_.
       let vd = vd0\<lparr>vertexQueue := remove1 (v, h) (vertexQueue vd0)\<rparr>
       in bind (if d_lt (arith ext) h (Finite 0)
                then bind (predicate_c4 vd v) (\<lambda>c4.
                       if c4 then Ok (set_status v OUT vd)
                       else bind (predicate_c5 vd v) (\<lambda>c5.
                         if \<not> c5 then Ok (set_status v OUT vd)
                         else if \<not> in_region (arith ext) s (position vx) then Ok (set_status v OUT vd)
                         else mark_vertex ext v s vd))
                else Ok (set_status v OUT vd))
            (\<lambda>vd. Ok (modified_insert v vd))))"

text \<open>
  The loop \<open>while (!vertexQueue.empty())\<close>. Every turn pops one entry, and an entry
  is pushed only for a vertex whose \<open>in_queue\<close> flag is still clear, so for a point
  site the loop takes at most as many turns as the queue is long plus the number of
  vertex slots. For a line site, marking a face may add split vertices, at most one
  for each edge of the face, once per face; the fuel given by \<open>augment_fuel\<close> covers
  both.
\<close>

fun augment_loop :: "Collaborators \<Rightarrow> Site \<Rightarrow> nat \<Rightarrow> VoronoiDiagram \<Rightarrow> VoronoiDiagram result" where
  "augment_loop ext s fuel vd =
     (case pq_top (arith ext) (vertexQueue vd) of
        None \<Rightarrow> Ok vd
      | Some (v, h) \<Rightarrow>
          (if fuel = 0 then Fail Diverges vd
           else bind (augment_step ext s v h vd) (\<lambda>vd1. augment_loop ext s (fuel - 1) vd1)))"

declare augment_loop.simps [simp del]

definition augment_fuel :: "VoronoiDiagram \<Rightarrow> nat" where
  "augment_fuel vd = length (vertexQueue vd) + vertex_slots vd + 3 ^ face_slots vd * edge_slots vd"

definition augment_vertex_set :: "Collaborators \<Rightarrow> Site \<Rightarrow> VoronoiDiagram \<Rightarrow> VoronoiDiagram result" where
  "augment_vertex_set ext s vd =
     bind (augment_loop ext s (augment_fuel vd) vd) (\<lambda>vd1.
     bind (assert (vertexQueue vd1 = []) ''vertexQueue.empty()'' vd1) (\<lambda>_. Ok vd1))"

section \<open>New vertices on the IN-OUT edges\<close>

fun in_out_edges_of :: "VoronoiDiagram \<Rightarrow> HEEdge list \<Rightarrow> HEEdge list result" where
  "in_out_edges_of vd [] = Ok []"
| "in_out_edges_of vd (e # es) =
     bind (g_target vd e) (\<lambda>w.
     bind (get_vertex vd w) (\<lambda>wx.
     bind (in_out_edges_of vd es) (\<lambda>out.
       Ok (if status wx = OUT then e # out else out))))"

fun find_in_out_loop :: "VoronoiDiagram \<Rightarrow> HEVertex list \<Rightarrow> HEEdge list result" where
  "find_in_out_loop vd [] = Ok []"
| "find_in_out_loop vd (v # vs) =
     bind (get_vertex vd v) (\<lambda>vx.
     bind (assert (status vx = IN) ''g[v].status == IN'' vd) (\<lambda>_.
     bind (in_out_edges_of vd (out_edge_itr vd v)) (\<lambda>es.
     bind (find_in_out_loop vd vs) (\<lambda>rest. Ok (es @ rest)))))"

definition find_in_out_edges :: "VoronoiDiagram \<Rightarrow> HEEdge list result" where
  "find_in_out_edges vd =
     bind (assert (v0 vd \<noteq> []) ''!v0.empty()'' vd) (\<lambda>_.
     bind (find_in_out_loop vd (v0 vd)) (\<lambda>output.
     bind (assert (output \<noteq> []) ''!output.empty()'' vd) (\<lambda>_. Ok output)))"

fun add_vertices_loop :: "Collaborators \<Rightarrow> Site \<Rightarrow> HEEdge list \<Rightarrow> VoronoiDiagram \<Rightarrow> VoronoiDiagram result" where
  "add_vertices_loop ext new_site [] vd = Ok vd"
| "add_vertices_loop ext new_site (e # es) vd =
     (let (sl_p, sl_k3) = vpos_position ext vd e new_site;
          (q, vd1) = add_vertex sl_p NEW NORMAL (Some (apex_point (arith ext) new_site sl_p)) sl_k3 vd;
          vd2 = modified_insert q vd1
      in bind (add_vertex_in_edge q e vd2) (\<lambda>vd3. add_vertices_loop ext new_site es vd3))"

definition add_vertices :: "Collaborators \<Rightarrow> Site \<Rightarrow> VoronoiDiagram \<Rightarrow> VoronoiDiagram result" where
  "add_vertices ext new_site vd =
     bind (assert (v0 vd \<noteq> []) ''!v0.empty()'' vd) (\<lambda>_.
     bind (find_in_out_edges vd) (\<lambda>q_edges.
       add_vertices_loop ext new_site q_edges vd))"

section \<open>The new face and its edges\<close>

definition add_face :: "Site \<Rightarrow> VoronoiDiagram \<Rightarrow> HEFace \<times> VoronoiDiagram" where
  "add_face s vd =
     (let (newface, vd) = g_add_face vd;
          vd = set_site newface (set_site_face s newface) vd;
          vd = set_fstatus newface NONINCIDENT vd;
          vd = (if isPoint s then fgrid_add_face newface vd else vd)
      in (newface, vd))"

fun num_new_loop :: "VoronoiDiagram \<Rightarrow> HEEdge \<Rightarrow> nat \<Rightarrow> HEEdge \<Rightarrow> nat \<Rightarrow> nat result" where
  "num_new_loop vd start fuel current count =
     (if fuel = 0 then Fail Diverges vd
      else bind (g_target vd current) (\<lambda>v.
           bind (get_vertex vd v) (\<lambda>vx.
           bind (g_next vd current) (\<lambda>nx.
             let count' = (if status vx = NEW \<and> vtype vx \<noteq> SEPPOINT then count + 1 else count)
             in if nx \<noteq> start then num_new_loop vd start (fuel - 1) nx count' else Ok count'))))"

declare num_new_loop.simps [simp del]

definition num_new_vertices :: "VoronoiDiagram \<Rightarrow> HEFace \<Rightarrow> nat result" where
  "num_new_vertices vd f =
     bind (face_edge vd f) (\<lambda>start. num_new_loop vd start (edge_slots vd) start 0)"

record EdgeData =
  ed_f :: HEFace
  ed_v1 :: HEVertex
  ed_v1_prv :: HEEdge
  ed_v1_nxt :: HEEdge
  ed_v2 :: HEVertex
  ed_v2_prv :: HEEdge
  ed_v2_nxt :: HEEdge

text \<open>
  \<open>find_edge_data\<close>, first loop: it stops at the first ring edge whose target is an
  OUT-NEW-IN vertex not yet used, and hands back that vertex, its previous and next
  edge and the edge at which the second loop starts.
\<close>

definition is_v1_candidate ::
  "VoronoiDiagram \<Rightarrow> HEVertex \<Rightarrow> VoronoiVertex \<Rightarrow> VoronoiVertex \<Rightarrow> HEVertex \<Rightarrow> VoronoiVertex \<Rightarrow> bool" where
  "is_v1_candidate vd previous_vertex pvx cvx next_vertex nvx =
     (status cvx = NEW \<and> vtype cvx \<noteq> SEPPOINT \<and>
      (((status pvx = OUT \<or> status pvx = UNDECIDED)
          \<and> (Some previous_vertex \<noteq> segment_start vd \<and> Some previous_vertex \<noteq> segment_end vd))
       \<or> (vtype nvx = ENDPOINT
          \<and> (Some next_vertex = segment_start vd \<or> Some next_vertex = segment_end vd))))"

fun find_v1_loop ::
  "VoronoiDiagram \<Rightarrow> HEVertex list \<Rightarrow> HEEdge \<Rightarrow> nat \<Rightarrow> HEEdge
     \<Rightarrow> ((HEVertex \<times> HEEdge \<times> HEEdge) option \<times> HEEdge) result" where
  "find_v1_loop vd startverts start fuel current =
     (if fuel = 0 then Fail Diverges vd
      else bind (get_edge vd current) (\<lambda>ce.
           bind (g_next vd current) (\<lambda>next_edge.
           bind (get_vertex vd (source ce)) (\<lambda>pvx.
           bind (get_vertex vd (target ce)) (\<lambda>cvx.
           bind (g_target vd next_edge) (\<lambda>next_vertex.
           bind (get_vertex vd next_vertex) (\<lambda>nvx.
             if is_v1_candidate vd (source ce) pvx cvx next_vertex nvx \<and> \<not> List.member startverts (target ce)
             then Ok (Some (target ce, current, next_edge), next_edge)
             else if next_edge \<noteq> start then find_v1_loop vd startverts start (fuel - 1) next_edge
             else Ok (None, next_edge))))))))"

declare find_v1_loop.simps [simp del]

fun find_v2_loop ::
  "VoronoiDiagram \<Rightarrow> HEVertex \<Rightarrow> HEEdge \<Rightarrow> nat \<Rightarrow> HEEdge \<Rightarrow> (HEVertex \<times> HEEdge \<times> HEEdge) option result" where
  "find_v2_loop vd v1 start fuel current =
     (if fuel = 0 then Fail Diverges vd
      else bind (get_edge vd current) (\<lambda>ce.
           bind (get_vertex vd (target ce)) (\<lambda>cvx.
           bind (g_next vd current) (\<lambda>next_edge.
             if status cvx = NEW \<and> vtype cvx \<noteq> SEPPOINT \<and> target ce \<noteq> v1
             then Ok (Some (target ce, current, next_edge))
             else if next_edge \<noteq> start then find_v2_loop vd v1 start (fuel - 1) next_edge
             else Ok None))))"

declare find_v2_loop.simps [simp del]

definition find_edge_data :: "VoronoiDiagram \<Rightarrow> HEFace \<Rightarrow> HEVertex list \<Rightarrow> EdgeData result" where
  "find_edge_data vd f startverts =
     bind (face_edge vd f) (\<lambda>start.
     bind (find_v1_loop vd startverts start (edge_slots vd) start) (\<lambda>(r1, current).
       case r1 of
         None \<Rightarrow> Fail (AssertFailed ''found'') vd
       | Some (v1, v1_prv, v1_nxt) \<Rightarrow>
           bind (find_v2_loop vd v1 current (edge_slots vd) current) (\<lambda>r2.
             case r2 of
               None \<Rightarrow> Fail (AssertFailed ''found'') vd
             | Some (v2, v2_prv, v2_nxt) \<Rightarrow>
                 Ok \<lparr>ed_f = f, ed_v1 = v1, ed_v1_prv = v1_prv, ed_v1_nxt = v1_nxt,
                     ed_v2 = v2, ed_v2_prv = v2_prv, ed_v2_nxt = v2_nxt\<rparr>)))"

text \<open>
  Modelled from the spec: \<open>set_next_chain\<close> belongs to the half-edge graph container.
  With a face it chains the list, sets the face and the side label of every edge of the
  list and makes the first one the face's entry point; without a face it only chains.
\<close>

fun set_next_chain :: "HEEdge list \<Rightarrow> VoronoiDiagram \<Rightarrow> VoronoiDiagram" where
  "set_next_chain [] vd = vd"
| "set_next_chain [e] vd = vd"
| "set_next_chain (e1 # e2 # es) vd = set_next_chain (e2 # es) (set_next e1 e2 vd)"

definition set_next_chain_face :: "HEEdge list \<Rightarrow> HEFace \<Rightarrow> int option \<Rightarrow> VoronoiDiagram \<Rightarrow> VoronoiDiagram" where
  "set_next_chain_face es f kk vd =
     (case es of
        [] \<Rightarrow> vd
      | e # rest \<Rightarrow>
          upd_face f (\<lambda>fp. fp\<lparr>edge := Some e\<rparr>)
            (fold (\<lambda>x. upd_edge x (\<lambda>h. h\<lparr>eface := Some f, k := kk\<rparr>)) es (set_next_chain es vd)))"

text \<open>
  \<open>add_edge\<close>, first part: the new site and face (chosen by the \<open>k3\<close> label of the
  source) and the two signs that decide on the apex split.
\<close>

text \<open>
  The literal \<open>1e-3\<close> is not a binary fraction; the double it denotes is the nearest
  one, \<open>1152921504606847 / 2^60\<close>.
\<close>

definition lit_1e_3 :: double where
  "lit_1e_3 = Finite (1152921504606847 / 2 ^ 60)"

definition edge_signs ::
  "Collaborators \<Rightarrow> VoronoiDiagram \<Rightarrow> Site \<Rightarrow> Site \<Rightarrow> VoronoiVertex \<Rightarrow> VoronoiVertex \<Rightarrow> (bool \<times> bool) result" where
  "edge_signs ext vd f_site new_site src trg =
     (if isPoint f_site \<and> isLine new_site
      then (let pt1 = site_position f_site; pt2 = apex_point (arith ext) new_site pt1
            in Ok (is_right ext (position src) pt1 pt2, is_right ext (position trg) pt1 pt2))
      else if isPoint f_site \<and> isPoint new_site
      then Ok (is_right ext (position src) (site_position f_site) (site_position new_site),
               is_right ext (position trg) (site_position f_site) (site_position new_site))
      else if isLine f_site \<and> isLine new_site
      then (if \<not> p_eq (arith ext) (position src) (position trg)
               \<and> \<not> p_eq (arith ext) (position src) (site_start f_site)
               \<and> \<not> p_eq (arith ext) (position src) (site_end f_site)
               \<and> \<not> p_eq (arith ext) (position trg) (site_start f_site)
               \<and> \<not> p_eq (arith ext) (position trg) (site_end f_site)
               \<and> d_lt (arith ext) lit_1e_3
                     (pnorm (arith ext) (psub (arith ext) (position src) (apex_point (arith ext) f_site (position src))))
               \<and> d_lt (arith ext) lit_1e_3
                     (pnorm (arith ext) (psub (arith ext) (position trg) (apex_point (arith ext) f_site (position trg))))
            then bind (assert (\<not> is_right ext (position src) (site_start f_site) (site_end f_site)
                              \<and> \<not> is_right ext (position trg) (site_start f_site) (site_end f_site)
                              \<and> \<not> is_right ext (position src) (site_start new_site) (site_end new_site)
                              \<and> \<not> is_right ext (position trg) (site_start new_site) (site_end new_site))
                         ''!is_right'' vd) (\<lambda>_. Ok (True, True))
            else Ok (True, True))
      else Fail (AssertFailed ''0'') vd)"

definition add_single_edge ::
  "Collaborators \<Rightarrow> EdgeData \<Rightarrow> Site \<Rightarrow> Site \<Rightarrow> HEFace \<Rightarrow> bool \<Rightarrow> VoronoiVertex \<Rightarrow> VoronoiDiagram
     \<Rightarrow> VoronoiDiagram result" where
  "add_single_edge ext ed f_site new_site new_face src_sign src vd0 =
     (let new_previous = ed_v1_prv ed; new_source = ed_v1 ed; twin_next = ed_v1_nxt ed;
          twin_previous = ed_v2_prv ed; new_target = ed_v2 ed; new_next = ed_v2_nxt ed;
          f = ed_f ed;
          ((e_new, e_twin), vd) = add_twin_edges new_source new_target vd0;
          vd = set_next e_new new_next vd
      in bind (get_edge vd new_next) (\<lambda>nn.
         bind (get_edge vd new_previous) (\<lambda>np.
         bind (assert (k nn = k np) ''g[new_next].k == g[new_previous].k'' vd) (\<lambda>_.
         bind (get_face vd f) (\<lambda>_.
         bind (get_edge vd twin_previous) (\<lambda>_.
         bind (get_face vd new_face) (\<lambda>_.
           let vd = upd_edge e_new (\<lambda>h. h\<lparr>k := k nn\<rparr>) vd;
               vd = upd_edge e_new (\<lambda>h. h\<lparr>eface := Some f\<rparr>) vd;
               vd = set_next new_previous e_new vd;
               vd = upd_face f (\<lambda>fp. fp\<lparr>edge := Some e_new\<rparr>) vd;
               vd = set_parameters e_new f_site new_site (\<not> src_sign) vd;
               vd = set_next twin_previous e_twin vd;
               vd = set_next e_twin twin_next vd;
               vd = upd_edge e_twin (\<lambda>h. h\<lparr>k := Some (k3 src)\<rparr>) vd;
               vd = set_parameters e_twin new_site f_site src_sign vd;
               vd = upd_edge e_twin (\<lambda>h. h\<lparr>eface := Some new_face\<rparr>) vd;
               vd = upd_face new_face (\<lambda>fp. fp\<lparr>edge := Some e_twin\<rparr>) vd
           in bind (assert (checker_check_edge ext vd e_new \<and> checker_check_edge ext vd e_twin)
                      ''vd_checker->check_edge'' vd) (\<lambda>_. Ok vd))))))))"

definition add_apex_split ::
  "Collaborators \<Rightarrow> EdgeData \<Rightarrow> Site \<Rightarrow> Site \<Rightarrow> HEFace \<Rightarrow> bool \<Rightarrow> bool \<Rightarrow> VoronoiVertex \<Rightarrow> VoronoiDiagram
     \<Rightarrow> VoronoiDiagram result" where
  "add_apex_split ext ed f_site new_site new_face src_sign trg_sign src vd0 =
     (let new_previous = ed_v1_prv ed; new_source = ed_v1 ed; twin_next = ed_v1_nxt ed;
          twin_previous = ed_v2_prv ed; new_target = ed_v2 ed; new_next = ed_v2_nxt ed;
          f = ed_f ed;
          (apex, vd) = add_vertex (Point (Finite 0) (Finite 0)) NEW APEX None 0 vd0;
          ((e1, e1_tw), vd) = add_twin_edges new_source apex vd;
          ((e2, e2_tw), vd) = add_twin_edges apex new_target vd;
          vd = set_parameters e1 f_site new_site (\<not> src_sign) vd;
          vd = set_parameters e2 f_site new_site (\<not> trg_sign) vd
      in bind (get_edge vd new_previous) (\<lambda>np.
         bind (get_edge vd new_next) (\<lambda>nn.
         bind (assert (eface np = Some f) ''g[new_previous].face == f'' vd) (\<lambda>_.
         bind (assert (eface nn = Some f) ''g[new_next].face == f'' vd) (\<lambda>_.
         bind (assert (k nn = k np) ''g[new_next].k == g[new_previous].k'' vd) (\<lambda>_.
         bind (get_face vd f) (\<lambda>_.
           let vd = set_next_chain_face [new_previous, e1, e2, new_next] f (k nn) vd;
               vd = set_parameters e1_tw new_site f_site src_sign vd;
               vd = set_parameters e2_tw new_site f_site trg_sign vd
           in bind (get_edge vd twin_previous) (\<lambda>tp.
              bind (get_edge vd twin_next) (\<lambda>tn.
              bind (assert (k tp = k tn) ''g[twin_previous].k == g[twin_next].k'' vd) (\<lambda>_.
              bind (assert (eface tp = eface tn) ''g[twin_previous].face == g[twin_next].face'' vd) (\<lambda>_.
              bind (get_face vd new_face) (\<lambda>_.
                let vd = set_next_chain [twin_previous, e2_tw, e1_tw, twin_next] vd;
                    vd = upd_edge e1_tw (\<lambda>h. h\<lparr>k := Some (k3 src)\<rparr>) vd;
                    vd = upd_edge e2_tw (\<lambda>h. h\<lparr>k := Some (k3 src)\<rparr>) vd;
                    vd = upd_face new_face (\<lambda>fp. fp\<lparr>edge := Some e1_tw\<rparr>) vd;
                    vd = upd_edge e1_tw (\<lambda>h. h\<lparr>eface := Some new_face\<rparr>) vd;
                    vd = upd_edge e2_tw (\<lambda>h. h\<lparr>eface := Some new_face\<rparr>) vd
                in bind (assert (checker_check_edge ext vd e1 \<and> checker_check_edge ext vd e1_tw
                                 \<and> checker_check_edge ext vd e2 \<and> checker_check_edge ext vd e2_tw)
                           ''vd_checker->check_edge'' vd) (\<lambda>_.
                     let pos = apex_position ext vd e1 f_site new_site;
                         vd = upd_vertex apex (\<lambda>x. x\<lparr>position := pos, gen := Some (apex_point (arith ext) f_site pos)\<rparr>) vd
                     in Ok (modified_insert apex vd))))))))))))))"

definition add_edge_he ::
  "Collaborators \<Rightarrow> EdgeData \<Rightarrow> HEFace \<Rightarrow> HEFace option \<Rightarrow> VoronoiDiagram \<Rightarrow> VoronoiDiagram result" where
  "add_edge_he ext ed newface newface2 vd =
     bind (get_vertex vd (ed_v1 ed)) (\<lambda>src.
     bind (get_vertex vd (ed_v2 ed)) (\<lambda>trg.
     bind (face_site vd (ed_f ed)) (\<lambda>f_site.
     bind (if k3 src = 1 then Ok newface
           else (case newface2 of None \<Rightarrow> Fail InvalidDescriptor vd | Some f2 \<Rightarrow> Ok f2)) (\<lambda>new_face.
     bind (face_site vd new_face) (\<lambda>new_site.
     bind (assert (k3 trg = k3 src) ''g[new_target].k3 == g[new_source].k3'' vd) (\<lambda>_.
     bind (edge_signs ext vd f_site new_site src trg) (\<lambda>(src_sign, trg_sign).
       if src_sign = trg_sign
       then add_single_edge ext ed f_site new_site new_face src_sign src vd
       else add_apex_split ext ed f_site new_site new_face src_sign trg_sign src vd)))))))"

fun add_edges_loop ::
  "Collaborators \<Rightarrow> HEFace \<Rightarrow> HEFace \<Rightarrow> HEFace option \<Rightarrow> nat \<Rightarrow> HEVertex list \<Rightarrow> VoronoiDiagram
     \<Rightarrow> VoronoiDiagram result" where
  "add_edges_loop ext newface f newface2 m startverts vd =
     (if m = 0 then Ok vd
      else bind (find_edge_data vd f startverts) (\<lambda>ed.
           bind (add_edge_he ext ed newface newface2 vd) (\<lambda>vd1.
             add_edges_loop ext newface f newface2 (m - 1) (startverts @ [ed_v1 ed]) vd1)))"

declare add_edges_loop.simps [simp del]

definition add_edges ::
  "Collaborators \<Rightarrow> HEFace \<Rightarrow> HEFace \<Rightarrow> HEFace option \<Rightarrow> VoronoiDiagram \<Rightarrow> VoronoiDiagram result" where
  "add_edges ext newface f newface2 vd =
     bind (num_new_vertices vd f) (\<lambda>new_count.
     bind (assert (new_count > 0) ''new_count > 0'' vd) (\<lambda>_.
     bind (assert (new_count mod 2 = 0) ''(new_count % 2) == 0'' vd) (\<lambda>_.
       add_edges_loop ext newface f newface2 (new_count div 2) [] vd)))"

section \<open>Repairing the new face, removing the delete tree, resetting\<close>

definition repair_special ::
  "VoronoiDiagram \<Rightarrow> HalfEdge \<Rightarrow> HalfEdge \<Rightarrow> VoronoiVertex \<Rightarrow> VoronoiVertex \<Rightarrow> HEVertex \<Rightarrow> VoronoiVertex \<Rightarrow> bool" where
  "repair_special vd eh ce csx ctx out_target otx =
     ((etype eh = Some NULLEDGE \<and> etype ce \<noteq> Some NULLEDGE
       \<and> ((vtype ctx = SEPPOINT \<and> vtype otx = ENDPOINT)
          \<or> (vtype csx = ENDPOINT \<and> vtype ctx = ENDPOINT)
          \<or> Some out_target = segment_start vd
          \<or> Some out_target = segment_end vd)
       \<and> eface eh \<noteq> null_face1 vd \<and> eface eh \<noteq> null_face2 vd)
      \<or> eface eh = zero_point_face vd)"

text \<open>
  The inner loop of \<open>repair_face\<close> over the edges leaving the target of the current
  edge: each candidate may have its face and side label overridden, and a candidate on
  the face \<open>f\<close> becomes the next edge (the last such candidate wins).
\<close>

fun repair_candidates ::
  "Collaborators \<Rightarrow> HEFace \<Rightarrow> HEEdge \<Rightarrow> HEEdge list \<Rightarrow> bool \<Rightarrow> VoronoiDiagram \<Rightarrow> (bool \<times> VoronoiDiagram) result" where
  "repair_candidates ext f current [] found vd = Ok (found, vd)"
| "repair_candidates ext f current (e # es) found vd =
     bind (get_edge vd current) (\<lambda>ce.
     bind (get_vertex vd (source ce)) (\<lambda>csx.
     bind (get_vertex vd (target ce)) (\<lambda>ctx.
     bind (get_edge vd e) (\<lambda>eh.
     bind (get_vertex vd (target eh)) (\<lambda>otx.
       if target eh \<noteq> source ce \<and> (status otx = NEW \<or> vtype otx = ENDPOINT \<or> vtype otx = SEPPOINT)
       then (let vd1 = (if repair_special vd eh ce csx ctx (target eh) otx
                        then upd_edge e (\<lambda>h. h\<lparr>eface := Some f, k := k ce\<rparr>) vd else vd)
             in bind (get_edge vd1 e) (\<lambda>eh1.
                  if eface eh1 = Some f
                  then (let vd2 = set_next current e vd1
                        in bind (assert (k ce = k eh1) ''g[current_edge].k == g[e].k'' vd2) (\<lambda>_.
                           bind (assert (checker_same_face ext vd2 current)
                                   ''vd_checker->current_face_equals_next_face( current_edge )'' vd2) (\<lambda>_.
                             repair_candidates ext f current es True vd2)))
                  else repair_candidates ext f current es found vd1))
       else repair_candidates ext f current es found vd)))))"

text \<open>
  The outer loop of \<open>repair_face\<close> rewrites \<open>next\<close> pointers while it follows them.
  It takes one turn per edge of the repaired ring; the fuel is the number of edge
  slots.
\<close>

fun repair_loop :: "Collaborators \<Rightarrow> HEFace \<Rightarrow> HEEdge \<Rightarrow> nat \<Rightarrow> HEEdge \<Rightarrow> VoronoiDiagram \<Rightarrow> VoronoiDiagram result" where
  "repair_loop ext f start fuel current vd =
     (if fuel = 0 then Fail Diverges vd
      else bind (assert (checker_check_edge ext vd current) ''vd_checker->check_edge(current_edge)'' vd) (\<lambda>_.
           bind (g_target vd current) (\<lambda>current_target.
           bind (repair_candidates ext f current (out_edge_itr vd current_target) False vd) (\<lambda>(found_next_edge, vd1).
           bind (assert found_next_edge ''found_next_edge'' vd1) (\<lambda>_.
           bind (g_next vd1 current) (\<lambda>nx.
             if nx \<noteq> start then repair_loop ext f start (fuel - 1) nx vd1 else Ok vd1))))))"

declare repair_loop.simps [simp del]

definition repair_face :: "Collaborators \<Rightarrow> HEFace \<Rightarrow> VoronoiDiagram \<Rightarrow> VoronoiDiagram result" where
  "repair_face ext f vd =
     bind (face_edge vd f) (\<lambda>start. repair_loop ext f start (edge_slots vd) start vd)"

text \<open>
  Modelled from the spec: \<open>delete_vertex(v)\<close> of the half-edge graph container removes
  \<open>v\<close> and every half-edge incident to \<open>v\<close>.
\<close>

definition incident_to :: "HEVertex \<Rightarrow> HalfEdge \<Rightarrow> bool" where
  "incident_to v h = (source h = v \<or> target h = v)"

definition delete_vertex :: "HEVertex \<Rightarrow> VoronoiDiagram \<Rightarrow> VoronoiDiagram" where
  "delete_vertex v vd =
     vd\<lparr>vertices := (vertices vd)(v := None),
        edges := (\<lambda>e. case edges vd e of None \<Rightarrow> None
                       | Some h \<Rightarrow> if incident_to v h then None else Some h)\<rparr>"

fun remove_vertex_loop :: "HEVertex list \<Rightarrow> VoronoiDiagram \<Rightarrow> VoronoiDiagram result" where
  "remove_vertex_loop [] vd = Ok vd"
| "remove_vertex_loop (v # vs) vd =
     bind (get_vertex vd v) (\<lambda>vx.
     bind (assert (status vx = IN) ''g[v].status == IN'' vd) (\<lambda>_.
       remove_vertex_loop vs (modified_erase v (delete_vertex v vd))))"

definition remove_vertex_set :: "VoronoiDiagram \<Rightarrow> VoronoiDiagram result" where
  "remove_vertex_set vd = remove_vertex_loop (v0 vd) vd"

text \<open>
  Modelled from the spec: \<open>VoronoiVertex::reset\<close> is not among the sources; it resets
  the status to UNDECIDED and clears the transient \<open>in_queue\<close> flag.
\<close>

definition vertex_reset :: "VoronoiVertex \<Rightarrow> VoronoiVertex" where
  "vertex_reset x = x\<lparr>status := UNDECIDED, in_queue := False\<rparr>"

fun reset_vertices :: "HEVertex list \<Rightarrow> VoronoiDiagram \<Rightarrow> VoronoiDiagram result" where
  "reset_vertices [] vd = Ok vd"
| "reset_vertices (v # vs) vd =
     bind (get_vertex vd v) (\<lambda>_. reset_vertices vs (upd_vertex v vertex_reset vd))"

fun reset_faces :: "HEFace list \<Rightarrow> VoronoiDiagram \<Rightarrow> VoronoiDiagram result" where
  "reset_faces [] vd = Ok vd"
| "reset_faces (f # fs) vd =
     bind (get_face vd f) (\<lambda>_. reset_faces fs (set_fstatus f NONINCIDENT vd))"

definition reset_status :: "VoronoiDiagram \<Rightarrow> VoronoiDiagram result" where
  "reset_status vd =
     bind (reset_vertices (modified_vertices vd) vd) (\<lambda>vd1.
     bind (reset_faces (incident_faces vd1) (vd1\<lparr>modified_vertices := []\<rparr>)) (\<lambda>vd2.
       Ok (vd2\<lparr>incident_faces := [], v0 := []\<rparr>)))"

section \<open>Inserting a point site\<close>

text \<open>
  \<open>std::map::insert\<close> leaves an entry that is already there as it is.
\<close>

definition map_insert :: "int \<Rightarrow> HEVertex \<Rightarrow> (int \<rightharpoonup> HEVertex) \<Rightarrow> (int \<rightharpoonup> HEVertex)" where
  "map_insert i v m = (case m i of None \<Rightarrow> m(i \<mapsto> v) | Some w \<Rightarrow> m)"

fun add_edges_all :: "Collaborators \<Rightarrow> HEFace \<Rightarrow> HEFace list \<Rightarrow> VoronoiDiagram \<Rightarrow> VoronoiDiagram result" where
  "add_edges_all ext newface [] vd = Ok vd"
| "add_edges_all ext newface (f # fs) vd =
     bind (add_edges ext newface f None vd) (\<lambda>vd1. add_edges_all ext newface fs vd1)"

text \<open>
  \<open>insert_point_site(p, step)\<close>: \<open>current_step\<close> counts 1, 2, 3, 4, 5 at the five
  \<open>if (step==current_step) return -1; current_step++;\<close> lines.
\<close>

definition insert_point_site_entry :: "VoronoiDiagram \<Rightarrow> VoronoiDiagram" where
  "insert_point_site_entry vd =
     vd\<lparr>segment_start := None, segment_end := None, zero_point_face := None,
        num_psites := num_psites vd + 1\<rparr>"

definition new_vertex_index :: "VoronoiDiagram \<Rightarrow> HEVertex \<Rightarrow> int result" where
  "new_vertex_index vd v = bind (get_vertex vd v) (\<lambda>x. Ok (index x))"

definition insert_point_site ::
  "Collaborators \<Rightarrow> Point \<Rightarrow> int \<Rightarrow> VoronoiDiagram \<Rightarrow> (int \<times> VoronoiDiagram) result" where
  "insert_point_site ext p step vd0 =
     (let vd = insert_point_site_entry vd0
      in bind (assert (d_lt (arith ext) (pnorm (arith ext) p) (far_radius vd)) ''p.norm() < far_radius'' vd) (\<lambda>_.
         let (new_vert, vd) = add_vertex p OUT POINTSITE None 0 vd;
             new_site = PointSite p None
         in bind (new_vertex_index vd new_vert) (\<lambda>idx.
            let vd = vd\<lparr>vertex_map := map_insert idx new_vert (vertex_map vd)\<rparr>
            in bind (find_seed_vertex ext vd (grid_find_closest_face ext vd p) new_site) (\<lambda>v_seed.
               bind (mark_vertex ext v_seed new_site vd) (\<lambda>vd.
               if step = 1 then Ok (- 1, vd) else
               bind (augment_vertex_set ext new_site vd) (\<lambda>vd.
               if step = 2 then Ok (- 1, vd) else
               bind (add_vertices ext new_site vd) (\<lambda>vd.
               if step = 3 then Ok (- 1, vd) else
               (let (newface, vd) = add_face new_site vd;
                    vd = upd_vertex new_vert (\<lambda>x. x\<lparr>vface := Some newface\<rparr>) vd
                in bind (add_edges_all ext newface (incident_faces vd) vd) (\<lambda>vd.
                   if step = 4 then Ok (- 1, vd) else
                   bind (repair_face ext newface vd) (\<lambda>vd.
                   bind (remove_vertex_set vd) (\<lambda>vd.
                   if step = 5 then Ok (- 1, vd) else
                   bind (reset_status vd) (\<lambda>vd.
                   bind (assert (checker_face_ok ext vd newface) ''vd_checker->face_ok( newface )'' vd) (\<lambda>_.
                   bind (assert (checker_is_valid ext vd) ''vd_checker->is_valid()'' vd) (\<lambda>_.
                   bind (new_vertex_index vd new_vert) (\<lambda>r. Ok (r, vd))))))))))))))))"

definition find_endpoints :: "VoronoiDiagram \<Rightarrow> int \<Rightarrow> int \<Rightarrow> (HEVertex \<times> HEVertex) result" where
  "find_endpoints vd idx1 idx2 =
     (case (vertex_map vd idx1, vertex_map vd idx2) of
        (Some s, Some e) \<Rightarrow> Ok (s, e)
      | _ \<Rightarrow> Fail (AssertFailed ''it_start != vertex_map.end() && it_end != vertex_map.end()'') vd)"

section \<open>Observing a diagram\<close>

text \<open>
  What a caller can see of a diagram: the kind, the position and the status of the
  vertex behind a handle, the status of a face, the endpoints, the twin and the type of
  a half-edge, the half-edges of one type.
\<close>

definition vertex_kind :: "VoronoiDiagram \<Rightarrow> HEVertex \<Rightarrow> VoronoiVertexType option" where
  "vertex_kind vd v = map_option vtype (vertices vd v)"

definition vertex_position :: "VoronoiDiagram \<Rightarrow> HEVertex \<Rightarrow> Point option" where
  "vertex_position vd v = map_option position (vertices vd v)"

definition vertex_status :: "VoronoiDiagram \<Rightarrow> HEVertex \<Rightarrow> VoronoiVertexStatus option" where
  "vertex_status vd v = map_option status (vertices vd v)"

definition face_status :: "VoronoiDiagram \<Rightarrow> HEFace \<Rightarrow> VoronoiFaceStatus option" where
  "face_status vd f = map_option fstatus (faces vd f)"

definition edge_view ::
  "VoronoiDiagram \<Rightarrow> HEEdge \<Rightarrow> (HEVertex \<times> HEVertex \<times> HEEdge option \<times> VoronoiEdgeType option) option" where
  "edge_view vd e = map_option (\<lambda>h. (source h, target h, twin h, etype h)) (edges vd e)"

definition edge_has_type :: "VoronoiDiagram \<Rightarrow> VoronoiEdgeType \<Rightarrow> HEEdge \<Rightarrow> bool" where
  "edge_has_type vd t e = (case edges vd e of None \<Rightarrow> False | Some h \<Rightarrow> etype h = Some t)"

definition edges_of_type :: "VoronoiDiagram \<Rightarrow> VoronoiEdgeType \<Rightarrow> HEEdge list" where
  "edges_of_type vd t = filter (edge_has_type vd t) [0..<edge_slots vd]"

definition frame_view ::
  "VoronoiDiagram \<Rightarrow> (VoronoiVertexType option list \<times> Point option list) \<times>
     (HEVertex \<times> HEVertex \<times> HEEdge option \<times> VoronoiEdgeType option) option list \<times>
     (VoronoiVertexStatus option list \<times> VoronoiFaceStatus option list)" where
  "frame_view vd =
     ((map (vertex_kind vd) [0..<vertex_slots vd], map (vertex_position vd) [0..<vertex_slots vd]),
      map (edge_view vd) [0..<edge_slots vd],
      (map (vertex_status vd) [0..<vertex_slots vd], map (face_status vd) [0..<face_slots vd]))"

section \<open>Example inputs\<close>

text \<open>
  An arithmetic for the examples: the one that never rounds. On finite operands it
  gives the exact real result; it gives NaN where that is undefined or an operand is
  not finite.
\<close>

fun ex_add :: "double \<Rightarrow> double \<Rightarrow> double" where
  "ex_add (Finite a) (Finite b) = Finite (a + b)"
| "ex_add a b = NaN"

fun ex_sub :: "double \<Rightarrow> double \<Rightarrow> double" where
  "ex_sub (Finite a) (Finite b) = Finite (a - b)"
| "ex_sub a b = NaN"

fun ex_mul :: "double \<Rightarrow> double \<Rightarrow> double" where
  "ex_mul (Finite a) (Finite b) = Finite (a * b)"
| "ex_mul a b = NaN"

fun ex_div :: "double \<Rightarrow> double \<Rightarrow> double" where
  "ex_div (Finite a) (Finite b) = (if b = 0 then NaN else Finite (a / b))"
| "ex_div a b = NaN"

fun ex_sqrt :: "double \<Rightarrow> double" where
  "ex_sqrt (Finite a) = (if a < 0 then NaN else Finite (sqrt a))"
| "ex_sqrt a = NaN"

fun ex_abs :: "double \<Rightarrow> double" where
  "ex_abs (Finite a) = Finite \<bar>a\<bar>"
| "ex_abs a = NaN"

fun ex_lt :: "double \<Rightarrow> double \<Rightarrow> bool" where
  "ex_lt (Finite a) (Finite b) = (a < b)"
| "ex_lt a b = False"

fun ex_le :: "double \<Rightarrow> double \<Rightarrow> bool" where
  "ex_le (Finite a) (Finite b) = (a \<le> b)"
| "ex_le a b = False"

fun ex_eq :: "double \<Rightarrow> double \<Rightarrow> bool" where
  "ex_eq (Finite a) (Finite b) = (a = b)"
| "ex_eq a b = False"

definition exact_arith :: Arith where
  "exact_arith = \<lparr>d_add = ex_add, d_sub = ex_sub, d_mul = ex_mul, d_div = ex_div, d_sqrt = ex_sqrt,
     d_abs = ex_abs, d_lt = ex_lt, d_le = ex_le, d_eq = ex_eq\<rparr>"

text \<open>
  Collaborators for the examples below: every vertex is well inside the clearance
  disk of the new site (in-circle \<open>-1\<close>), no two points are on opposite sides of a
  line, the spatial index proposes face 0, the solver labels its points \<open>k3 = 1\<close>,
  and the checker accepts.
\<close>

definition sample_ext :: Collaborators where
  "sample_ext = \<lparr>arith = exact_arith, in_circle = (\<lambda>v p. Finite (- 1)), is_right = (\<lambda>p a b. False),
     grid_find_closest_face = (\<lambda>vd p. 0),
     vpos_position = (\<lambda>vd e s. (Point (Finite 0) (Finite 0), 1)),
     apex_position = (\<lambda>vd e s1 s2. Point (Finite 0) (Finite 0)), split_point = (\<lambda>vd e a b. None),
     site_ab = (\<lambda>s. Point (Finite 0) (Finite 1)),
     checker_is_valid = (\<lambda>vd. True), checker_face_ok = (\<lambda>vd f. True),
     checker_check_edge = (\<lambda>vd e. True), checker_same_face = (\<lambda>vd e. True)\<rparr>"

definition frame_vd :: VoronoiDiagram where
  "frame_vd = (initialize_graph exact_arith (empty_diagram (Finite 1)))\<lparr>num_psites := 3, num_lsites := 0, vertex_count := 0\<rparr>"

definition seed_ext :: Collaborators where
  "seed_ext = sample_ext\<lparr>in_circle :=
     (\<lambda>v p. if ex_lt (px (position v)) (Finite 0) then Finite (- 2) else Finite (- 1))\<rparr>"

text \<open>
  A face with a ring of two half-edges between the NORMAL, UNDECIDED vertices \<open>q1\<close>
  at \<open>(-1, 1)\<close> and \<open>q2\<close> at \<open>(1/2, 1)\<close>, and the segment from \<open>(0, 0)\<close> to \<open>(1, 0)\<close>:
  \<open>q2\<close> projects onto the segment, \<open>q1\<close> does not.
\<close>

definition seed_vd :: VoronoiDiagram where
  "seed_vd =
     (let vd = empty_diagram (Finite 10);
          (q1, vd) = add_vertex (Point (Finite (- 1)) (Finite 1)) UNDECIDED NORMAL None 0 vd;
          (q2, vd) = add_vertex (Point (Finite (1 / 2)) (Finite 1)) UNDECIDED NORMAL None 0 vd;
          (e0, vd) = add_edge q2 q1 vd;
          (e1, vd) = add_edge q1 q2 vd;
          (f, vd) = g_add_face vd
      in set_next_cycle [e0, e1] f 1 vd)"

definition seed_site :: Site where
  "seed_site = LineSite (Point (Finite 0) (Finite 0)) (Point (Finite 1) (Finite 0)) 1 None"

section \<open>Calls, sequences of calls and what they leave behind\<close>

text \<open>
  \<open>after m P\<close>: whenever the call \<open>m\<close> returns, \<open>P\<close> holds of what it returns.
  \<open>run_view\<close> shows what a caller sees after \<open>insert_point_site\<close> has returned: the
  returned value, the counters, the entry of the index map under the returned value, and
  the statuses and kinds behind all handles.
\<close>

definition after :: "'a result \<Rightarrow> ('a \<Rightarrow> bool) \<Rightarrow> bool" where
  "after m P = (case m of Ok x \<Rightarrow> P x | Fail e s \<Rightarrow> True)"

definition run_view ::
  "(int \<times> VoronoiDiagram) result \<Rightarrow>
     (int \<times> (int \<times> int \<times> HEVertex option) \<times>
      (VoronoiVertexStatus option list \<times> VoronoiVertexType option list \<times> VoronoiFaceStatus option list) \<times>
      (HEVertex list \<times> HEFace list \<times> HEVertex list)) option" where
  "run_view m =
     (case m of
        Ok (r, vd) \<Rightarrow>
          Some (r, (num_psites vd, vertex_count vd, vertex_map vd r),
                (map (vertex_status vd) [0..<vertex_slots vd], map (vertex_kind vd) [0..<vertex_slots vd],
                 map (face_status vd) [0..<face_slots vd]),
                (modified_vertices vd, incident_faces vd, v0 vd))
      | Fail e s \<Rightarrow> None)"

text \<open>
  A client that inserts the points of a list one after the other, each with the default
  \<open>step = 0\<close>, and keeps the returned index of each together with the handle of the
  vertex that the call created; \<open>points_view\<close> shows these pairs and the two site
  counters once the client is through.
\<close>

fun insert_points ::
  "Collaborators \<Rightarrow> Point list \<Rightarrow> VoronoiDiagram \<Rightarrow> ((int \<times> HEVertex) list \<times> VoronoiDiagram) result" where
  "insert_points ext [] vd = Ok ([], vd)"
| "insert_points ext (p # ps) vd =
     bind (insert_point_site ext p 0 vd) (\<lambda>(r, vd1).
     bind (insert_points ext ps vd1) (\<lambda>(rs, vd2). Ok ((r, vertex_slots vd) # rs, vd2)))"

definition points_view ::
  "((int \<times> HEVertex) list \<times> VoronoiDiagram) result \<Rightarrow> ((int \<times> HEVertex) list \<times> int \<times> int) option" where
  "points_view m = (case m of Ok (rs, vd) \<Rightarrow> Some (rs, num_psites vd, num_lsites vd) | Fail e s \<Rightarrow> None)"

text \<open>
  The statuses between two operations. \<open>settled\<close>: every vertex is UNDECIDED or OUT
  and every face is NONINCIDENT. \<open>all_undecided\<close>: every vertex is UNDECIDED and every
  face is NONINCIDENT.
\<close>

definition settled :: "VoronoiDiagram \<Rightarrow> bool" where
  "settled vd \<longleftrightarrow>
     list_all (\<lambda>v. vertex_status vd v \<in> {None, Some UNDECIDED, Some OUT}) [0..<vertex_slots vd]
     \<and> list_all (\<lambda>f. face_status vd f \<in> {None, Some NONINCIDENT}) [0..<face_slots vd]"


text \<open>
  Every key of the index map is an index that the vertex counter has already passed.
\<close>

definition map_below :: "VoronoiDiagram \<Rightarrow> bool" where
  "map_below vd \<longleftrightarrow> (\<forall>k v. vertex_map vd k = Some v \<longrightarrow> k < vertex_count vd)"

text \<open>
  Two notions for the proofs. \<open>listed\<close>: every vertex that is IN or NEW is in
  \<open>modified_vertices\<close> and every INCIDENT face is in \<open>incident_faces\<close>, so that
  \<open>reset_status\<close> reaches them. \<open>steady vd vd'\<close>: on the way from \<open>vd\<close> to \<open>vd'\<close> the
  index map, the site counters and the far radius were not touched, the vertex counter
  and the arena did not shrink, no vertex that is still there changed its index, kind or
  position, and \<open>listed\<close> was kept. \<open>entered p vd\<close> is the engine after the first
  statements of \<open>insert_point_site\<close>, up to the entry in the index map.
\<close>

definition listed :: "VoronoiDiagram \<Rightarrow> bool" where
  "listed vd \<longleftrightarrow>
     (\<forall>v x. v < vertex_slots vd \<longrightarrow> vertices vd v = Some x \<longrightarrow> status x = IN \<or> status x = NEW \<longrightarrow>
          v \<in> set (modified_vertices vd))
     \<and> (\<forall>f fp. f < face_slots vd \<longrightarrow> faces vd f = Some fp \<longrightarrow> fstatus fp = INCIDENT \<longrightarrow>
          f \<in> set (incident_faces vd))"

definition steady :: "VoronoiDiagram \<Rightarrow> VoronoiDiagram \<Rightarrow> bool" where
  "steady vd vd' \<longleftrightarrow>
     vertex_slots vd \<le> vertex_slots vd' \<and> vertex_count vd \<le> vertex_count vd'
     \<and> vertex_map vd' = vertex_map vd \<and> num_psites vd' = num_psites vd \<and> num_lsites vd' = num_lsites vd
     \<and> far_radius vd' = far_radius vd
     \<and> (\<forall>h x'. h < vertex_slots vd \<longrightarrow> vertices vd' h = Some x' \<longrightarrow>
           (\<exists>x. vertices vd h = Some x \<and> index x' = index x \<and> vtype x' = vtype x \<and> position x' = position x))
     \<and> (listed vd \<longrightarrow> listed vd')"

definition entered :: "Point \<Rightarrow> VoronoiDiagram \<Rightarrow> VoronoiDiagram" where
  "entered p vd =
     (snd (add_vertex p OUT POINTSITE None 0 (insert_point_site_entry vd)))
       \<lparr>vertex_map := map_insert (vertex_count vd) (vertex_slots vd) (vertex_map vd)\<rparr>"

section \<open>Evaluating the engine on a given diagram\<close>

lemma bind_Ok [simp]: "bind (Ok x) f = f x"
  by (simp add: bind_def)

lemma bind_Fail [simp]: "bind (Fail e s) f = Fail e s"
  by (simp add: bind_def)

text \<open>
  The rules used to run the engine on a concrete diagram. The primitive operations
  rewrite a diagram that is written out field by field; the weak congruence rules make
  the simplifier compute a bound value before it enters the body that uses it.
\<close>

lemma case_prod_weak_cong: "p = q \<Longrightarrow> case_prod c p = case_prod c q"
  by simp

lemma bind_weak_cong: "m = m' \<Longrightarrow> bind m f = bind m' f"
  by simp

lemma upt_eval: "[m..<n] = (if m < n then m # [m + 1..<n] else [])"
  by (simp add: upt_rec)

lemma add_vertex_lit:
  "add_vertex p st ty gn kk
     \<lparr>vertices = V, vertex_slots = vn, edges = E, edge_slots = en, faces = F,
       face_slots = fn, vertex_count = vc, far_radius = fr, num_psites = np,
       num_lsites = nl, vertex_map = vm, vertexQueue = vq, modified_vertices = mv,
       incident_faces = ifs, v0 = vz, segment_start = ss, segment_end = se,
       zero_point_face = zp, null_face1 = n1, null_face2 = n2, fgrid = fg\<rparr>
   = (vn, \<lparr>vertices = V(vn \<mapsto> new_VoronoiVertex vc p st ty gn kk),
       vertex_slots = vn + 1, edges = E, edge_slots = en, faces = F, face_slots = fn,
       vertex_count = vc + 1, far_radius = fr, num_psites = np, num_lsites = nl,
       vertex_map = vm, vertexQueue = vq, modified_vertices = mv, incident_faces = ifs,
       v0 = vz, segment_start = ss, segment_end = se, zero_point_face = zp,
       null_face1 = n1, null_face2 = n2, fgrid = fg\<rparr>)"
  by (simp add: add_vertex_def)

lemma add_edge_lit:
  "add_edge u w
     \<lparr>vertices = V, vertex_slots = vn, edges = E, edge_slots = en, faces = F,
       face_slots = fn, vertex_count = vc, far_radius = fr, num_psites = np,
       num_lsites = nl, vertex_map = vm, vertexQueue = vq, modified_vertices = mv,
       incident_faces = ifs, v0 = vz, segment_start = ss, segment_end = se,
       zero_point_face = zp, null_face1 = n1, null_face2 = n2, fgrid = fg\<rparr>
   = (en, \<lparr>vertices = V, vertex_slots = vn, edges = E(en \<mapsto> new_HalfEdge u w),
       edge_slots = en + 1, faces = F, face_slots = fn, vertex_count = vc,
       far_radius = fr, num_psites = np, num_lsites = nl, vertex_map = vm,
       vertexQueue = vq, modified_vertices = mv, incident_faces = ifs, v0 = vz,
       segment_start = ss, segment_end = se, zero_point_face = zp, null_face1 = n1,
       null_face2 = n2, fgrid = fg\<rparr>)"
  by (simp add: add_edge_def)

lemma g_add_face_lit:
  "g_add_face
     \<lparr>vertices = V, vertex_slots = vn, edges = E, edge_slots = en, faces = F,
       face_slots = fn, vertex_count = vc, far_radius = fr, num_psites = np,
       num_lsites = nl, vertex_map = vm, vertexQueue = vq, modified_vertices = mv,
       incident_faces = ifs, v0 = vz, segment_start = ss, segment_end = se,
       zero_point_face = zp, null_face1 = n1, null_face2 = n2, fgrid = fg\<rparr>
   = (fn, \<lparr>vertices = V, vertex_slots = vn, edges = E, edge_slots = en,
       faces = F(fn \<mapsto> \<lparr>edge = None, site = None, fstatus = NONINCIDENT\<rparr>),
       face_slots = fn + 1, vertex_count = vc, far_radius = fr, num_psites = np,
       num_lsites = nl, vertex_map = vm, vertexQueue = vq, modified_vertices = mv,
       incident_faces = ifs, v0 = vz, segment_start = ss, segment_end = se,
       zero_point_face = zp, null_face1 = n1, null_face2 = n2, fgrid = fg\<rparr>)"
  by (simp add: g_add_face_def)

lemma fgrid_add_face_lit:
  "fgrid_add_face f
     \<lparr>vertices = V, vertex_slots = vn, edges = E, edge_slots = en, faces = F,
       face_slots = fn, vertex_count = vc, far_radius = fr, num_psites = np,
       num_lsites = nl, vertex_map = vm, vertexQueue = vq, modified_vertices = mv,
       incident_faces = ifs, v0 = vz, segment_start = ss, segment_end = se,
       zero_point_face = zp, null_face1 = n1, null_face2 = n2, fgrid = fg\<rparr>
   = \<lparr>vertices = V, vertex_slots = vn, edges = E, edge_slots = en, faces = F,
       face_slots = fn, vertex_count = vc, far_radius = fr, num_psites = np,
       num_lsites = nl, vertex_map = vm, vertexQueue = vq, modified_vertices = mv,
       incident_faces = ifs, v0 = vz, segment_start = ss, segment_end = se,
       zero_point_face = zp, null_face1 = n1, null_face2 = n2, fgrid = fg @ [f]\<rparr>"
  by (simp add: fgrid_add_face_def)

lemma upd_vertex_lit:
  "upd_vertex v h
     \<lparr>vertices = V, vertex_slots = vn, edges = E, edge_slots = en, faces = F,
       face_slots = fn, vertex_count = vc, far_radius = fr, num_psites = np,
       num_lsites = nl, vertex_map = vm, vertexQueue = vq, modified_vertices = mv,
       incident_faces = ifs, v0 = vz, segment_start = ss, segment_end = se,
       zero_point_face = zp, null_face1 = n1, null_face2 = n2, fgrid = fg\<rparr>
   = \<lparr>vertices = V(v := map_option h (V v)), vertex_slots = vn, edges = E,
       edge_slots = en, faces = F, face_slots = fn, vertex_count = vc, far_radius = fr,
       num_psites = np, num_lsites = nl, vertex_map = vm, vertexQueue = vq,
       modified_vertices = mv, incident_faces = ifs, v0 = vz, segment_start = ss,
       segment_end = se, zero_point_face = zp, null_face1 = n1, null_face2 = n2, fgrid = fg\<rparr>"
  by (simp add: upd_vertex_def)

lemma upd_edge_lit:
  "upd_edge e h
     \<lparr>vertices = V, vertex_slots = vn, edges = E, edge_slots = en, faces = F,
       face_slots = fn, vertex_count = vc, far_radius = fr, num_psites = np,
       num_lsites = nl, vertex_map = vm, vertexQueue = vq, modified_vertices = mv,
       incident_faces = ifs, v0 = vz, segment_start = ss, segment_end = se,
       zero_point_face = zp, null_face1 = n1, null_face2 = n2, fgrid = fg\<rparr>
   = \<lparr>vertices = V, vertex_slots = vn, edges = E(e := map_option h (E e)),
       edge_slots = en, faces = F, face_slots = fn, vertex_count = vc, far_radius = fr,
       num_psites = np, num_lsites = nl, vertex_map = vm, vertexQueue = vq,
       modified_vertices = mv, incident_faces = ifs, v0 = vz, segment_start = ss,
       segment_end = se, zero_point_face = zp, null_face1 = n1, null_face2 = n2, fgrid = fg\<rparr>"
  by (simp add: upd_edge_def)

lemma upd_face_lit:
  "upd_face f h
     \<lparr>vertices = V, vertex_slots = vn, edges = E, edge_slots = en, faces = F,
       face_slots = fn, vertex_count = vc, far_radius = fr, num_psites = np,
       num_lsites = nl, vertex_map = vm, vertexQueue = vq, modified_vertices = mv,
       incident_faces = ifs, v0 = vz, segment_start = ss, segment_end = se,
       zero_point_face = zp, null_face1 = n1, null_face2 = n2, fgrid = fg\<rparr>
   = \<lparr>vertices = V, vertex_slots = vn, edges = E, edge_slots = en,
       faces = F(f := map_option h (F f)), face_slots = fn, vertex_count = vc,
       far_radius = fr, num_psites = np, num_lsites = nl, vertex_map = vm,
       vertexQueue = vq, modified_vertices = mv, incident_faces = ifs, v0 = vz,
       segment_start = ss, segment_end = se, zero_point_face = zp, null_face1 = n1,
       null_face2 = n2, fgrid = fg\<rparr>"
  by (simp add: upd_face_def)

lemmas lits = add_vertex_lit add_edge_lit g_add_face_lit fgrid_add_face_lit upd_vertex_lit upd_edge_lit
  upd_face_lit

lemmas graph_defs = empty_diagram_def set_next_cycle_def set_next_def set_line_def set_type_def
  set_parameters_def twin_edges_def add_twin_edges_def set_site_def set_fstatus_def new_HalfEdge_def
  new_VoronoiVertex_def get_vertex_def get_edge_def get_face_def g_source_def g_target_def g_next_def
  g_twin_def g_eface_def face_edge_def face_site_def is_out_edge_def out_edge_itr_def leads_to_def
  has_edge_def adjacent_faces_def face_ring_def previous_edge_def remove_edge_def add_half_def
  add_vertex_in_edge_def assert_def set_next_chain_face_def delete_vertex_def incident_to_def

lemmas engine_defs = initialize_graph_def initialize_vertices_def initialize_face_def initialize_def
  new_VoronoiDiagram_def find_seed_vertex_def seed_update_def predicate_c4_def predicate_c5_def
  c5_vertex_ok_def split_candidate_def find_split_edges_def add_split_vertex_def set_status_def
  modified_insert_def modified_erase_def push_incident_def mark_adjacent_faces_p_def
  mark_adjacent_faces_def mark_vertex_def augment_step_def augment_fuel_def augment_vertex_set_def
  find_in_out_edges_def add_vertices_def add_face_def num_new_vertices_def is_v1_candidate_def
  find_edge_data_def edge_signs_def add_single_edge_def add_apex_split_def add_edge_he_def
  add_edges_def repair_special_def repair_face_def remove_vertex_set_def vertex_reset_def
  reset_status_def map_insert_def insert_point_site_entry_def new_vertex_index_def
  insert_point_site_def find_endpoints_def

lemmas loop_simps = ring_from.simps find_seed_loop.simps c5_face_loop.simps previous_edge_loop.simps
  find_split_loop.simps num_new_loop.simps find_v1_loop.simps find_v2_loop.simps repair_loop.simps
  add_edges_loop.simps augment_loop.simps

lemmas obs_defs = vertex_kind_def vertex_position_def vertex_status_def face_status_def edge_view_def
  edge_has_type_def edges_of_type_def live_edges_def live_vertices_def live_faces_def

lemmas run = lits graph_defs engine_defs loop_simps obs_defs Let_def One_nat_def[symmetric] upt_eval

lemmas run_exact = run exact_arith_def pnorm_def padd_def psub_def pscale_def pdot_def p_eq_def

section \<open>The initial frame\<close>

text \<open>What \<open>initialize\<close> builds, for any arithmetic and any far radius.\<close>

lemma initialize_graph_view:
  "frame_view (initialize_graph ar (empty_diagram far)) =
     (([Some NORMAL, Some OUTER, Some OUTER, Some OUTER, Some POINTSITE, Some POINTSITE, Some POINTSITE,
        Some APEX, Some APEX, Some APEX],
       [Some (Point (Finite 0) (Finite 0)), Some (vd1 ar far), Some (vd2 ar far), Some (vd3 ar far),
        Some (gen1 ar far), Some (gen2 ar far), Some (gen3 ar far),
        Some (pscale ar (Finite (1 / 2)) (padd ar (gen2 ar far) (gen3 ar far))),
        Some (pscale ar (Finite (1 / 2)) (padd ar (gen1 ar far) (gen3 ar far))),
        Some (pscale ar (Finite (1 / 2)) (padd ar (gen1 ar far) (gen2 ar far)))]),
      [Some (0, 7, Some 14, Some LINE), Some (7, 1, Some 13, Some LINE), Some (1, 2, None, Some OUTEDGE),
       Some (2, 8, Some 6, Some LINE), Some (8, 0, Some 5, Some LINE),
       Some (0, 8, Some 4, Some LINE), Some (8, 2, Some 3, Some LINE), Some (2, 3, None, Some OUTEDGE),
       Some (3, 9, Some 11, Some LINE), Some (9, 0, Some 10, Some LINE),
       Some (0, 9, Some 9, Some LINE), Some (9, 3, Some 8, Some LINE), Some (3, 1, None, Some OUTEDGE),
       Some (1, 7, Some 1, Some LINE), Some (7, 0, Some 0, Some LINE)],
      ([Some UNDECIDED, Some OUT, Some OUT, Some OUT, Some OUT, Some OUT, Some OUT, Some UNDECIDED,
        Some UNDECIDED, Some UNDECIDED],
       [Some NONINCIDENT, Some NONINCIDENT, Some NONINCIDENT]))"
  by (simp del: One_nat_def upt_rec_numeral add: run frame_view_def
      cong: let_weak_cong case_prod_weak_cong bind_weak_cong)

lemma initialize_graph_types:
  "edges_of_type (initialize_graph ar (empty_diagram far)) OUTEDGE = [2, 7, 12]
   \<and> edges_of_type (initialize_graph ar (empty_diagram far)) LINE = [0, 1, 3, 4, 5, 6, 8, 9, 10, 11, 13, 14]
   \<and> live_edges (initialize_graph ar (empty_diagram far)) = [0, 1, 2, 3, 4, 5, 6, 7, 8, 9, 10, 11, 12, 13, 14]"
  by (simp del: One_nat_def upt_rec_numeral add: run
      cong: let_weak_cong case_prod_weak_cong bind_weak_cong)

lemma obs_counters:
  "vertex_kind (vd\<lparr>num_psites := a, num_lsites := b, vertex_count := c\<rparr>) = vertex_kind vd"
  "vertex_position (vd\<lparr>num_psites := a, num_lsites := b, vertex_count := c\<rparr>) = vertex_position vd"
  "edge_view (vd\<lparr>num_psites := a, num_lsites := b, vertex_count := c\<rparr>) = edge_view vd"
  "edge_has_type (vd\<lparr>num_psites := a, num_lsites := b, vertex_count := c\<rparr>) = edge_has_type vd"
  "vertex_status (vd\<lparr>num_psites := a, num_lsites := b, vertex_count := c\<rparr>) = vertex_status vd"
  "face_status (vd\<lparr>num_psites := a, num_lsites := b, vertex_count := c\<rparr>) = face_status vd"
  by (simp_all add: fun_eq_iff obs_defs)

lemma frame_view_counters:
  "frame_view (vd\<lparr>num_psites := a, num_lsites := b, vertex_count := c\<rparr>) = frame_view vd"
  by (simp add: frame_view_def obs_counters)

lemma edge_lists_counters:
  "edges_of_type (vd\<lparr>num_psites := a, num_lsites := b, vertex_count := c\<rparr>) t = edges_of_type vd t"
  "live_edges (vd\<lparr>num_psites := a, num_lsites := b, vertex_count := c\<rparr>) = live_edges vd"
  by (simp_all add: edges_of_type_def live_edges_def obs_counters)

lemma new_VoronoiDiagram_Ok:
  "new_VoronoiDiagram ext far n_bins = Ok vd \<Longrightarrow>
     vd = (initialize_graph (arith ext) (empty_diagram far))\<lparr>num_psites := 3, num_lsites := 0, vertex_count := 0\<rparr>"
  by (auto simp: new_VoronoiDiagram_def initialize_def assert_def Let_def split: if_splits)

lemma new_VoronoiDiagram_sample: "new_VoronoiDiagram sample_ext (Finite 1) 10 = Ok frame_vd"
  by (simp add: new_VoronoiDiagram_def initialize_def assert_def sample_ext_def frame_vd_def Let_def)

text \<open>Without rounding the generators lie on the circle of radius \<open>3 far\<close> and the outer
  vertices on the circle of radius \<open>18 far\<close>.\<close>

lemma sqrt_sum3:
  fixes a b t :: real
  assumes "0 \<le> t" and "t * t = 3 * (a * a) + b * b"
  shows "sqrt (a * sqrt 3 * (a * sqrt 3) + b * b) = t"
proof -
  have "a * sqrt 3 * (a * sqrt 3) = a * a * (sqrt 3 * sqrt 3)"
    by (simp only: mult_ac)
  also have "\<dots> = 3 * (a * a)"
    by simp
  finally have "a * sqrt 3 * (a * sqrt 3) + b * b = t\<^sup>2"
    using assms(2) by (simp add: power2_eq_square)
  then show ?thesis
    using assms(1) by (simp only: real_sqrt_abs abs_of_nonneg)
qed

lemma exact_ops:
  "d_add exact_arith = ex_add" "d_sub exact_arith = ex_sub" "d_mul exact_arith = ex_mul"
  "d_div exact_arith = ex_div" "d_sqrt exact_arith = ex_sqrt" "d_abs exact_arith = ex_abs"
  "d_lt exact_arith = ex_lt" "d_le exact_arith = ex_le" "d_eq exact_arith = ex_eq"
  by (simp_all add: exact_arith_def)

lemma exact_norm:
  "pnorm exact_arith (Point (Finite x) (Finite y)) = Finite (sqrt (x * x + y * y))"
  by (simp add: pnorm_def exact_ops not_less)

lemma exact_gen1: "0 \<le> r \<Longrightarrow> pnorm exact_arith (gen1 exact_arith (Finite r)) = Finite (3 * r)"
  using sqrt_sum3 [of "3 * r" 0 "3 * r"] by (simp add: gen1_def exact_ops exact_norm)

lemma exact_gen2: "0 \<le> r \<Longrightarrow> pnorm exact_arith (gen2 exact_arith (Finite r)) = Finite (3 * r)"
  using sqrt_sum3 [of "3 * r" "- 3 * r / 2" "- 3 * r / 2"]
  by (simp add: gen2_def exact_ops exact_norm algebra_simps)

lemma exact_gen3: "0 \<le> r \<Longrightarrow> pnorm exact_arith (gen3 exact_arith (Finite r)) = Finite (3 * r)"
  using sqrt_sum3 [of "3 * r" "3 * r / 2" "- 3 * r / 2"]
  by (simp add: gen3_def exact_ops exact_norm algebra_simps)

lemma exact_vd1: "0 \<le> r \<Longrightarrow> pnorm exact_arith (vd1 exact_arith (Finite r)) = Finite (18 * r)"
  using sqrt_sum3 [of "18 * r" 0 "- 18 * r"]
  by (simp add: vd1_def far_multiplier_def exact_ops exact_norm)

lemma exact_vd2: "0 \<le> r \<Longrightarrow> pnorm exact_arith (vd2 exact_arith (Finite r)) = Finite (18 * r)"
  using sqrt_sum3 [of "18 * r" "9 * r" "9 * r"]
  by (simp add: vd2_def far_multiplier_def exact_ops exact_norm algebra_simps)

lemma exact_vd3: "0 \<le> r \<Longrightarrow> pnorm exact_arith (vd3 exact_arith (Finite r)) = Finite (18 * r)"
  using sqrt_sum3 [of "18 * r" "- 9 * r" "9 * r"]
  by (simp add: vd3_def far_multiplier_def exact_ops exact_norm algebra_simps)

text \<open>
  C9, as amended. After construction the ten vertices of the frame are, in the order of
  their handles, one NORMAL vertex at the origin, three OUTER vertices, three POINTSITE
  generators and three APEX vertices; each is stored at the point that the source's
  expression gives in the arithmetic of the platform (the apex vertices at half the sum
  of two generators). The frame has fifteen half-edges. Three are of type OUTEDGE, join
  the OUTER vertices in a cycle and have no twin. Twelve are of type LINE: every spoke
  from the NORMAL vertex to an OUTER vertex is split at an APEX vertex into two
  half-edges, and each of these is the twin of the opposite half-edge of the
  neighbouring face, six twin pairs in all. In an arithmetic that does not round, and
  for a finite far radius that is not negative, the generators are at distance
  \<open>3 far\<close> from the origin and the OUTER vertices at distance \<open>3 far_multiplier far = 18 far\<close>.
\<close>

theorem initial_frame:
  assumes "new_VoronoiDiagram ext far n_bins = Ok vd"
  shows "map (vertex_kind vd) [0..<vertex_slots vd] =
           [Some NORMAL, Some OUTER, Some OUTER, Some OUTER, Some POINTSITE, Some POINTSITE,
            Some POINTSITE, Some APEX, Some APEX, Some APEX]
       \<and> map (vertex_position vd) [0..<vertex_slots vd] =
           [Some (Point (Finite 0) (Finite 0)),
            Some (vd1 (arith ext) far), Some (vd2 (arith ext) far), Some (vd3 (arith ext) far),
            Some (gen1 (arith ext) far), Some (gen2 (arith ext) far), Some (gen3 (arith ext) far),
            Some (pscale (arith ext) (Finite (1 / 2)) (padd (arith ext) (gen2 (arith ext) far) (gen3 (arith ext) far))),
            Some (pscale (arith ext) (Finite (1 / 2)) (padd (arith ext) (gen1 (arith ext) far) (gen3 (arith ext) far))),
            Some (pscale (arith ext) (Finite (1 / 2)) (padd (arith ext) (gen1 (arith ext) far) (gen2 (arith ext) far)))]
       \<and> map (edge_view vd) [0..<edge_slots vd] =
           [Some (0, 7, Some 14, Some LINE), Some (7, 1, Some 13, Some LINE),
            Some (1, 2, None, Some OUTEDGE),
            Some (2, 8, Some 6, Some LINE), Some (8, 0, Some 5, Some LINE),
            Some (0, 8, Some 4, Some LINE), Some (8, 2, Some 3, Some LINE),
            Some (2, 3, None, Some OUTEDGE),
            Some (3, 9, Some 11, Some LINE), Some (9, 0, Some 10, Some LINE),
            Some (0, 9, Some 9, Some LINE), Some (9, 3, Some 8, Some LINE),
            Some (3, 1, None, Some OUTEDGE),
            Some (1, 7, Some 1, Some LINE), Some (7, 0, Some 0, Some LINE)]
       \<and> length (live_edges vd) = 15
       \<and> edges_of_type vd OUTEDGE = [2, 7, 12]
       \<and> edges_of_type vd LINE = [0, 1, 3, 4, 5, 6, 8, 9, 10, 11, 13, 14]
       \<and> (arith ext = exact_arith \<and> far = Finite r \<and> 0 \<le> r \<longrightarrow>
            pnorm (arith ext) (gen1 (arith ext) far) = Finite (3 * r)
            \<and> pnorm (arith ext) (gen2 (arith ext) far) = Finite (3 * r)
            \<and> pnorm (arith ext) (gen3 (arith ext) far) = Finite (3 * r)
            \<and> pnorm (arith ext) (vd1 (arith ext) far) = Finite (18 * r)
            \<and> pnorm (arith ext) (vd2 (arith ext) far) = Finite (18 * r)
            \<and> pnorm (arith ext) (vd3 (arith ext) far) = Finite (18 * r))"
proof -
  let ?g = "initialize_graph (arith ext) (empty_diagram far)"
  have vd: "vd = ?g\<lparr>num_psites := 3, num_lsites := 0, vertex_count := 0\<rparr>"
    using new_VoronoiDiagram_Ok [OF assms] .
  have "frame_view vd = frame_view ?g"
    unfolding vd by (simp only: frame_view_counters)
  note v = this [unfolded initialize_graph_view, unfolded frame_view_def prod.inject]
  have types: "edges_of_type vd OUTEDGE = [2, 7, 12]"
    "edges_of_type vd LINE = [0, 1, 3, 4, 5, 6, 8, 9, 10, 11, 13, 14]"
    "live_edges vd = [0, 1, 2, 3, 4, 5, 6, 7, 8, 9, 10, 11, 12, 13, 14]"
    unfolding vd using initialize_graph_types [of "arith ext" far]
    by (simp_all only: edge_lists_counters)
  have n_live: "length (live_edges vd) = 15"
    by (simp add: types(3))
  have exact: "arith ext = exact_arith \<and> far = Finite r \<and> 0 \<le> r \<longrightarrow>
            pnorm (arith ext) (gen1 (arith ext) far) = Finite (3 * r)
            \<and> pnorm (arith ext) (gen2 (arith ext) far) = Finite (3 * r)
            \<and> pnorm (arith ext) (gen3 (arith ext) far) = Finite (3 * r)
            \<and> pnorm (arith ext) (vd1 (arith ext) far) = Finite (18 * r)
            \<and> pnorm (arith ext) (vd2 (arith ext) far) = Finite (18 * r)
            \<and> pnorm (arith ext) (vd3 (arith ext) far) = Finite (18 * r)"
    by (auto simp only: exact_gen1 exact_gen2 exact_gen3 exact_vd1 exact_vd2 exact_vd3)
  show ?thesis
    using v n_live types(1,2) exact by blast
qed

theorem initial_frame_witness:
  "new_VoronoiDiagram sample_ext (Finite 1) 10 = Ok frame_vd
   \<and> map (vertex_kind frame_vd) [0..<vertex_slots frame_vd] =
           [Some NORMAL, Some OUTER, Some OUTER, Some OUTER, Some POINTSITE, Some POINTSITE,
            Some POINTSITE, Some APEX, Some APEX, Some APEX]
   \<and> length (live_edges frame_vd) = 15
   \<and> edges_of_type frame_vd OUTEDGE = [2, 7, 12]
   \<and> pnorm exact_arith (gen2 exact_arith (Finite 1)) = Finite 3
   \<and> pnorm exact_arith (vd2 exact_arith (Finite 1)) = Finite 18"
  using initial_frame [of sample_ext "Finite 1" 10 frame_vd 1] new_VoronoiDiagram_sample
  by (simp add: sample_ext_def)

text \<open>
  C9 as it was stated speaks of nine half-edges, six of them of type LINE: the frame
  has fifteen, twelve of them of type LINE.
\<close>

lemma frame_vd_types:
  "edges_of_type frame_vd LINE = [0, 1, 3, 4, 5, 6, 8, 9, 10, 11, 13, 14]
   \<and> live_edges frame_vd = [0, 1, 2, 3, 4, 5, 6, 7, 8, 9, 10, 11, 12, 13, 14]"
  unfolding frame_vd_def using initialize_graph_types [of exact_arith "Finite 1"]
  by (simp only: edge_lists_counters)

theorem initial_frame_counterexample:
  "new_VoronoiDiagram sample_ext (Finite 1) 10 = Ok frame_vd
   \<and> length (live_edges frame_vd) \<noteq> 9
   \<and> length (edges_of_type frame_vd LINE) \<noteq> 6
   \<and> length (live_edges frame_vd) = 15
   \<and> length (edges_of_type frame_vd LINE) = 12"
  by (simp add: frame_vd_types new_VoronoiDiagram_sample)

section \<open>What every phase of an insertion keeps\<close>

lemma bind_eq_Ok: "bind m f = Ok y \<longleftrightarrow> (\<exists>x. m = Ok x \<and> f x = Ok y)"
  by (cases m) (simp_all add: bind_def)

lemma assert_eq_Ok: "assert b msg vd = Ok u \<longleftrightarrow> b"
  by (simp add: assert_def)

lemma steady_refl: "steady vd vd"
  by (simp add: steady_def)

lemma steady_trans:
  assumes ab: "steady a b" and bc: "steady b c"
  shows "steady a c"
proof -
  have v: "\<exists>x. vertices a h = Some x \<and> index x' = index x \<and> vtype x' = vtype x \<and> position x' = position x"
    if h: "h < vertex_slots a" and c: "vertices c h = Some x'" for h x'
  proof -
    from h ab have hb: "h < vertex_slots b"
      by (simp add: steady_def)
    with bc c obtain y where y: "vertices b h = Some y" "index x' = index y" "vtype x' = vtype y"
      "position x' = position y"
      unfolding steady_def by blast
    with ab h obtain x where "vertices a h = Some x" "index y = index x" "vtype y = vtype x"
      "position y = position x"
      unfolding steady_def by blast
    with y show ?thesis
      by simp
  qed
  have "listed a \<longrightarrow> listed c"
    using ab bc by (simp add: steady_def)
  moreover have "vertex_slots a \<le> vertex_slots c" "vertex_count a \<le> vertex_count c"
    "vertex_map c = vertex_map a" "num_psites c = num_psites a" "num_lsites c = num_lsites a"
    "far_radius c = far_radius a"
    using ab bc by (simp_all add: steady_def)
  ultimately show ?thesis
    unfolding steady_def using v by blast
qed

lemma sel_upd_edge:
  "vertices (upd_edge e f vd) = vertices vd"
  "vertex_slots (upd_edge e f vd) = vertex_slots vd"
  "faces (upd_edge e f vd) = faces vd"
  "face_slots (upd_edge e f vd) = face_slots vd"
  "vertex_count (upd_edge e f vd) = vertex_count vd"
  "far_radius (upd_edge e f vd) = far_radius vd"
  "num_psites (upd_edge e f vd) = num_psites vd"
  "num_lsites (upd_edge e f vd) = num_lsites vd"
  "vertex_map (upd_edge e f vd) = vertex_map vd"
  "vertexQueue (upd_edge e f vd) = vertexQueue vd"
  "modified_vertices (upd_edge e f vd) = modified_vertices vd"
  "incident_faces (upd_edge e f vd) = incident_faces vd"
  "v0 (upd_edge e f vd) = v0 vd"
  by (simp_all add: upd_edge_def)

lemma sel_remove_edge:
  "vertices (remove_edge e vd) = vertices vd"
  "vertex_slots (remove_edge e vd) = vertex_slots vd"
  "faces (remove_edge e vd) = faces vd"
  "face_slots (remove_edge e vd) = face_slots vd"
  "vertex_count (remove_edge e vd) = vertex_count vd"
  "far_radius (remove_edge e vd) = far_radius vd"
  "num_psites (remove_edge e vd) = num_psites vd"
  "num_lsites (remove_edge e vd) = num_lsites vd"
  "vertex_map (remove_edge e vd) = vertex_map vd"
  "vertexQueue (remove_edge e vd) = vertexQueue vd"
  "modified_vertices (remove_edge e vd) = modified_vertices vd"
  "incident_faces (remove_edge e vd) = incident_faces vd"
  "v0 (remove_edge e vd) = v0 vd"
  by (simp_all add: remove_edge_def)

lemma sel_add_edge:
  "vertices (snd (add_edge u w vd)) = vertices vd"
  "vertex_slots (snd (add_edge u w vd)) = vertex_slots vd"
  "faces (snd (add_edge u w vd)) = faces vd"
  "face_slots (snd (add_edge u w vd)) = face_slots vd"
  "vertex_count (snd (add_edge u w vd)) = vertex_count vd"
  "far_radius (snd (add_edge u w vd)) = far_radius vd"
  "num_psites (snd (add_edge u w vd)) = num_psites vd"
  "num_lsites (snd (add_edge u w vd)) = num_lsites vd"
  "vertex_map (snd (add_edge u w vd)) = vertex_map vd"
  "vertexQueue (snd (add_edge u w vd)) = vertexQueue vd"
  "modified_vertices (snd (add_edge u w vd)) = modified_vertices vd"
  "incident_faces (snd (add_edge u w vd)) = incident_faces vd"
  "v0 (snd (add_edge u w vd)) = v0 vd"
  by (simp_all add: add_edge_def)

lemma sel_fgrid_add_face:
  "vertices (fgrid_add_face f vd) = vertices vd"
  "vertex_slots (fgrid_add_face f vd) = vertex_slots vd"
  "faces (fgrid_add_face f vd) = faces vd"
  "face_slots (fgrid_add_face f vd) = face_slots vd"
  "vertex_count (fgrid_add_face f vd) = vertex_count vd"
  "far_radius (fgrid_add_face f vd) = far_radius vd"
  "num_psites (fgrid_add_face f vd) = num_psites vd"
  "num_lsites (fgrid_add_face f vd) = num_lsites vd"
  "vertex_map (fgrid_add_face f vd) = vertex_map vd"
  "vertexQueue (fgrid_add_face f vd) = vertexQueue vd"
  "modified_vertices (fgrid_add_face f vd) = modified_vertices vd"
  "incident_faces (fgrid_add_face f vd) = incident_faces vd"
  "v0 (fgrid_add_face f vd) = v0 vd"
  by (simp_all add: fgrid_add_face_def)

lemma sel_upd_vertex:
  "vertices (upd_vertex v f vd) = (vertices vd)(v := map_option f (vertices vd v))"
  "vertex_slots (upd_vertex v f vd) = vertex_slots vd"
  "faces (upd_vertex v f vd) = faces vd"
  "face_slots (upd_vertex v f vd) = face_slots vd"
  "vertex_count (upd_vertex v f vd) = vertex_count vd"
  "far_radius (upd_vertex v f vd) = far_radius vd"
  "num_psites (upd_vertex v f vd) = num_psites vd"
  "num_lsites (upd_vertex v f vd) = num_lsites vd"
  "vertex_map (upd_vertex v f vd) = vertex_map vd"
  "vertexQueue (upd_vertex v f vd) = vertexQueue vd"
  "modified_vertices (upd_vertex v f vd) = modified_vertices vd"
  "incident_faces (upd_vertex v f vd) = incident_faces vd"
  "v0 (upd_vertex v f vd) = v0 vd"
  by (simp_all add: upd_vertex_def)

lemma sel_upd_face:
  "vertices (upd_face f h vd) = vertices vd"
  "vertex_slots (upd_face f h vd) = vertex_slots vd"
  "faces (upd_face f h vd) = (faces vd)(f := map_option h (faces vd f))"
  "face_slots (upd_face f h vd) = face_slots vd"
  "vertex_count (upd_face f h vd) = vertex_count vd"
  "far_radius (upd_face f h vd) = far_radius vd"
  "num_psites (upd_face f h vd) = num_psites vd"
  "num_lsites (upd_face f h vd) = num_lsites vd"
  "vertex_map (upd_face f h vd) = vertex_map vd"
  "vertexQueue (upd_face f h vd) = vertexQueue vd"
  "modified_vertices (upd_face f h vd) = modified_vertices vd"
  "incident_faces (upd_face f h vd) = incident_faces vd"
  "v0 (upd_face f h vd) = v0 vd"
  by (simp_all add: upd_face_def)

lemma sel_add_vertex:
  "vertices (snd (add_vertex p st ty gn kk vd)) = (vertices vd)(vertex_slots vd \<mapsto> new_VoronoiVertex (vertex_count vd) p st ty gn kk)"
  "vertex_slots (snd (add_vertex p st ty gn kk vd)) = Suc (vertex_slots vd)"
  "faces (snd (add_vertex p st ty gn kk vd)) = faces vd"
  "face_slots (snd (add_vertex p st ty gn kk vd)) = face_slots vd"
  "vertex_count (snd (add_vertex p st ty gn kk vd)) = vertex_count vd + 1"
  "far_radius (snd (add_vertex p st ty gn kk vd)) = far_radius vd"
  "num_psites (snd (add_vertex p st ty gn kk vd)) = num_psites vd"
  "num_lsites (snd (add_vertex p st ty gn kk vd)) = num_lsites vd"
  "vertex_map (snd (add_vertex p st ty gn kk vd)) = vertex_map vd"
  "vertexQueue (snd (add_vertex p st ty gn kk vd)) = vertexQueue vd"
  "modified_vertices (snd (add_vertex p st ty gn kk vd)) = modified_vertices vd"
  "incident_faces (snd (add_vertex p st ty gn kk vd)) = incident_faces vd"
  "v0 (snd (add_vertex p st ty gn kk vd)) = v0 vd"
  by (simp_all add: add_vertex_def)

lemma sel_g_add_face:
  "vertices (snd (g_add_face vd)) = vertices vd"
  "vertex_slots (snd (g_add_face vd)) = vertex_slots vd"
  "faces (snd (g_add_face vd)) = (faces vd)(face_slots vd \<mapsto> \<lparr>edge = None, site = None, fstatus = NONINCIDENT\<rparr>)"
  "face_slots (snd (g_add_face vd)) = Suc (face_slots vd)"
  "vertex_count (snd (g_add_face vd)) = vertex_count vd"
  "far_radius (snd (g_add_face vd)) = far_radius vd"
  "num_psites (snd (g_add_face vd)) = num_psites vd"
  "num_lsites (snd (g_add_face vd)) = num_lsites vd"
  "vertex_map (snd (g_add_face vd)) = vertex_map vd"
  "vertexQueue (snd (g_add_face vd)) = vertexQueue vd"
  "modified_vertices (snd (g_add_face vd)) = modified_vertices vd"
  "incident_faces (snd (g_add_face vd)) = incident_faces vd"
  "v0 (snd (g_add_face vd)) = v0 vd"
  by (simp_all add: g_add_face_def)

lemma sel_modified_insert:
  "vertices (modified_insert v vd) = vertices vd"
  "vertex_slots (modified_insert v vd) = vertex_slots vd"
  "faces (modified_insert v vd) = faces vd"
  "face_slots (modified_insert v vd) = face_slots vd"
  "vertex_count (modified_insert v vd) = vertex_count vd"
  "far_radius (modified_insert v vd) = far_radius vd"
  "num_psites (modified_insert v vd) = num_psites vd"
  "num_lsites (modified_insert v vd) = num_lsites vd"
  "vertex_map (modified_insert v vd) = vertex_map vd"
  "vertexQueue (modified_insert v vd) = vertexQueue vd"
  "modified_vertices (modified_insert v vd) = List.insert v (modified_vertices vd)"
  "incident_faces (modified_insert v vd) = incident_faces vd"
  "v0 (modified_insert v vd) = v0 vd"
  by (simp_all add: modified_insert_def)

lemma sel_modified_erase:
  "vertices (modified_erase v vd) = vertices vd"
  "vertex_slots (modified_erase v vd) = vertex_slots vd"
  "faces (modified_erase v vd) = faces vd"
  "face_slots (modified_erase v vd) = face_slots vd"
  "vertex_count (modified_erase v vd) = vertex_count vd"
  "far_radius (modified_erase v vd) = far_radius vd"
  "num_psites (modified_erase v vd) = num_psites vd"
  "num_lsites (modified_erase v vd) = num_lsites vd"
  "vertex_map (modified_erase v vd) = vertex_map vd"
  "vertexQueue (modified_erase v vd) = vertexQueue vd"
  "modified_vertices (modified_erase v vd) = removeAll v (modified_vertices vd)"
  "incident_faces (modified_erase v vd) = incident_faces vd"
  "v0 (modified_erase v vd) = v0 vd"
  by (simp_all add: modified_erase_def)

lemma sel_push_incident:
  "vertices (push_incident f vd) = vertices vd"
  "vertex_slots (push_incident f vd) = vertex_slots vd"
  "faces (push_incident f vd) = faces vd"
  "face_slots (push_incident f vd) = face_slots vd"
  "vertex_count (push_incident f vd) = vertex_count vd"
  "far_radius (push_incident f vd) = far_radius vd"
  "num_psites (push_incident f vd) = num_psites vd"
  "num_lsites (push_incident f vd) = num_lsites vd"
  "vertex_map (push_incident f vd) = vertex_map vd"
  "vertexQueue (push_incident f vd) = vertexQueue vd"
  "modified_vertices (push_incident f vd) = modified_vertices vd"
  "incident_faces (push_incident f vd) = incident_faces vd @ [f]"
  "v0 (push_incident f vd) = v0 vd"
  by (simp_all add: push_incident_def)

lemma sel_delete_vertex:
  "vertices (delete_vertex v vd) = (vertices vd)(v := None)"
  "vertex_slots (delete_vertex v vd) = vertex_slots vd"
  "faces (delete_vertex v vd) = faces vd"
  "face_slots (delete_vertex v vd) = face_slots vd"
  "vertex_count (delete_vertex v vd) = vertex_count vd"
  "far_radius (delete_vertex v vd) = far_radius vd"
  "num_psites (delete_vertex v vd) = num_psites vd"
  "num_lsites (delete_vertex v vd) = num_lsites vd"
  "vertex_map (delete_vertex v vd) = vertex_map vd"
  "vertexQueue (delete_vertex v vd) = vertexQueue vd"
  "modified_vertices (delete_vertex v vd) = modified_vertices vd"
  "incident_faces (delete_vertex v vd) = incident_faces vd"
  "v0 (delete_vertex v vd) = v0 vd"
  by (simp_all add: delete_vertex_def)

lemma sel_twin_edges:
  "vertices (twin_edges e1 e2 vd) = vertices vd"
  "vertex_slots (twin_edges e1 e2 vd) = vertex_slots vd"
  "faces (twin_edges e1 e2 vd) = faces vd"
  "face_slots (twin_edges e1 e2 vd) = face_slots vd"
  "vertex_count (twin_edges e1 e2 vd) = vertex_count vd"
  "far_radius (twin_edges e1 e2 vd) = far_radius vd"
  "num_psites (twin_edges e1 e2 vd) = num_psites vd"
  "num_lsites (twin_edges e1 e2 vd) = num_lsites vd"
  "vertex_map (twin_edges e1 e2 vd) = vertex_map vd"
  "vertexQueue (twin_edges e1 e2 vd) = vertexQueue vd"
  "modified_vertices (twin_edges e1 e2 vd) = modified_vertices vd"
  "incident_faces (twin_edges e1 e2 vd) = incident_faces vd"
  "v0 (twin_edges e1 e2 vd) = v0 vd"
  by (simp_all add: twin_edges_def sel_upd_edge)

lemma sel_set_next:
  "vertices (set_next e1 e2 vd) = vertices vd"
  "vertex_slots (set_next e1 e2 vd) = vertex_slots vd"
  "faces (set_next e1 e2 vd) = faces vd"
  "face_slots (set_next e1 e2 vd) = face_slots vd"
  "vertex_count (set_next e1 e2 vd) = vertex_count vd"
  "far_radius (set_next e1 e2 vd) = far_radius vd"
  "num_psites (set_next e1 e2 vd) = num_psites vd"
  "num_lsites (set_next e1 e2 vd) = num_lsites vd"
  "vertex_map (set_next e1 e2 vd) = vertex_map vd"
  "vertexQueue (set_next e1 e2 vd) = vertexQueue vd"
  "modified_vertices (set_next e1 e2 vd) = modified_vertices vd"
  "incident_faces (set_next e1 e2 vd) = incident_faces vd"
  "v0 (set_next e1 e2 vd) = v0 vd"
  by (simp_all add: set_next_def sel_upd_edge)

lemma sel_set_type:
  "vertices (set_type e t vd) = vertices vd"
  "vertex_slots (set_type e t vd) = vertex_slots vd"
  "faces (set_type e t vd) = faces vd"
  "face_slots (set_type e t vd) = face_slots vd"
  "vertex_count (set_type e t vd) = vertex_count vd"
  "far_radius (set_type e t vd) = far_radius vd"
  "num_psites (set_type e t vd) = num_psites vd"
  "num_lsites (set_type e t vd) = num_lsites vd"
  "vertex_map (set_type e t vd) = vertex_map vd"
  "vertexQueue (set_type e t vd) = vertexQueue vd"
  "modified_vertices (set_type e t vd) = modified_vertices vd"
  "incident_faces (set_type e t vd) = incident_faces vd"
  "v0 (set_type e t vd) = v0 vd"
  by (simp_all add: set_type_def sel_upd_edge)

lemma sel_set_parameters:
  "vertices (set_parameters e s1 s2 sg vd) = vertices vd"
  "vertex_slots (set_parameters e s1 s2 sg vd) = vertex_slots vd"
  "faces (set_parameters e s1 s2 sg vd) = faces vd"
  "face_slots (set_parameters e s1 s2 sg vd) = face_slots vd"
  "vertex_count (set_parameters e s1 s2 sg vd) = vertex_count vd"
  "far_radius (set_parameters e s1 s2 sg vd) = far_radius vd"
  "num_psites (set_parameters e s1 s2 sg vd) = num_psites vd"
  "num_lsites (set_parameters e s1 s2 sg vd) = num_lsites vd"
  "vertex_map (set_parameters e s1 s2 sg vd) = vertex_map vd"
  "vertexQueue (set_parameters e s1 s2 sg vd) = vertexQueue vd"
  "modified_vertices (set_parameters e s1 s2 sg vd) = modified_vertices vd"
  "incident_faces (set_parameters e s1 s2 sg vd) = incident_faces vd"
  "v0 (set_parameters e s1 s2 sg vd) = v0 vd"
  by (simp_all add: set_parameters_def sel_upd_edge)

lemma sel_set_line:
  "vertices (set_line e s1 s2 sg vd) = vertices vd"
  "vertex_slots (set_line e s1 s2 sg vd) = vertex_slots vd"
  "faces (set_line e s1 s2 sg vd) = faces vd"
  "face_slots (set_line e s1 s2 sg vd) = face_slots vd"
  "vertex_count (set_line e s1 s2 sg vd) = vertex_count vd"
  "far_radius (set_line e s1 s2 sg vd) = far_radius vd"
  "num_psites (set_line e s1 s2 sg vd) = num_psites vd"
  "num_lsites (set_line e s1 s2 sg vd) = num_lsites vd"
  "vertex_map (set_line e s1 s2 sg vd) = vertex_map vd"
  "vertexQueue (set_line e s1 s2 sg vd) = vertexQueue vd"
  "modified_vertices (set_line e s1 s2 sg vd) = modified_vertices vd"
  "incident_faces (set_line e s1 s2 sg vd) = incident_faces vd"
  "v0 (set_line e s1 s2 sg vd) = v0 vd"
  by (simp_all add: set_line_def sel_set_parameters sel_set_type)

lemma sel_add_half:
  "vertices (snd (add_half old u w vd)) = vertices vd"
  "vertex_slots (snd (add_half old u w vd)) = vertex_slots vd"
  "faces (snd (add_half old u w vd)) = faces vd"
  "face_slots (snd (add_half old u w vd)) = face_slots vd"
  "vertex_count (snd (add_half old u w vd)) = vertex_count vd"
  "far_radius (snd (add_half old u w vd)) = far_radius vd"
  "num_psites (snd (add_half old u w vd)) = num_psites vd"
  "num_lsites (snd (add_half old u w vd)) = num_lsites vd"
  "vertex_map (snd (add_half old u w vd)) = vertex_map vd"
  "vertexQueue (snd (add_half old u w vd)) = vertexQueue vd"
  "modified_vertices (snd (add_half old u w vd)) = modified_vertices vd"
  "incident_faces (snd (add_half old u w vd)) = incident_faces vd"
  "v0 (snd (add_half old u w vd)) = v0 vd"
  by (simp_all add: add_half_def split_beta sel_upd_edge sel_add_edge)

lemma sel_add_twin_edges:
  "vertices (snd (add_twin_edges u w vd)) = vertices vd"
  "vertex_slots (snd (add_twin_edges u w vd)) = vertex_slots vd"
  "faces (snd (add_twin_edges u w vd)) = faces vd"
  "face_slots (snd (add_twin_edges u w vd)) = face_slots vd"
  "vertex_count (snd (add_twin_edges u w vd)) = vertex_count vd"
  "far_radius (snd (add_twin_edges u w vd)) = far_radius vd"
  "num_psites (snd (add_twin_edges u w vd)) = num_psites vd"
  "num_lsites (snd (add_twin_edges u w vd)) = num_lsites vd"
  "vertex_map (snd (add_twin_edges u w vd)) = vertex_map vd"
  "vertexQueue (snd (add_twin_edges u w vd)) = vertexQueue vd"
  "modified_vertices (snd (add_twin_edges u w vd)) = modified_vertices vd"
  "incident_faces (snd (add_twin_edges u w vd)) = incident_faces vd"
  "v0 (snd (add_twin_edges u w vd)) = v0 vd"
  by (simp_all add: add_twin_edges_def split_beta sel_twin_edges sel_add_edge)

lemma sel_set_next_links:
  "vertices (set_next_links first es vd) = vertices vd"
  "vertex_slots (set_next_links first es vd) = vertex_slots vd"
  "faces (set_next_links first es vd) = faces vd"
  "face_slots (set_next_links first es vd) = face_slots vd"
  "vertex_count (set_next_links first es vd) = vertex_count vd"
  "far_radius (set_next_links first es vd) = far_radius vd"
  "num_psites (set_next_links first es vd) = num_psites vd"
  "num_lsites (set_next_links first es vd) = num_lsites vd"
  "vertex_map (set_next_links first es vd) = vertex_map vd"
  "vertexQueue (set_next_links first es vd) = vertexQueue vd"
  "modified_vertices (set_next_links first es vd) = modified_vertices vd"
  "incident_faces (set_next_links first es vd) = incident_faces vd"
  "v0 (set_next_links first es vd) = v0 vd"
  by (induction first es vd rule: set_next_links.induct; simp add: sel_set_next)+

lemma sel_set_next_chain:
  "vertices (set_next_chain es vd) = vertices vd"
  "vertex_slots (set_next_chain es vd) = vertex_slots vd"
  "faces (set_next_chain es vd) = faces vd"
  "face_slots (set_next_chain es vd) = face_slots vd"
  "vertex_count (set_next_chain es vd) = vertex_count vd"
  "far_radius (set_next_chain es vd) = far_radius vd"
  "num_psites (set_next_chain es vd) = num_psites vd"
  "num_lsites (set_next_chain es vd) = num_lsites vd"
  "vertex_map (set_next_chain es vd) = vertex_map vd"
  "vertexQueue (set_next_chain es vd) = vertexQueue vd"
  "modified_vertices (set_next_chain es vd) = modified_vertices vd"
  "incident_faces (set_next_chain es vd) = incident_faces vd"
  "v0 (set_next_chain es vd) = v0 vd"
  by (induction es vd rule: set_next_chain.induct; simp add: sel_set_next)+

lemma sel_fold_upd_edge:
  "vertices (fold (\<lambda>x. upd_edge x g) es vd) = vertices vd"
  "vertex_slots (fold (\<lambda>x. upd_edge x g) es vd) = vertex_slots vd"
  "faces (fold (\<lambda>x. upd_edge x g) es vd) = faces vd"
  "face_slots (fold (\<lambda>x. upd_edge x g) es vd) = face_slots vd"
  "vertex_count (fold (\<lambda>x. upd_edge x g) es vd) = vertex_count vd"
  "far_radius (fold (\<lambda>x. upd_edge x g) es vd) = far_radius vd"
  "num_psites (fold (\<lambda>x. upd_edge x g) es vd) = num_psites vd"
  "num_lsites (fold (\<lambda>x. upd_edge x g) es vd) = num_lsites vd"
  "vertex_map (fold (\<lambda>x. upd_edge x g) es vd) = vertex_map vd"
  "vertexQueue (fold (\<lambda>x. upd_edge x g) es vd) = vertexQueue vd"
  "modified_vertices (fold (\<lambda>x. upd_edge x g) es vd) = modified_vertices vd"
  "incident_faces (fold (\<lambda>x. upd_edge x g) es vd) = incident_faces vd"
  "v0 (fold (\<lambda>x. upd_edge x g) es vd) = v0 vd"
  by (induction es arbitrary: vd; simp add: sel_upd_edge)+

lemma sel_set_status:
  "vertices (set_status v st vd) = (vertices vd)(v := map_option (\<lambda>x. x\<lparr>status := st\<rparr>) (vertices vd v))"
  "vertex_slots (set_status v st vd) = vertex_slots vd"
  "faces (set_status v st vd) = faces vd"
  "face_slots (set_status v st vd) = face_slots vd"
  "vertex_count (set_status v st vd) = vertex_count vd"
  "far_radius (set_status v st vd) = far_radius vd"
  "num_psites (set_status v st vd) = num_psites vd"
  "num_lsites (set_status v st vd) = num_lsites vd"
  "vertex_map (set_status v st vd) = vertex_map vd"
  "vertexQueue (set_status v st vd) = vertexQueue vd"
  "modified_vertices (set_status v st vd) = modified_vertices vd"
  "incident_faces (set_status v st vd) = incident_faces vd"
  "v0 (set_status v st vd) = v0 vd"
  by (simp_all add: set_status_def sel_upd_vertex)

lemma sel_set_site:
  "vertices (set_site f s vd) = vertices vd"
  "vertex_slots (set_site f s vd) = vertex_slots vd"
  "faces (set_site f s vd) = (faces vd)(f := map_option (\<lambda>fp. fp\<lparr>site := Some s\<rparr>) (faces vd f))"
  "face_slots (set_site f s vd) = face_slots vd"
  "vertex_count (set_site f s vd) = vertex_count vd"
  "far_radius (set_site f s vd) = far_radius vd"
  "num_psites (set_site f s vd) = num_psites vd"
  "num_lsites (set_site f s vd) = num_lsites vd"
  "vertex_map (set_site f s vd) = vertex_map vd"
  "vertexQueue (set_site f s vd) = vertexQueue vd"
  "modified_vertices (set_site f s vd) = modified_vertices vd"
  "incident_faces (set_site f s vd) = incident_faces vd"
  "v0 (set_site f s vd) = v0 vd"
  by (simp_all add: set_site_def sel_upd_face)

lemma sel_set_fstatus:
  "vertices (set_fstatus f st vd) = vertices vd"
  "vertex_slots (set_fstatus f st vd) = vertex_slots vd"
  "faces (set_fstatus f st vd) = (faces vd)(f := map_option (\<lambda>fp. fp\<lparr>fstatus := st\<rparr>) (faces vd f))"
  "face_slots (set_fstatus f st vd) = face_slots vd"
  "vertex_count (set_fstatus f st vd) = vertex_count vd"
  "far_radius (set_fstatus f st vd) = far_radius vd"
  "num_psites (set_fstatus f st vd) = num_psites vd"
  "num_lsites (set_fstatus f st vd) = num_lsites vd"
  "vertex_map (set_fstatus f st vd) = vertex_map vd"
  "vertexQueue (set_fstatus f st vd) = vertexQueue vd"
  "modified_vertices (set_fstatus f st vd) = modified_vertices vd"
  "incident_faces (set_fstatus f st vd) = incident_faces vd"
  "v0 (set_fstatus f st vd) = v0 vd"
  by (simp_all add: set_fstatus_def sel_upd_face)

lemmas sel = sel_upd_edge sel_remove_edge sel_add_edge sel_fgrid_add_face sel_upd_vertex sel_upd_face sel_add_vertex sel_g_add_face sel_modified_insert sel_modified_erase sel_push_incident sel_delete_vertex sel_twin_edges sel_set_next sel_set_type sel_set_parameters sel_set_line sel_add_half sel_add_twin_edges sel_set_next_links sel_set_next_chain sel_fold_upd_edge sel_set_status sel_set_site sel_set_fstatus

lemma steady_eqI:
  assumes "vertices vd' = vertices vd" "vertex_slots vd' = vertex_slots vd" "vertex_count vd' = vertex_count vd"
    "vertex_map vd' = vertex_map vd" "num_psites vd' = num_psites vd" "num_lsites vd' = num_lsites vd"
    "far_radius vd' = far_radius vd" "modified_vertices vd' = modified_vertices vd"
    "incident_faces vd' = incident_faces vd" "face_slots vd' = face_slots vd"
    "\<And>f fp'. faces vd' f = Some fp' \<Longrightarrow> \<exists>fp. faces vd f = Some fp \<and> fstatus fp' = fstatus fp"
  shows "steady vd vd'"
  unfolding steady_def listed_def using assms by (auto; metis)

lemma add_vertex_in_edge_steady: "add_vertex_in_edge v e vd = Ok vd' \<Longrightarrow> steady vd vd'"
  apply (clarsimp simp: add_vertex_in_edge_def bind_eq_Ok Let_def split_beta)
  apply (rule steady_eqI)
           apply (simp_all add: sel)
  apply (auto split: if_splits)
  done

lemma push_incident_steady: "steady vd (push_incident f (set_fstatus f INCIDENT vd))"
  by (auto simp: steady_def listed_def sel split: if_splits)

lemma mark_faces_p_loop_steady: "mark_faces_p_loop es vd = Ok vd' \<Longrightarrow> steady vd vd'"
proof (induction es arbitrary: vd)
  case Nil
  then show ?case by (simp add: steady_refl)
next
  case (Cons e es)
  then show ?case
    by (auto simp: bind_eq_Ok split: if_splits intro: steady_trans [OF push_incident_steady])
qed

lemma mark_adjacent_faces_p_steady: "mark_adjacent_faces_p v s vd = Ok vd' \<Longrightarrow> steady vd vd'"
  by (auto simp: mark_adjacent_faces_p_def bind_eq_Ok dest: mark_faces_p_loop_steady)

lemma enqueue_steady:
  "steady vd (upd_vertex w (\<lambda>x. x\<lparr>in_queue := True\<rparr>) (vd\<lparr>vertexQueue := q\<rparr>))"
  by (auto simp: steady_def listed_def sel split: if_splits)

lemma push_neighbours_steady: "push_neighbours ext s es vd = Ok vd' \<Longrightarrow> steady vd vd'"
proof (induction es arbitrary: vd)
  case Nil
  then show ?case by (simp add: steady_refl)
next
  case (Cons e es)
  then show ?case
    by (auto simp: bind_eq_Ok split: if_splits intro: steady_trans [OF enqueue_steady])
qed

lemma mark_IN_steady: "steady vd (modified_insert v ((set_status v IN vd)\<lparr>v0 := l\<rparr>))"
  by (auto simp: steady_def listed_def sel split: if_splits)

lemma add_split_step_steady:
  "add_vertex_in_edge (fst (add_vertex p UNDECIDED SPLIT gn kk vd)) e (snd (add_vertex p UNDECIDED SPLIT gn kk vd)) = Ok vd'
     \<Longrightarrow> steady vd vd'"
proof -
  have "steady vd (snd (add_vertex p UNDECIDED SPLIT gn kk vd))"
    by (auto simp: steady_def listed_def sel new_VoronoiVertex_def split: if_splits)
  then show "add_vertex_in_edge (fst (add_vertex p UNDECIDED SPLIT gn kk vd)) e (snd (add_vertex p UNDECIDED SPLIT gn kk vd)) = Ok vd'
     \<Longrightarrow> steady vd vd'"
    by (blast intro: steady_trans add_vertex_in_edge_steady)
qed

lemma add_split_loop_steady: "add_split_loop ext pt1 pt2 es vd = Ok vd' \<Longrightarrow> steady vd vd'"
proof (induction es arbitrary: vd)
  case Nil
  then show ?case by (simp add: steady_refl)
next
  case (Cons e es)
  then show ?case
    by (auto simp: bind_eq_Ok split_beta Let_def steady_refl split: if_splits option.splits
        intro: steady_trans [OF add_split_step_steady])
qed

lemma add_split_vertex_steady: "add_split_vertex ext f s vd = Ok vd' \<Longrightarrow> steady vd vd'"
  by (auto simp: add_split_vertex_def bind_eq_Ok Let_def steady_refl split: if_splits
      dest: add_split_loop_steady)

lemma mark_faces_loop_steady: "mark_faces_loop ext s fs vd = Ok vd' \<Longrightarrow> steady vd vd'"
proof (induction fs arbitrary: vd)
  case Nil
  then show ?case by (simp add: steady_refl)
next
  case (Cons f fs)
  then show ?case
    by (auto simp: bind_eq_Ok split: if_splits
        intro: steady_trans [OF push_incident_steady]
               steady_trans [OF add_split_vertex_steady steady_trans [OF push_incident_steady]])
qed

lemma mark_adjacent_faces_steady: "mark_adjacent_faces ext v s vd = Ok vd' \<Longrightarrow> steady vd vd'"
  by (auto simp: mark_adjacent_faces_def bind_eq_Ok Let_def dest: mark_faces_loop_steady)

lemma mark_vertex_steady: "mark_vertex ext v s vd = Ok vd' \<Longrightarrow> steady vd vd'"
  by (auto simp: mark_vertex_def bind_eq_Ok Let_def split: if_splits
      intro: steady_trans [OF mark_IN_steady steady_trans [OF mark_adjacent_faces_p_steady push_neighbours_steady]]
             steady_trans [OF mark_IN_steady steady_trans [OF mark_adjacent_faces_steady push_neighbours_steady]])

lemma set_OUT_steady: "steady vd (set_status v OUT vd)"
  by (auto simp: steady_def listed_def sel split: if_splits)

lemma modified_insert_steady: "steady vd (modified_insert v vd)"
  by (auto simp: steady_def listed_def sel)

lemma dequeue_steady: "steady vd (vd\<lparr>vertexQueue := q\<rparr>)"
  by (auto simp: steady_def listed_def)

lemma augment_step_steady: "augment_step ext s v h vd = Ok vd' \<Longrightarrow> steady vd vd'"
  by (auto simp: augment_step_def bind_eq_Ok Let_def split: if_splits
      intro: steady_trans [OF dequeue_steady steady_trans [OF set_OUT_steady modified_insert_steady]]
             steady_trans [OF dequeue_steady steady_trans [OF mark_vertex_steady modified_insert_steady]])

lemma augment_loop_steady: "augment_loop ext s fuel vd = Ok vd' \<Longrightarrow> steady vd vd'"
proof (induction fuel arbitrary: vd)
  case 0
  then show ?case
    by (auto simp: augment_loop.simps [of _ _ 0] steady_refl split: option.splits)
next
  case (Suc n)
  then show ?case
    by (auto simp: augment_loop.simps [of _ _ "Suc n"] bind_eq_Ok steady_refl split: option.splits)
      (blast intro: steady_trans augment_step_steady)
qed

lemma augment_vertex_set_steady: "augment_vertex_set ext s vd = Ok vd' \<Longrightarrow> steady vd vd'"
  by (auto simp: augment_vertex_set_def bind_eq_Ok dest: augment_loop_steady)

lemma add_NEW_steady:
  "steady vd (modified_insert (fst (add_vertex p NEW ty gn kk vd)) (snd (add_vertex p NEW ty gn kk vd)))"
  by (auto simp: steady_def listed_def sel add_vertex_def new_VoronoiVertex_def split: if_splits)

lemma add_vertices_loop_steady: "add_vertices_loop ext s es vd = Ok vd' \<Longrightarrow> steady vd vd'"
proof (induction es arbitrary: vd)
  case Nil
  then show ?case by (simp add: steady_refl)
next
  case (Cons e es)
  then show ?case
    by (auto simp: bind_eq_Ok split_beta Let_def
        intro: steady_trans [OF add_NEW_steady steady_trans [OF add_vertex_in_edge_steady]])
qed

lemma add_vertices_steady: "add_vertices ext s vd = Ok vd' \<Longrightarrow> steady vd vd'"
  by (auto simp: add_vertices_def bind_eq_Ok dest: add_vertices_loop_steady)

lemma add_face_steady: "steady vd (snd (add_face s vd))"
  by (auto simp: add_face_def split_beta Let_def steady_def listed_def sel split: if_splits)

lemma sel_set_next_chain_face:
  "vertices (set_next_chain_face es f kk vd) = vertices vd"
  "vertex_slots (set_next_chain_face es f kk vd) = vertex_slots vd"
  "vertex_count (set_next_chain_face es f kk vd) = vertex_count vd"
  "far_radius (set_next_chain_face es f kk vd) = far_radius vd"
  "num_psites (set_next_chain_face es f kk vd) = num_psites vd"
  "num_lsites (set_next_chain_face es f kk vd) = num_lsites vd"
  "vertex_map (set_next_chain_face es f kk vd) = vertex_map vd"
  "modified_vertices (set_next_chain_face es f kk vd) = modified_vertices vd"
  "incident_faces (set_next_chain_face es f kk vd) = incident_faces vd"
  "face_slots (set_next_chain_face es f kk vd) = face_slots vd"
  "v0 (set_next_chain_face es f kk vd) = v0 vd"
  "vertexQueue (set_next_chain_face es f kk vd) = vertexQueue vd"
  "faces (set_next_chain_face es f kk vd) =
     (case es of [] \<Rightarrow> faces vd
      | e # rest \<Rightarrow> (faces vd)(f := map_option (\<lambda>fp. fp\<lparr>edge := Some e\<rparr>) (faces vd f)))"
  by (simp_all add: set_next_chain_face_def sel split: list.splits)

lemma add_single_edge_steady:
  "add_single_edge ext ed f_site new_site new_face src_sign src vd = Ok vd' \<Longrightarrow> steady vd vd'"
  apply (clarsimp simp: add_single_edge_def bind_eq_Ok Let_def split_beta)
  apply (rule steady_eqI)
           apply (simp_all add: sel)
  apply (auto split: if_splits)
  done

lemma fst_add_vertex: "fst (add_vertex p st ty gn kk vd) = vertex_slots vd"
  by (simp add: add_vertex_def)

lemma apex_final_steady:
  assumes "vertices X = vertices (snd (add_vertex p NEW ty gn kk vd))"
    "vertex_slots X = vertex_slots (snd (add_vertex p NEW ty gn kk vd))"
    "vertex_count X = vertex_count (snd (add_vertex p NEW ty gn kk vd))"
    "vertex_map X = vertex_map vd" "num_psites X = num_psites vd" "num_lsites X = num_lsites vd"
    "far_radius X = far_radius vd" "modified_vertices X = modified_vertices vd"
    "incident_faces X = incident_faces vd" "face_slots X = face_slots vd"
    "\<And>f fp'. faces X f = Some fp' \<Longrightarrow> \<exists>fp. faces vd f = Some fp \<and> fstatus fp' = fstatus fp"
  shows "steady vd (modified_insert (vertex_slots vd) (upd_vertex (vertex_slots vd) g X))"
  unfolding steady_def listed_def using assms
  by (auto simp: sel split: if_splits; metis)

lemma add_apex_split_steady:
  "add_apex_split ext ed f_site new_site new_face src_sign trg_sign src vd = Ok vd' \<Longrightarrow> steady vd vd'"
  apply (clarsimp simp: add_apex_split_def bind_eq_Ok Let_def split_beta fst_add_vertex)
  apply (rule apex_final_steady [where p = "Point (Finite 0) (Finite 0)" and ty = APEX and gn = None and kk = 0])
            apply (simp_all (no_asm) add: sel sel_set_next_chain_face)
  apply (auto simp: sel sel_set_next_chain_face split: if_splits)
  done

lemma add_edge_he_steady: "add_edge_he ext ed newface newface2 vd = Ok vd' \<Longrightarrow> steady vd vd'"
  by (auto simp: add_edge_he_def bind_eq_Ok split_beta split: if_splits
      dest: add_single_edge_steady add_apex_split_steady)

lemma add_edges_loop_steady:
  "add_edges_loop ext newface f newface2 m startverts vd = Ok vd' \<Longrightarrow> steady vd vd'"
proof (induction m arbitrary: startverts vd)
  case 0
  then show ?case
    by (simp add: add_edges_loop.simps [of _ _ _ _ 0] steady_refl)
next
  case (Suc m)
  then show ?case
    by (auto simp: add_edges_loop.simps [of _ _ _ _ "Suc m"] bind_eq_Ok)
      (blast intro: steady_trans add_edge_he_steady)
qed

lemma add_edges_steady: "add_edges ext newface f newface2 vd = Ok vd' \<Longrightarrow> steady vd vd'"
  by (auto simp: add_edges_def bind_eq_Ok dest: add_edges_loop_steady)

lemma add_edges_all_steady: "add_edges_all ext newface fs vd = Ok vd' \<Longrightarrow> steady vd vd'"
proof (induction fs arbitrary: vd)
  case Nil
  then show ?case by (simp add: steady_refl)
next
  case (Cons f fs)
  then show ?case
    by (auto simp: bind_eq_Ok) (blast intro: steady_trans add_edges_steady)
qed

lemma upd_edge_steady: "steady vd (upd_edge e f vd)"
  by (rule steady_eqI) (simp_all add: sel)

lemma set_next_steady: "steady vd (set_next a b vd)"
  by (rule steady_eqI) (simp_all add: sel)

lemma repair_candidates_steady:
  "repair_candidates ext f current es found vd = Ok (b, vd') \<Longrightarrow> steady vd vd'"
proof (induction es arbitrary: found vd)
  case Nil
  then show ?case by (simp add: steady_refl)
next
  case (Cons e es)
  then show ?case
    by (auto simp: bind_eq_Ok Let_def split: if_splits)
      (blast intro: steady_trans upd_edge_steady set_next_steady steady_refl)+
qed

lemma repair_loop_steady: "repair_loop ext f start fuel current vd = Ok vd' \<Longrightarrow> steady vd vd'"
proof (induction fuel arbitrary: current vd)
  case 0
  then show ?case
    by (simp add: repair_loop.simps [of _ _ _ 0])
next
  case (Suc n)
  then show ?case
    by (auto simp: repair_loop.simps [of _ _ _ "Suc n"] bind_eq_Ok split_beta split: if_splits)
      (blast intro: steady_trans repair_candidates_steady)+
qed

lemma repair_face_steady: "repair_face ext f vd = Ok vd' \<Longrightarrow> steady vd vd'"
  by (auto simp: repair_face_def bind_eq_Ok dest: repair_loop_steady)

lemma delete_steady: "steady vd (modified_erase v (delete_vertex v vd))"
  by (auto simp: steady_def listed_def sel split: if_splits)

lemma remove_vertex_loop_steady: "remove_vertex_loop vs vd = Ok vd' \<Longrightarrow> steady vd vd'"
proof (induction vs arbitrary: vd)
  case Nil
  then show ?case by (simp add: steady_refl)
next
  case (Cons v vs)
  then show ?case
    by (auto simp: bind_eq_Ok intro: steady_trans [OF delete_steady])
qed

lemma remove_vertex_set_steady: "remove_vertex_set vd = Ok vd' \<Longrightarrow> steady vd vd'"
  by (simp add: remove_vertex_set_def remove_vertex_loop_steady)

lemma vertex_reset_idem: "vertex_reset (vertex_reset x) = vertex_reset x"
  by (simp add: vertex_reset_def)

lemma reset_vertices_Ok:
  "reset_vertices vs vd = Ok vd' \<Longrightarrow>
     vd' = vd\<lparr>vertices := (\<lambda>v. if v \<in> set vs then map_option vertex_reset (vertices vd v) else vertices vd v)\<rparr>"
proof (induction vs arbitrary: vd)
  case Nil
  then show ?case by simp
next
  case (Cons v vs)
  from Cons.prems have "reset_vertices vs (upd_vertex v vertex_reset vd) = Ok vd'"
    by (auto simp: bind_eq_Ok)
  from Cons.IH [OF this] show ?case
    by (auto simp: upd_vertex_def fun_eq_iff vertex_reset_idem option.map_comp comp_def
        intro!: arg_cong [where f = "\<lambda>m. vertices_update m vd"] split: option.splits)
qed

lemma reset_faces_Ok:
  "reset_faces fs vd = Ok vd' \<Longrightarrow>
     vd' = vd\<lparr>faces := (\<lambda>f. if f \<in> set fs then map_option (\<lambda>fp. fp\<lparr>fstatus := NONINCIDENT\<rparr>) (faces vd f)
                            else faces vd f)\<rparr>"
proof (induction fs arbitrary: vd)
  case Nil
  then show ?case by simp
next
  case (Cons f fs)
  from Cons.prems have "reset_faces fs (set_fstatus f NONINCIDENT vd) = Ok vd'"
    by (auto simp: bind_eq_Ok)
  from Cons.IH [OF this] show ?case
    by (auto simp: set_fstatus_def upd_face_def fun_eq_iff option.map_comp comp_def
        intro!: arg_cong [where f = "\<lambda>m. faces_update m vd"] split: option.splits)
qed

lemma reset_status_Ok:
  "reset_status vd = Ok vd' \<Longrightarrow>
     vd' = vd\<lparr>vertices := (\<lambda>v. if v \<in> set (modified_vertices vd) then map_option vertex_reset (vertices vd v)
                              else vertices vd v),
             faces := (\<lambda>f. if f \<in> set (incident_faces vd)
                            then map_option (\<lambda>fp. fp\<lparr>fstatus := NONINCIDENT\<rparr>) (faces vd f) else faces vd f),
             modified_vertices := [], incident_faces := [], v0 := []\<rparr>"
  by (auto simp: reset_status_def bind_eq_Ok dest!: reset_vertices_Ok reset_faces_Ok cong: if_cong)

lemma set_vface_steady: "steady vd (upd_vertex v (\<lambda>x. x\<lparr>vface := f\<rparr>) vd)"
  by (auto simp: steady_def listed_def sel split: if_splits)

lemma insert_point_site_complete:
  assumes "insert_point_site ext p step vd = Ok (r, vd')" and "step < 1 \<or> 5 < step"
  shows "\<exists>vdN. steady (entered p vd) vdN \<and> reset_status vdN = Ok vd'
           \<and> new_vertex_index vd' (vertex_slots vd) = Ok r"
proof -
  from assms obtain v_seed vd1 vd2 vd3 vd4 vd5 vd6 where
    s1: "mark_vertex ext v_seed (PointSite p None) (entered p vd) = Ok vd1"
    and s2: "augment_vertex_set ext (PointSite p None) vd1 = Ok vd2"
    and s3: "add_vertices ext (PointSite p None) vd2 = Ok vd3"
    and s4: "add_edges_all ext (fst (add_face (PointSite p None) vd3))
               (incident_faces (upd_vertex (vertex_slots vd) (\<lambda>x. x\<lparr>vface := Some (fst (add_face (PointSite p None) vd3))\<rparr>)
                  (snd (add_face (PointSite p None) vd3))))
               (upd_vertex (vertex_slots vd) (\<lambda>x. x\<lparr>vface := Some (fst (add_face (PointSite p None) vd3))\<rparr>)
                  (snd (add_face (PointSite p None) vd3))) = Ok vd4"
    and s5: "repair_face ext (fst (add_face (PointSite p None) vd3)) vd4 = Ok vd5"
    and s6: "remove_vertex_set vd5 = Ok vd6"
    and s7: "reset_status vd6 = Ok vd'"
    and s8: "new_vertex_index vd' (vertex_slots vd) = Ok r"
    by (auto simp: insert_point_site_def Let_def bind_eq_Ok split_beta entered_def
        add_vertex_def insert_point_site_entry_def new_vertex_index_def get_vertex_def new_VoronoiVertex_def)
  have "steady (entered p vd) vd3"
    using s1 s2 s3 by (blast intro: steady_trans mark_vertex_steady augment_vertex_set_steady add_vertices_steady)
  moreover have "steady vd3 vd4"
    using s4 by (blast intro: steady_trans add_face_steady set_vface_steady add_edges_all_steady)
  moreover have "steady vd4 vd6"
    using s5 s6 by (blast intro: steady_trans repair_face_steady remove_vertex_set_steady)
  ultimately have "steady (entered p vd) vd6"
    by (blast intro: steady_trans)
  with s7 s8 show ?thesis
    by blast
qed

lemma entered_sel:
  "vertex_slots (entered p vd) = Suc (vertex_slots vd)"
  "vertex_count (entered p vd) = vertex_count vd + 1"
  "vertex_map (entered p vd) = map_insert (vertex_count vd) (vertex_slots vd) (vertex_map vd)"
  "num_psites (entered p vd) = num_psites vd + 1"
  "num_lsites (entered p vd) = num_lsites vd"
  "far_radius (entered p vd) = far_radius vd"
  "face_slots (entered p vd) = face_slots vd"
  "faces (entered p vd) = faces vd"
  "modified_vertices (entered p vd) = modified_vertices vd"
  "incident_faces (entered p vd) = incident_faces vd"
  "vertices (entered p vd) = (vertices vd)(vertex_slots vd \<mapsto> new_VoronoiVertex (vertex_count vd) p OUT POINTSITE None 0)"
  by (simp_all add: entered_def insert_point_site_entry_def add_vertex_def)

lemma settled_iff:
  "settled vd \<longleftrightarrow>
     (\<forall>v x. v < vertex_slots vd \<longrightarrow> vertices vd v = Some x \<longrightarrow> status x = UNDECIDED \<or> status x = OUT)
     \<and> (\<forall>f fp. f < face_slots vd \<longrightarrow> faces vd f = Some fp \<longrightarrow> fstatus fp = NONINCIDENT)"
  by (auto simp: settled_def list_all_iff vertex_status_def face_status_def Ball_def; force)

lemma settled_entered: "settled vd \<Longrightarrow> listed (entered p vd)"
  by (auto simp: settled_iff listed_def entered_sel new_VoronoiVertex_def less_Suc_eq split: if_splits)

lemma reset_settles:
  assumes "listed vd" and "reset_status vd = Ok vd'"
  shows "settled vd' \<and> modified_vertices vd' = [] \<and> incident_faces vd' = [] \<and> v0 vd' = []"
proof -
  note r = reset_status_Ok [OF assms(2)]
  have sel': "vertices vd' = (\<lambda>v. if v \<in> set (modified_vertices vd) then map_option vertex_reset (vertices vd v)
                              else vertices vd v)"
    "faces vd' = (\<lambda>f. if f \<in> set (incident_faces vd)
                            then map_option (\<lambda>fp. fp\<lparr>fstatus := NONINCIDENT\<rparr>) (faces vd f) else faces vd f)"
    "vertex_slots vd' = vertex_slots vd" "face_slots vd' = face_slots vd"
    "modified_vertices vd' = []" "incident_faces vd' = []" "v0 vd' = []"
    by (subst r, simp)+
  have v: "status x = UNDECIDED \<or> status x = OUT"
    if "v < vertex_slots vd'" "vertices vd' v = Some x" for v x
  proof (cases "v \<in> set (modified_vertices vd)")
    case True
    with that show ?thesis
      by (auto simp: sel' vertex_reset_def)
  next
    case False
    with that assms(1) have "status x \<noteq> IN" "status x \<noteq> NEW"
      by (auto simp: sel' listed_def)
    then show ?thesis
      by (cases "status x") simp_all
  qed
  have f: "fstatus fp = NONINCIDENT" if "f < face_slots vd'" "faces vd' f = Some fp" for f fp
  proof (cases "f \<in> set (incident_faces vd)")
    case True
    with that show ?thesis
      by (auto simp: sel')
  next
    case False
    with that assms(1) have "fstatus fp \<noteq> INCIDENT"
      by (auto simp: sel' listed_def)
    then show ?thesis
      by (cases "fstatus fp") simp_all
  qed
  show ?thesis
    unfolding settled_iff using v f sel'(5,6,7) by blast
qed

lemma completed_insertion:
  assumes ins: "insert_point_site ext p step vd = Ok (r, vd')" and step: "step < 1 \<or> 5 < step"
  shows "r = vertex_count vd"
    and "vertex_map vd' = map_insert (vertex_count vd) (vertex_slots vd) (vertex_map vd)"
    and "num_psites vd' = num_psites vd + 1"
    and "num_lsites vd' = num_lsites vd"
    and "far_radius vd' = far_radius vd"
    and "vertex_kind vd' (vertex_slots vd) = Some POINTSITE"
    and "vertex_position vd' (vertex_slots vd) = Some p"
    and "vertex_count vd < vertex_count vd'"
    and "vertex_slots vd < vertex_slots vd'"
    and "settled vd \<Longrightarrow> settled vd' \<and> modified_vertices vd' = [] \<and> incident_faces vd' = [] \<and> v0 vd' = []"
proof -
  from insert_point_site_complete [OF ins step] obtain vdN where
    st: "steady (entered p vd) vdN" and rs: "reset_status vdN = Ok vd'"
    and ix: "new_vertex_index vd' (vertex_slots vd) = Ok r"
    by blast
  note r = reset_status_Ok [OF rs]
  from ix obtain x' where x': "vertices vd' (vertex_slots vd) = Some x'" "r = index x'"
    by (auto simp: new_vertex_index_def get_vertex_def bind_eq_Ok split: option.splits)
  have sel': "vertex_map vd' = vertex_map vdN" "num_psites vd' = num_psites vdN"
    "num_lsites vd' = num_lsites vdN" "far_radius vd' = far_radius vdN"
    "vertex_count vd' = vertex_count vdN" "vertex_slots vd' = vertex_slots vdN"
    by (subst r, simp)+
  from x' obtain xN where xN: "vertices vdN (vertex_slots vd) = Some xN" "index x' = index xN"
    "vtype x' = vtype xN" "position x' = position xN"
    by (subst (asm) r) (auto simp: vertex_reset_def split: if_splits)
  from st xN obtain x where x: "vertices (entered p vd) (vertex_slots vd) = Some x" "index xN = index x"
    "vtype xN = vtype x" "position xN = position x"
    unfolding steady_def entered_sel by (metis lessI)
  from x have x0: "index x = vertex_count vd" "vtype x = POINTSITE" "position x = p"
    by (auto simp: entered_sel new_VoronoiVertex_def)
  show "r = vertex_count vd"
    using x' xN x x0 by simp
  show "vertex_map vd' = map_insert (vertex_count vd) (vertex_slots vd) (vertex_map vd)"
    using st sel' by (simp add: steady_def entered_sel)
  show "num_psites vd' = num_psites vd + 1" "num_lsites vd' = num_lsites vd" "far_radius vd' = far_radius vd"
    using st sel' by (simp_all add: steady_def entered_sel)
  show "vertex_kind vd' (vertex_slots vd) = Some POINTSITE" "vertex_position vd' (vertex_slots vd) = Some p"
    using x' xN x x0 by (simp_all add: vertex_kind_def vertex_position_def)
  show "vertex_count vd < vertex_count vd'" "vertex_slots vd < vertex_slots vd'"
    using st sel' by (simp_all add: steady_def entered_sel)
  show "settled vd' \<and> modified_vertices vd' = [] \<and> incident_faces vd' = [] \<and> v0 vd' = []" if "settled vd"
  proof -
    from that have "listed (entered p vd)"
      by (rule settled_entered)
    with st have "listed vdN"
      by (simp add: steady_def)
    then show ?thesis
      using rs by (rule reset_settles)
  qed
qed

section \<open>The value a call returns\<close>


lemma afterI: "(\<And>x. m = Ok x \<Longrightarrow> P x) \<Longrightarrow> after m P"
  by (cases m) (simp_all add: after_def)

lemma run_view_Ok:
  "run_view (Ok (r, vd)) =
          Some (r, (num_psites vd, vertex_count vd, vertex_map vd r),
                (map (vertex_status vd) [0..<vertex_slots vd], map (vertex_kind vd) [0..<vertex_slots vd],
                 map (face_status vd) [0..<face_slots vd]),
                (modified_vertices vd, incident_faces vd, v0 vd))"
  "run_view (Fail e s) = None"
  by (simp_all add: run_view_def)

lemma run_view_cong: "m = m' \<Longrightarrow> run_view m = run_view m'"
  by simp

lemma run_view_SomeD:
  "run_view m = Some (r, (np, vc, vm), (ss, ks, fs), (mv, ifs, vz)) \<Longrightarrow>
     \<exists>vd. m = Ok (r, vd) \<and> num_psites vd = np \<and> vertex_count vd = vc \<and> vertex_map vd r = vm
          \<and> map (vertex_status vd) [0..<vertex_slots vd] = ss
          \<and> map (vertex_kind vd) [0..<vertex_slots vd] = ks
          \<and> map (face_status vd) [0..<face_slots vd] = fs
          \<and> modified_vertices vd = mv \<and> incident_faces vd = ifs \<and> v0 vd = vz"
  by (cases m) (auto simp: run_view_def split: prod.splits)





lemma sample_run:
  "run_view (insert_point_site sample_ext (Point (Finite 0) (Finite 0)) 0 frame_vd) =
     Some (0, (4, 4, Some 10),
           ([None, Some OUT, Some OUT, Some OUT, Some OUT, Some OUT, Some OUT, None,
             None, None, Some OUT, Some UNDECIDED, Some UNDECIDED, Some UNDECIDED],
            [None, Some OUTER, Some OUTER, Some OUTER, Some POINTSITE,
             Some POINTSITE, Some POINTSITE, None, None, None, Some POINTSITE,
             Some NORMAL, Some NORMAL, Some NORMAL],
            [Some NONINCIDENT, Some NONINCIDENT, Some NONINCIDENT, Some NONINCIDENT]),
           ([], [], []))"
  by (simp del: One_nat_def upt_rec_numeral add: run_exact run_view_Ok frame_vd_def sample_ext_def
      cong: let_weak_cong case_prod_weak_cong bind_weak_cong run_view_cong)



section \<open>The seed vertex and the far radius\<close>

lemma seed_run:
  "find_seed_vertex seed_ext seed_vd 0 seed_site = Ok 0
   \<and> face_ring seed_vd 0 = Ok [0, 1]
   \<and> g_target seed_vd 0 = Ok 0
   \<and> g_target seed_vd 1 = Ok 1
   \<and> vertex_position seed_vd 0 = Some (Point (Finite (- 1)) (Finite 1))
   \<and> vertex_kind seed_vd 0 = Some NORMAL
   \<and> vertex_status seed_vd 0 = Some UNDECIDED
   \<and> \<not> in_region (arith seed_ext) seed_site (Point (Finite (- 1)) (Finite 1))
   \<and> vertex_position seed_vd 1 = Some (Point (Finite (1 / 2)) (Finite 1))
   \<and> vertex_kind seed_vd 1 = Some NORMAL
   \<and> vertex_status seed_vd 1 = Some UNDECIDED
   \<and> in_region (arith seed_ext) seed_site (Point (Finite (1 / 2)) (Finite 1))"
  by (simp del: One_nat_def upt_rec_numeral
      add: run_exact seed_vd_def seed_ext_def sample_ext_def seed_site_def line_param_def
      cong: let_weak_cong case_prod_weak_cong bind_weak_cong)

text \<open>
  C2 fails in the code. On the face of \<open>seed_vd\<close> the seed search for the segment
  \<open>seed_site\<close> returns the vertex \<open>q1\<close>, which is NORMAL and not OUT but does not lie in
  the region of the segment: the first candidate of the ring is taken whatever
  \<open>in_region\<close> says of it. The vertex \<open>q2\<close> of the same ring satisfies all three
  constraints and has a negative in-circle value.
\<close>

theorem seed_vertex_outside_region:
  "find_seed_vertex seed_ext seed_vd 0 seed_site = Ok 0
   \<and> vertex_position seed_vd 0 = Some (Point (Finite (- 1)) (Finite 1))
   \<and> \<not> in_region (arith seed_ext) seed_site (Point (Finite (- 1)) (Finite 1))
   \<and> face_ring seed_vd 0 = Ok [0, 1]
   \<and> g_target seed_vd 1 = Ok 1
   \<and> vertex_position seed_vd 1 = Some (Point (Finite (1 / 2)) (Finite 1))
   \<and> vertex_kind seed_vd 1 = Some NORMAL
   \<and> vertex_status seed_vd 1 = Some UNDECIDED
   \<and> in_region (arith seed_ext) seed_site (Point (Finite (1 / 2)) (Finite 1))"
  using seed_run by simp

lemma frame_vd_counters:
  "far_radius frame_vd = Finite 1 \<and> num_psites frame_vd = 3 \<and> num_lsites frame_vd = 0
   \<and> vertex_count frame_vd = 0 \<and> vertex_slots frame_vd = 10 \<and> face_slots frame_vd = 3
   \<and> vertex_map frame_vd = Map.empty"
  by (simp del: One_nat_def upt_rec_numeral add: run frame_vd_def
      cong: let_weak_cong case_prod_weak_cong bind_weak_cong)

lemma insert_point_site_outside:
  "\<not> d_lt (arith ext) (pnorm (arith ext) p) (far_radius vd) \<Longrightarrow>
     insert_point_site ext p step vd =
       Fail (AssertFailed ''p.norm() < far_radius'') (insert_point_site_entry vd)"
  by (simp add: insert_point_site_def Let_def assert_def insert_point_site_entry_def)

text \<open>
  C8 fails in the code. With far radius 1 the call \<open>insert_point_site(Point(2, 0))\<close>
  stops at the assertion on the norm, but \<open>num_psites++\<close> comes before the assertion:
  the engine that the failing call leaves behind counts four point sites, the engine
  before the call counted three.
\<close>

theorem precondition_failure_counts:
  "insert_point_site sample_ext (Point (Finite 2) (Finite 0)) 0 frame_vd
     = Fail (AssertFailed ''p.norm() < far_radius'') (insert_point_site_entry frame_vd)
   \<and> far_radius frame_vd = Finite 1
   \<and> pnorm (arith sample_ext) (Point (Finite 2) (Finite 0)) = Finite 2
   \<and> num_point_sites frame_vd = 3
   \<and> num_point_sites (insert_point_site_entry frame_vd) = 4"
  using insert_point_site_outside [of sample_ext "Point (Finite 2) (Finite 0)" frame_vd 0] frame_vd_counters
  by (simp add: sample_ext_def exact_norm exact_ops num_point_sites_def insert_point_site_entry_def)

section \<open>Statuses between operations\<close>




lemma slots_counters:
  "vertex_slots (vd\<lparr>num_psites := a, num_lsites := b, vertex_count := c\<rparr>) = vertex_slots vd"
  "face_slots (vd\<lparr>num_psites := a, num_lsites := b, vertex_count := c\<rparr>) = face_slots vd"
  by simp_all







section \<open>Counters\<close>

lemma stepped_insertion_steady:
  assumes "insert_point_site ext p step vd = Ok (r, vd')" and "1 \<le> step" and "step \<le> 5"
  shows "steady (entered p vd) vd'"
proof -
  from assms(2,3) consider "step = 1" | "step = 2" | "step = 3" | "step = 4" | "step = 5"
    by arith
  then show ?thesis
  proof cases
    case 1
    with assms(1) obtain v_seed where "mark_vertex ext v_seed (PointSite p None) (entered p vd) = Ok vd'"
      by (auto simp: insert_point_site_def Let_def bind_eq_Ok split_beta entered_def
        add_vertex_def insert_point_site_entry_def new_vertex_index_def get_vertex_def new_VoronoiVertex_def)
    then show ?thesis
      by (rule mark_vertex_steady)
  next
    case 2
    with assms(1) obtain v_seed vd1 where "mark_vertex ext v_seed (PointSite p None) (entered p vd) = Ok vd1"
      "augment_vertex_set ext (PointSite p None) vd1 = Ok vd'"
      by (auto simp: insert_point_site_def Let_def bind_eq_Ok split_beta entered_def
        add_vertex_def insert_point_site_entry_def new_vertex_index_def get_vertex_def new_VoronoiVertex_def)
    then show ?thesis
      by (blast intro: steady_trans mark_vertex_steady augment_vertex_set_steady)
  next
    case 3
    with assms(1) obtain v_seed vd1 vd2 where "mark_vertex ext v_seed (PointSite p None) (entered p vd) = Ok vd1"
      "augment_vertex_set ext (PointSite p None) vd1 = Ok vd2"
      "add_vertices ext (PointSite p None) vd2 = Ok vd'"
      by (auto simp: insert_point_site_def Let_def bind_eq_Ok split_beta entered_def
        add_vertex_def insert_point_site_entry_def new_vertex_index_def get_vertex_def new_VoronoiVertex_def)
    then show ?thesis
      by (blast intro: steady_trans mark_vertex_steady augment_vertex_set_steady add_vertices_steady)
  next
    case 4
    with assms(1) obtain v_seed vd1 vd2 vd3 where a: "mark_vertex ext v_seed (PointSite p None) (entered p vd) = Ok vd1"
      "augment_vertex_set ext (PointSite p None) vd1 = Ok vd2"
      "add_vertices ext (PointSite p None) vd2 = Ok vd3"
      and b: "add_edges_all ext (fst (add_face (PointSite p None) vd3))
               (incident_faces (upd_vertex (vertex_slots vd) (\<lambda>x. x\<lparr>vface := Some (fst (add_face (PointSite p None) vd3))\<rparr>)
                  (snd (add_face (PointSite p None) vd3))))
               (upd_vertex (vertex_slots vd) (\<lambda>x. x\<lparr>vface := Some (fst (add_face (PointSite p None) vd3))\<rparr>)
                  (snd (add_face (PointSite p None) vd3))) = Ok vd'"
      by (auto simp: insert_point_site_def Let_def bind_eq_Ok split_beta entered_def
        add_vertex_def insert_point_site_entry_def new_vertex_index_def get_vertex_def new_VoronoiVertex_def)
    have "steady (entered p vd) vd3"
      using a by (blast intro: steady_trans mark_vertex_steady augment_vertex_set_steady add_vertices_steady)
    moreover have "steady vd3 vd'"
      using b by (blast intro: steady_trans add_face_steady set_vface_steady add_edges_all_steady)
    ultimately show ?thesis
      by (rule steady_trans)
  next
    case 5
    with assms(1) obtain v_seed vd1 vd2 vd3 vd4 vd5 where a: "mark_vertex ext v_seed (PointSite p None) (entered p vd) = Ok vd1"
      "augment_vertex_set ext (PointSite p None) vd1 = Ok vd2"
      "add_vertices ext (PointSite p None) vd2 = Ok vd3"
      and b: "add_edges_all ext (fst (add_face (PointSite p None) vd3))
               (incident_faces (upd_vertex (vertex_slots vd) (\<lambda>x. x\<lparr>vface := Some (fst (add_face (PointSite p None) vd3))\<rparr>)
                  (snd (add_face (PointSite p None) vd3))))
               (upd_vertex (vertex_slots vd) (\<lambda>x. x\<lparr>vface := Some (fst (add_face (PointSite p None) vd3))\<rparr>)
                  (snd (add_face (PointSite p None) vd3))) = Ok vd4"
      and c: "repair_face ext (fst (add_face (PointSite p None) vd3)) vd4 = Ok vd5"
        "remove_vertex_set vd5 = Ok vd'"
      by (auto simp: insert_point_site_def Let_def bind_eq_Ok split_beta entered_def
        add_vertex_def insert_point_site_entry_def new_vertex_index_def get_vertex_def new_VoronoiVertex_def)
    have "steady (entered p vd) vd3"
      using a by (blast intro: steady_trans mark_vertex_steady augment_vertex_set_steady add_vertices_steady)
    moreover have "steady vd3 vd4"
      using b by (blast intro: steady_trans add_face_steady set_vface_steady add_edges_all_steady)
    moreover have "steady vd4 vd'"
      using c by (blast intro: steady_trans repair_face_steady remove_vertex_set_steady)
    ultimately show ?thesis
      by (blast intro: steady_trans)
  qed
qed

lemma stepped_insertion_counts:
  assumes "insert_point_site ext p step vd = Ok (r, vd')"
  shows "num_psites vd' = num_psites vd + 1 \<and> num_lsites vd' = num_lsites vd"
proof (cases "step < 1 \<or> 5 < step")
  case True
  from completed_insertion(3,4) [OF assms True] show ?thesis by simp
next
  case False
  then have "1 \<le> step" "step \<le> 5" by arith+
  from stepped_insertion_steady [OF assms this] show ?thesis
    by (simp add: steady_def entered_sel)
qed

lemma sample_points:
  "points_view (insert_points sample_ext [Point (Finite 0) (Finite 0)] frame_vd) = Some ([(0, 10)], 4, 0)"
proof -
  from run_view_SomeD [OF sample_run] obtain vd1 where
    i: "insert_point_site sample_ext (Point (Finite 0) (Finite 0)) 0 frame_vd = Ok (0, vd1)"
    and n: "num_psites vd1 = 4"
    by blast
  from stepped_insertion_counts [OF i] frame_vd_counters have l: "num_lsites vd1 = 0"
    by simp
  show ?thesis
    using i n l frame_vd_counters by (simp add: points_view_def)
qed

lemma constructed_counters:
  assumes "new_VoronoiDiagram ext far n_bins = Ok vd"
  shows "num_psites vd = 3 \<and> num_lsites vd = 0 \<and> vertex_map vd = Map.empty"
proof -
  have "vertex_map (initialize_graph (arith ext) (empty_diagram far)) = Map.empty"
    by (simp del: One_nat_def upt_rec_numeral add: run
        cong: let_weak_cong case_prod_weak_cong bind_weak_cong)
  then show ?thesis
    using new_VoronoiDiagram_Ok [OF assms] by simp
qed

section \<open>Indices and the index map\<close>

lemma map_below_insert:
  assumes "map_below vd" and "insert_point_site ext p step vd = Ok (r, vd')" and "step < 1 \<or> 5 < step"
  shows "map_below vd'" and "vertex_map vd' = (vertex_map vd)(r \<mapsto> vertex_slots vd)"
    and "vertex_map vd r = None"
proof -
  note c = completed_insertion [OF assms(2,3)]
  from assms(1) have none: "vertex_map vd (vertex_count vd) = None"
    unfolding map_below_def by (cases "vertex_map vd (vertex_count vd)") auto
  then show m: "vertex_map vd' = (vertex_map vd)(r \<mapsto> vertex_slots vd)"
    using c(1,2) by (simp add: map_insert_def)
  show "vertex_map vd r = None"
    using none c(1) by simp
  show "map_below vd'"
    using assms(1) c(1,8) unfolding map_below_def m by (auto split: if_splits)
qed

lemma insert_points_facts:
  assumes "map_below vd" and "insert_points ext ps vd = Ok (rs, vd')"
  shows "map_below vd' \<and> vertex_count vd \<le> vertex_count vd' \<and> vertex_slots vd \<le> vertex_slots vd'
       \<and> num_psites vd' = num_psites vd + int (length ps) \<and> num_lsites vd' = num_lsites vd
       \<and> length rs = length ps
       \<and> (\<forall>k v. vertex_map vd k = Some v \<longrightarrow> vertex_map vd' k = Some v)
       \<and> (\<forall>(r, h) \<in> set rs. vertex_map vd' r = Some h \<and> vertex_count vd \<le> r \<and> vertex_slots vd \<le> h)"
  using assms
proof (induction ps arbitrary: vd rs)
  case Nil
  then show ?case by simp
next
  case (Cons p ps)
  from Cons.prems(2) obtain r vd1 rs1 where
    i: "insert_point_site ext p 0 vd = Ok (r, vd1)" and
    r: "insert_points ext ps vd1 = Ok (rs1, vd')" and
    rs: "rs = (r, vertex_slots vd) # rs1"
    by (auto simp: bind_eq_Ok)
  have step: "(0::int) < 1 \<or> 5 < (0::int)" by simp
  note c = completed_insertion [OF i step]
  note m = map_below_insert [OF Cons.prems(1) i step]
  note ih = Cons.IH [OF m(1) r]
  have keep: "vertex_map vd' k = Some v" if "vertex_map vd k = Some v" for k v
  proof -
    from that m(3) have "k \<noteq> r" by auto
    with that have "vertex_map vd1 k = Some v" by (simp add: m(2))
    with ih show ?thesis by blast
  qed
  have new: "vertex_map vd' r = Some (vertex_slots vd)"
    using ih m(2) by simp
  have rest: "\<forall>(r', h) \<in> set rs1. vertex_map vd' r' = Some h \<and> vertex_count vd \<le> r' \<and> vertex_slots vd \<le> h"
    using ih c(8,9) by fastforce
  show ?case
    using ih c(1,3,4,8,9) keep new rest unfolding rs by auto
qed





text \<open>
  The counter of point sites. A fresh engine counts three point sites and no line
  site; once a client has inserted the \<open>N\<close> points of a list, the engine counts \<open>N + 3\<close>
  point sites and still no line site. Every call of \<open>insert_point_site\<close> that returns,
  whatever its \<open>step\<close>, has added one to the first counter and left the second.
\<close>

theorem point_site_counter:
  "after (new_VoronoiDiagram ext far n_bins)
     (\<lambda>vd0. num_point_sites vd0 = 3 \<and> num_line_sites vd0 = 0
        \<and> after (insert_points ext ps vd0)
            (\<lambda>(rs, vd'). num_point_sites vd' = int (length ps) + 3 \<and> num_line_sites vd' = 0))
   \<and> after (insert_point_site ext p step vd)
       (\<lambda>(r, vd'). num_point_sites vd' = num_point_sites vd + 1 \<and> num_line_sites vd' = num_line_sites vd)"
proof (intro conjI)
  show "after (new_VoronoiDiagram ext far n_bins)
     (\<lambda>vd0. num_point_sites vd0 = 3 \<and> num_line_sites vd0 = 0
        \<and> after (insert_points ext ps vd0)
            (\<lambda>(rs, vd'). num_point_sites vd' = int (length ps) + 3 \<and> num_line_sites vd' = 0))"
  proof (rule afterI)
    fix vd0 assume c: "new_VoronoiDiagram ext far n_bins = Ok vd0"
    note k = constructed_counters [OF c]
    have m: "map_below vd0"
      using k by (simp add: map_below_def)
    have "after (insert_points ext ps vd0)
            (\<lambda>(rs, vd'). num_point_sites vd' = int (length ps) + 3 \<and> num_line_sites vd' = 0)"
    proof (rule afterI)
      fix x assume x: "insert_points ext ps vd0 = Ok x"
      obtain rs vd' where [simp]: "x = (rs, vd')" by (cases x)
      from x have "insert_points ext ps vd0 = Ok (rs, vd')" by simp
      from insert_points_facts [OF m this] k
      show "case x of (rs, vd') \<Rightarrow> num_point_sites vd' = int (length ps) + 3 \<and> num_line_sites vd' = 0"
        by (simp add: num_point_sites_def num_line_sites_def)
    qed
    with k show "num_point_sites vd0 = 3 \<and> num_line_sites vd0 = 0
        \<and> after (insert_points ext ps vd0)
            (\<lambda>(rs, vd'). num_point_sites vd' = int (length ps) + 3 \<and> num_line_sites vd' = 0)"
      by (simp add: num_point_sites_def num_line_sites_def)
  qed
  show "after (insert_point_site ext p step vd)
       (\<lambda>(r, vd'). num_point_sites vd' = num_point_sites vd + 1 \<and> num_line_sites vd' = num_line_sites vd)"
  proof (rule afterI)
    fix x assume x: "insert_point_site ext p step vd = Ok x"
    obtain r vd' where [simp]: "x = (r, vd')" by (cases x)
    from x have "insert_point_site ext p step vd = Ok (r, vd')" by simp
    from stepped_insertion_counts [OF this]
    show "case x of (r, vd') \<Rightarrow> num_point_sites vd' = num_point_sites vd + 1 \<and> num_line_sites vd' = num_line_sites vd"
      by (simp add: num_point_sites_def num_line_sites_def)
  qed
qed

theorem point_site_counter_witness:
  "after (new_VoronoiDiagram sample_ext (Finite 1) 10)
     (\<lambda>vd0. num_point_sites vd0 = 3 \<and> num_line_sites vd0 = 0
        \<and> after (insert_points sample_ext [Point (Finite 0) (Finite 0)] vd0)
            (\<lambda>(rs, vd'). num_point_sites vd' = 4 \<and> num_line_sites vd' = 0))
   \<and> new_VoronoiDiagram sample_ext (Finite 1) 10 = Ok frame_vd
   \<and> points_view (insert_points sample_ext [Point (Finite 0) (Finite 0)] frame_vd) = Some ([(0, 10)], 4, 0)"
  using point_site_counter [of sample_ext "Finite 1" 10 "[Point (Finite 0) (Finite 0)]"]
    new_VoronoiDiagram_sample sample_points
  by simp


end
